theory Spec2Isabelle
  imports Main "HOL-Library.Word"
begin

unbundle bit_operations_syntax

section \<open>Machine types and failure values\<close>

text \<open>
  The driver code works on C unsigned integers.  \<open>uint32_t\<close> is a 32-bit word whose
  arithmetic wraps around; \<open>VkDeviceSize\<close> is the 64-bit size type of the Vulkan API.
  A failed \<open>assert\<close> and a division by zero abort the program; they are values of
  \<open>error\<close>, and every function that can reach one returns \<open>error + result\<close>.
\<close>

type_synonym uint32_t = "32 word"
type_synonym VkDeviceSize = "64 word"

datatype error = AssertionFailed | DivisionByZero | UninitializedValue

section \<open>Tiling geometry: \<open>framebuffer_size_for_pixel_count\<close>\<close>

definition max_dim_pixels :: uint32_t where
  "max_dim_pixels = 4096"

definition max_pixels :: uint32_t where
  "max_pixels = max_dim_pixels * max_dim_pixels"

text \<open>
  The loop of \<open>framebuffer_size_for_pixel_count\<close>:
  \<^verbatim>\<open>while (w > max_dim_pixels || ((w % 2) == 0 && w > 2 * h)) { w >>= 1; h <<= 1; }\<close>
\<close>

function size_loop :: "uint32_t \<Rightarrow> uint32_t \<Rightarrow> uint32_t \<times> uint32_t" where
  "size_loop w h =
     (if w > max_dim_pixels \<or> (w mod 2 = 0 \<and> w > 2 * h)
      then size_loop (drop_bit 1 w) (push_bit 1 h)
      else (w, h))"
  by pat_completeness auto
termination
proof (relation "measure (\<lambda>(w, h). unat w)")
  show "wf (measure (\<lambda>(w :: uint32_t, h :: uint32_t). unat w))" by simp
next
  fix w h :: uint32_t
  assume c: "w > max_dim_pixels \<or> (w mod 2 = 0 \<and> w > 2 * h)"
  have "w \<noteq> 0" using c by (auto simp: max_dim_pixels_def)
  then have "0 < unat w" by (simp add: unat_gt_0)
  moreover have "unat (drop_bit 1 w) = unat w div 2"
    by (simp add: drop_bit_eq_div unat_div_distrib)
  ultimately have "unat (drop_bit 1 w) < unat w" by simp
  then show "((drop_bit 1 w, push_bit 1 h), (w, h)) \<in> measure (\<lambda>(w, h). unat w)" by simp
qed

declare size_loop.simps [simp del]

text \<open>
  The function writes its two results through pointers; the model returns them as a
  pair.  The four assertions of the source are kept in their order.
\<close>

definition framebuffer_size_for_pixel_count ::
  "uint32_t \<Rightarrow> error + (uint32_t \<times> uint32_t)" where
  "framebuffer_size_for_pixel_count num_pixels =
     (if \<not> num_pixels > 0 then Inl AssertionFailed
      else
        let (w, h) = (if num_pixels > max_pixels
                      then (max_dim_pixels, max_dim_pixels)
                      else size_loop num_pixels 1)
        in if \<not> (w \<le> max_dim_pixels \<and> h \<le> max_dim_pixels) then Inl AssertionFailed
           else if \<not> (w * h \<le> num_pixels) then Inl AssertionFailed
           else if \<not> (w > 0 \<and> h > 0) then Inl AssertionFailed
           else Inr (w, h))"

text \<open>
  The near-square preference rule in the specification's words, on natural numbers:
  stage \<open>k\<close> of the rule is the rectangle reached after halving the width and doubling
  the height \<open>k\<close> times, and the rule goes on from a rectangle while its width is above
  4096, or is even and more than twice its height.
\<close>

definition near_square_stage :: "nat \<Rightarrow> nat \<Rightarrow> nat \<times> nat" where
  "near_square_stage n k = (n div 2 ^ k, 2 ^ k)"

definition near_square_continues :: "nat \<times> nat \<Rightarrow> bool" where
  "near_square_continues p = (fst p > 4096 \<or> (even (fst p) \<and> fst p > 2 * snd p))"

section \<open>Vulkan and hardware enumerations\<close>

text \<open>
  The enumerations below come from the Vulkan headers and from the generated V3D packet
  headers, which the driver includes.  Only the members that the modelled functions name
  are constructors of their own; every other member is \<open>_other n\<close>.
\<close>

type_synonym VkImageAspectFlags = uint32_t

definition VK_IMAGE_ASPECT_COLOR_BIT :: VkImageAspectFlags where
  "VK_IMAGE_ASPECT_COLOR_BIT = 1"

definition VK_IMAGE_ASPECT_DEPTH_BIT :: VkImageAspectFlags where
  "VK_IMAGE_ASPECT_DEPTH_BIT = 2"

definition VK_IMAGE_ASPECT_STENCIL_BIT :: VkImageAspectFlags where
  "VK_IMAGE_ASPECT_STENCIL_BIT = 4"

definition VK_SAMPLE_COUNT_1_BIT :: uint32_t where
  "VK_SAMPLE_COUNT_1_BIT = 1"


datatype VkFormat =
    VK_FORMAT_UNDEFINED
  | VK_FORMAT_D16_UNORM
  | VK_FORMAT_D32_SFLOAT
  | VK_FORMAT_X8_D24_UNORM_PACK32
  | VK_FORMAT_D24_UNORM_S8_UINT
  | VK_FORMAT_R8G8B8A8_UINT
  | VK_FORMAT_R8G8_UINT
  | VK_FORMAT_R8_UINT
  | VK_FORMAT_other nat

datatype VkImageType = VK_IMAGE_TYPE_1D | VK_IMAGE_TYPE_2D | VK_IMAGE_TYPE_3D

datatype v3d_output_image_format =
    V3D_OUTPUT_IMAGE_FORMAT_SRGB8_ALPHA8
  | V3D_OUTPUT_IMAGE_FORMAT_R16UI
  | V3D_OUTPUT_IMAGE_FORMAT_R32F
  | V3D_OUTPUT_IMAGE_FORMAT_RGBA8UI
  | V3D_OUTPUT_IMAGE_FORMAT_RG8UI
  | V3D_OUTPUT_IMAGE_FORMAT_R8UI
  | V3D_OUTPUT_IMAGE_FORMAT_NO
  | V3D_OUTPUT_IMAGE_FORMAT_other nat

datatype v3d_internal_type =
    V3D_INTERNAL_TYPE_8UI
  | V3D_INTERNAL_TYPE_16UI
  | V3D_INTERNAL_TYPE_32F
  | V3D_INTERNAL_TYPE_other nat

text \<open>The internal bits-per-pixel classes are compared with \<open>>=\<close>, so they stay numbers.\<close>

definition V3D_INTERNAL_BPP_32 :: uint32_t where
  "V3D_INTERNAL_BPP_32 = 0"

definition V3D_INTERNAL_BPP_64 :: uint32_t where
  "V3D_INTERNAL_BPP_64 = 1"

definition V3D_INTERNAL_BPP_128 :: uint32_t where
  "V3D_INTERNAL_BPP_128 = 2"

datatype pipe_swizzle =
    PIPE_SWIZZLE_X | PIPE_SWIZZLE_Y | PIPE_SWIZZLE_Z | PIPE_SWIZZLE_W
  | PIPE_SWIZZLE_0 | PIPE_SWIZZLE_1 | PIPE_SWIZZLE_NONE

datatype v3d_tiling_mode =
    VC5_TILING_RASTER
  | VC5_TILING_LINEARTILE
  | VC5_TILING_UBLINEAR_1_COLUMN
  | VC5_TILING_UBLINEAR_2_COLUMN
  | VC5_TILING_UIF_NO_XOR
  | VC5_TILING_UIF_XOR

datatype tlb_buffer = RENDER_TARGET_0 | NONE | Z | STENCIL | ZSTENCIL

datatype decimate_mode =
    V3D_DECIMATE_MODE_SAMPLE_0
  | V3D_DECIMATE_MODE_4X
  | V3D_DECIMATE_MODE_ALL_SAMPLES

section \<open>Driver structures\<close>

text \<open>
  A buffer object is identified by a handle and has a 32-bit size.  A control-list
  address is a buffer object (absent in a zero-initialised packet) and an offset.
\<close>

record v3dv_bo =
  handle :: nat
  bo_size :: uint32_t

record cl_address =
  addr_bo :: "v3dv_bo option"
  addr_offset :: uint32_t

definition v3dv_cl_address :: "v3dv_bo \<Rightarrow> uint32_t \<Rightarrow> cl_address" where
  "v3dv_cl_address b off = \<lparr>addr_bo = Some b, addr_offset = off\<rparr>"

record v3dv_frame_tiling =
  width :: uint32_t
  height :: uint32_t
  layers :: uint32_t
  internal_bpp :: uint32_t
  tile_width :: uint32_t
  tile_height :: uint32_t
  draw_tiles_x :: uint32_t
  draw_tiles_y :: uint32_t
  supertile_width :: uint32_t
  supertile_height :: uint32_t
  frame_width_in_supertiles :: uint32_t
  frame_height_in_supertiles :: uint32_t

record v3dv_format =
  rt_type :: v3d_output_image_format

record framebuffer_data =
  internal_type :: v3d_internal_type
  min_x_supertile :: uint32_t
  min_y_supertile :: uint32_t
  max_x_supertile :: uint32_t
  max_y_supertile :: uint32_t
  vk_format :: VkFormat
  format :: v3dv_format

record v3d_resource_slice =
  tiling :: v3d_tiling_mode
  padded_height_of_output_image_in_uif_blocks :: uint32_t
  stride :: uint32_t

text \<open>
  Of an image the fields that the modelled functions read: \<open>type\<close>, \<open>extent.depth\<close>,
  the per-level \<open>slices\<close> array (a function of the mip level), \<open>cpp\<close>, \<open>samples\<close> and
  the buffer object \<open>mem->bo\<close>.
\<close>

record v3dv_image =
  image_type :: VkImageType
  extent_depth :: uint32_t
  slices :: "uint32_t \<Rightarrow> v3d_resource_slice"
  cpp :: uint32_t
  samples :: uint32_t
  image_mem_bo :: v3dv_bo

record v3dv_buffer =
  buffer_size :: VkDeviceSize
  buffer_mem_bo :: v3dv_bo

text \<open>
  \<open>union v3dv_clear_value\<close> overlays \<open>struct { float z; uint8_t s; }\<close> on
  \<open>uint32_t color[4]\<close>: \<open>z\<close> is the bit pattern of \<open>color[0]\<close> and \<open>s\<close> the low byte of
  \<open>color[1]\<close>.  Floats are carried as their 32-bit patterns; \<open>1.0f\<close> is \<open>0x3f800000\<close>.
\<close>

record v3dv_clear_value =
  color :: "nat \<Rightarrow> uint32_t"

definition clear_value_z :: "v3dv_clear_value \<Rightarrow> uint32_t" where
  "clear_value_z cv = color cv 0"

definition clear_value_s :: "v3dv_clear_value \<Rightarrow> 8 word" where
  "clear_value_s cv = ucast (color cv 1)"

record rcl_clear_info =
  clear_value :: v3dv_clear_value
  clear_image :: "v3dv_image option"
  aspects :: VkImageAspectFlags
  clear_layer :: uint32_t
  level :: uint32_t

record VkImageSubresourceLayers =
  aspectMask :: VkImageAspectFlags
  mipLevel :: uint32_t
  baseArrayLayer :: uint32_t
  layerCount :: uint32_t

record VkExtent3D =
  extent3d_width :: uint32_t
  extent3d_height :: uint32_t
  extent3d_depth :: uint32_t

record VkBufferImageCopy =
  bufferOffset :: VkDeviceSize
  bufferRowLength :: uint32_t
  bufferImageHeight :: uint32_t
  imageSubresource :: VkImageSubresourceLayers
  imageExtent :: VkExtent3D

record VkBufferCopy =
  srcOffset :: VkDeviceSize
  dstOffset :: VkDeviceSize
  copy_size :: VkDeviceSize

section \<open>Control-list packets\<close>

text \<open>
  \<open>cl_emit\<close> starts every packet from zero and the block that follows sets fields.  A
  packet is a constructor of \<open>cl_packet\<close> carrying the fields that the code sets; the
  two general load and store packets are records, with the zero packet as the default.
\<close>

record load_tile_buffer_general =
  buffer_to_load :: tlb_buffer
  load_address :: cl_address
  input_image_format :: v3d_output_image_format
  load_memory_format :: v3d_tiling_mode
  load_height_in_ub_or_stride :: uint32_t
  load_decimate_mode :: decimate_mode
  load_r_b_swap :: bool
  load_channel_reverse :: bool

record store_tile_buffer_general =
  buffer_to_store :: tlb_buffer
  store_address :: cl_address
  clear_buffer_being_stored :: bool
  output_image_format :: v3d_output_image_format
  store_memory_format :: v3d_tiling_mode
  store_height_in_ub_or_stride :: uint32_t
  store_decimate_mode :: decimate_mode
  store_r_b_swap :: bool
  store_channel_reverse :: bool

definition zero_address :: cl_address where
  "zero_address = \<lparr>addr_bo = None, addr_offset = 0\<rparr>"

definition zero_load :: load_tile_buffer_general where
  "zero_load =
     \<lparr>buffer_to_load = RENDER_TARGET_0, load_address = zero_address,
      input_image_format = V3D_OUTPUT_IMAGE_FORMAT_SRGB8_ALPHA8,
      load_memory_format = VC5_TILING_RASTER, load_height_in_ub_or_stride = 0,
      load_decimate_mode = V3D_DECIMATE_MODE_SAMPLE_0,
      load_r_b_swap = False, load_channel_reverse = False\<rparr>"

definition zero_store :: store_tile_buffer_general where
  "zero_store =
     \<lparr>buffer_to_store = RENDER_TARGET_0, store_address = zero_address,
      clear_buffer_being_stored = False,
      output_image_format = V3D_OUTPUT_IMAGE_FORMAT_SRGB8_ALPHA8,
      store_memory_format = VC5_TILING_RASTER, store_height_in_ub_or_stride = 0,
      store_decimate_mode = V3D_DECIMATE_MODE_SAMPLE_0,
      store_r_b_swap = False, store_channel_reverse = False\<rparr>"

record tile_rendering_mode_cfg_common =
  early_z_disable :: bool
  image_width_pixels :: uint32_t
  image_height_pixels :: uint32_t
  number_of_render_targets :: uint32_t
  multisample_mode_4x :: bool
  maximum_bpp_of_all_render_targets :: uint32_t

record multicore_rendering_supertile_cfg =
  number_of_bin_tile_lists :: uint32_t
  total_frame_width_in_tiles :: uint32_t
  total_frame_height_in_tiles :: uint32_t
  supertile_width_in_tiles :: uint32_t
  supertile_height_in_tiles :: uint32_t
  total_frame_width_in_supertiles :: uint32_t
  total_frame_height_in_supertiles :: uint32_t

text \<open>
  Arguments of the constructors, in the order of the fields in the source:
  \<open>CLEAR_COLORS_PART1 low_32 next_24\<close>, \<open>CLEAR_COLORS_PART2 mid_low_32 mid_high_24\<close>,
  \<open>CLEAR_COLORS_PART3 uif_padded_height_in_uif_blocks high_16\<close> (the render target
  number is 0 in all three), \<open>CFG_COLOR internal_bpp internal_type\<close> (clamp none),
  \<open>ZS_CLEAR_VALUES z s\<close>, \<open>TILE_LIST_SET_BASE offset\<close> (the address is that offset
  into the job's tile allocation buffer), \<open>SUPERTILE_COORDINATES column row\<close> and
  \<open>START_ADDRESS_OF_GENERIC_TILE_LIST start end\<close>, whose two relocations are positions in
  the indirect list, counted in packets.
\<close>

datatype cl_packet =
    TILE_RENDERING_MODE_CFG_COMMON tile_rendering_mode_cfg_common
  | TILE_RENDERING_MODE_CFG_CLEAR_COLORS_PART1 uint32_t uint32_t
  | TILE_RENDERING_MODE_CFG_CLEAR_COLORS_PART2 uint32_t uint32_t
  | TILE_RENDERING_MODE_CFG_CLEAR_COLORS_PART3 uint32_t uint32_t
  | TILE_RENDERING_MODE_CFG_COLOR uint32_t v3d_internal_type
  | TILE_RENDERING_MODE_CFG_ZS_CLEAR_VALUES uint32_t "8 word"
  | TILE_LIST_INITIAL_BLOCK_SIZE
  | MULTICORE_RENDERING_TILE_LIST_SET_BASE uint32_t
  | MULTICORE_RENDERING_SUPERTILE_CFG multicore_rendering_supertile_cfg
  | TILE_COORDINATES
  | TILE_COORDINATES_IMPLICIT
  | END_OF_LOADS
  | BRANCH_TO_IMPLICIT_TILE_LIST
  | LOAD_TILE_BUFFER_GENERAL load_tile_buffer_general
  | STORE_TILE_BUFFER_GENERAL store_tile_buffer_general
  | CLEAR_TILE_BUFFERS
  | END_OF_TILE_MARKER
  | RETURN_FROM_SUB_LIST
  | FLUSH_VCD_CACHE
  | START_ADDRESS_OF_GENERIC_TILE_LIST nat nat
  | SUPERTILE_COORDINATES nat nat
  | END_OF_RENDERING

text \<open>
  A job owns its frame tiling, the render control list \<open>rcl\<close> and the indirect tile list
  \<open>indirect\<close>; the binning list is not modelled, since none of the modelled functions
  writes it.  A command buffer is the list of its finished jobs, oldest first.
\<close>

record v3dv_job =
  frame_tiling :: v3dv_frame_tiling
  rcl :: "cl_packet list"
  indirect :: "cl_packet list"

record v3dv_cmd_buffer =
  jobs :: "v3dv_job list"

text \<open>
  Functions of the driver that the file calls and that live in other files.  They are
  parameters of the model: every result below holds for any implementation of them.
  \<^item> \<open>v3dv_get_format\<close>, \<open>v3dv_get_format_swizzle\<close>: the format tables;
  \<^item> \<open>v3dv_zs_buffer_from_aspect_bits\<close>: the depth/stencil tile buffer of an aspect mask;
  \<^item> \<open>v3dv_layer_offset image level layer\<close>: the byte offset of a layer;
  \<^item> \<open>v3d_utile_height\<close> and \<open>align\<close>: tiling arithmetic;
  \<^item> \<open>v3dv_cmd_buffer_start_job\<close>: whether a new job can be allocated (the C function
    returns \<open>NULL\<close> when it cannot); a new job has empty control lists;
  \<^item> \<open>v3dv_job_start_frame width height layers render_targets bpp\<close>: the frame tiling
    that it computes for the job.
\<close>

record externals =
  v3dv_get_format :: "VkFormat \<Rightarrow> v3dv_format"
  v3dv_get_format_swizzle :: "VkFormat \<Rightarrow> nat \<Rightarrow> pipe_swizzle"
  v3dv_zs_buffer_from_aspect_bits :: "VkImageAspectFlags \<Rightarrow> tlb_buffer"
  v3dv_layer_offset :: "v3dv_image \<Rightarrow> uint32_t \<Rightarrow> uint32_t \<Rightarrow> uint32_t"
  v3d_utile_height :: "uint32_t \<Rightarrow> uint32_t"
  align :: "uint32_t \<Rightarrow> uint32_t \<Rightarrow> uint32_t"
  v3dv_cmd_buffer_start_job :: "v3dv_cmd_buffer \<Rightarrow> bool"
  v3dv_job_start_frame ::
    "uint32_t \<Rightarrow> uint32_t \<Rightarrow> uint32_t \<Rightarrow> uint32_t \<Rightarrow> uint32_t \<Rightarrow> v3dv_frame_tiling"

definition v3dv_cmd_buffer_finish_job :: "v3dv_cmd_buffer \<Rightarrow> v3dv_job \<Rightarrow> v3dv_cmd_buffer" where
  "v3dv_cmd_buffer_finish_job cmd_buffer job = cmd_buffer\<lparr>jobs := jobs cmd_buffer @ [job]\<rparr>"

section \<open>Framebuffer data and format selection\<close>

text \<open>
  \<open>setup_framebuffer_data\<close> divides by the supertile size in pixels; a zero divisor is
  the failure \<open>DivisionByZero\<close>.
\<close>

definition setup_framebuffer_data ::
  "externals \<Rightarrow> VkFormat \<Rightarrow> v3d_internal_type \<Rightarrow> v3dv_frame_tiling \<Rightarrow> error + framebuffer_data" where
  "setup_framebuffer_data ext vk_fmt int_type ft =
     (let supertile_w_in_pixels = tile_width ft * supertile_width ft;
          supertile_h_in_pixels = tile_height ft * supertile_height ft
      in if supertile_w_in_pixels = 0 \<or> supertile_h_in_pixels = 0 then Inl DivisionByZero
         else Inr \<lparr>internal_type = int_type,
                   min_x_supertile = 0,
                   min_y_supertile = 0,
                   max_x_supertile = (width ft - 1) div supertile_w_in_pixels,
                   max_y_supertile = (height ft - 1) div supertile_h_in_pixels,
                   vk_format = vk_fmt,
                   format = v3dv_get_format ext vk_fmt\<rparr>)"

definition choose_tlb_format ::
  "framebuffer_data \<Rightarrow> VkImageAspectFlags \<Rightarrow> bool \<Rightarrow> bool \<Rightarrow> bool
     \<Rightarrow> error + v3d_output_image_format" where
  "choose_tlb_format framebuffer aspect for_store is_copy_to_buffer is_copy_from_buffer =
     (if is_copy_to_buffer \<or> is_copy_from_buffer then
        (case vk_format framebuffer of
           VK_FORMAT_D16_UNORM \<Rightarrow> Inr V3D_OUTPUT_IMAGE_FORMAT_R16UI
         | VK_FORMAT_D32_SFLOAT \<Rightarrow> Inr V3D_OUTPUT_IMAGE_FORMAT_R32F
         | VK_FORMAT_X8_D24_UNORM_PACK32 \<Rightarrow> Inr V3D_OUTPUT_IMAGE_FORMAT_RGBA8UI
         | VK_FORMAT_D24_UNORM_S8_UINT \<Rightarrow>
             if aspect AND VK_IMAGE_ASPECT_DEPTH_BIT \<noteq> 0
             then Inr V3D_OUTPUT_IMAGE_FORMAT_RGBA8UI
             else if \<not> (aspect AND VK_IMAGE_ASPECT_STENCIL_BIT \<noteq> 0) then Inl AssertionFailed
             else if is_copy_to_buffer
               then Inr (if for_store then V3D_OUTPUT_IMAGE_FORMAT_R8UI
                         else V3D_OUTPUT_IMAGE_FORMAT_RGBA8UI)
             else if \<not> is_copy_from_buffer then Inl AssertionFailed
             else Inr (if for_store then V3D_OUTPUT_IMAGE_FORMAT_RGBA8UI
                       else V3D_OUTPUT_IMAGE_FORMAT_R8UI)
         | _ \<Rightarrow> Inr (rt_type (format framebuffer)))
      else Inr (rt_type (format framebuffer)))"

definition format_needs_rb_swap :: "externals \<Rightarrow> VkFormat \<Rightarrow> bool" where
  "format_needs_rb_swap ext fmt = (v3dv_get_format_swizzle ext fmt 0 = PIPE_SWIZZLE_Z)"

section \<open>The render control list\<close>

definition emit_rcl_prologue ::
  "externals \<Rightarrow> v3dv_job \<Rightarrow> v3d_internal_type \<Rightarrow> rcl_clear_info option \<Rightarrow> error + v3dv_job" where
  "emit_rcl_prologue ext job rt_internal_type clear_info =
     (let ft = frame_tiling job;
          rcl1 = rcl job @
            [TILE_RENDERING_MODE_CFG_COMMON
               \<lparr>early_z_disable = True,
                image_width_pixels = width ft,
                image_height_pixels = height ft,
                number_of_render_targets = 1,
                multisample_mode_4x = False,
                maximum_bpp_of_all_render_targets = internal_bpp ft\<rparr>];
          rcl2 =
            (case clear_info of
               None \<Rightarrow> Inr rcl1
             | Some ci \<Rightarrow>
                 if aspects ci AND VK_IMAGE_ASPECT_COLOR_BIT \<noteq> 0 then
                   (let clear_pad =
                          (case clear_image ci of
                             None \<Rightarrow> Inr 0
                           | Some img \<Rightarrow>
                               (let slice = slices img (level ci) in
                                if tiling slice = VC5_TILING_UIF_NO_XOR \<or>
                                   tiling slice = VC5_TILING_UIF_XOR
                                then
                                  (let uif_block_height = v3d_utile_height ext (cpp img) * 2 in
                                   if uif_block_height = 0 then Inl DivisionByZero
                                   else
                                     (let implicit_padded_height =
                                            align ext (height ft) uif_block_height
                                              div uif_block_height
                                      in if padded_height_of_output_image_in_uif_blocks slice
                                              - implicit_padded_height \<ge> 15
                                         then Inr (padded_height_of_output_image_in_uif_blocks slice)
                                         else Inr 0))
                                else Inr 0))
                    in case clear_pad of
                         Inl e \<Rightarrow> Inl e
                       | Inr pad \<Rightarrow>
                           (let c = color (clear_value ci);
                                part1 = [TILE_RENDERING_MODE_CFG_CLEAR_COLORS_PART1
                                           (c 0) (c 1 AND 0x00ffffff)];
                                part2 =
                                  (if internal_bpp ft \<ge> V3D_INTERNAL_BPP_64
                                   then [TILE_RENDERING_MODE_CFG_CLEAR_COLORS_PART2
                                           (drop_bit 24 (c 1) OR push_bit 8 (c 2))
                                           (drop_bit 24 (c 2) OR push_bit 8 (c 3 AND 0xffff))]
                                   else []);
                                part3 =
                                  (if internal_bpp ft \<ge> V3D_INTERNAL_BPP_128 \<or> pad \<noteq> 0
                                   then [TILE_RENDERING_MODE_CFG_CLEAR_COLORS_PART3
                                           pad (drop_bit 16 (c 3))]
                                   else [])
                            in Inr (rcl1 @ part1 @ part2 @ part3)))
                 else Inr rcl1)
      in case rcl2 of
           Inl e \<Rightarrow> Inl e
         | Inr r \<Rightarrow>
             Inr (job\<lparr>rcl := r @
               [TILE_RENDERING_MODE_CFG_COLOR (internal_bpp ft) rt_internal_type,
                TILE_RENDERING_MODE_CFG_ZS_CLEAR_VALUES
                  (case clear_info of None \<Rightarrow> 0x3f800000 | Some ci \<Rightarrow> clear_value_z (clear_value ci))
                  (case clear_info of None \<Rightarrow> 0 | Some ci \<Rightarrow> clear_value_s (clear_value ci)),
                TILE_LIST_INITIAL_BLOCK_SIZE]\<rparr>))"

text \<open>
  A counting loop \<^verbatim>\<open>for (i = lo; i < hi; i++)\<close> whose body transforms a state.
\<close>

function for_loop :: "nat \<Rightarrow> nat \<Rightarrow> (nat \<Rightarrow> 's \<Rightarrow> 's) \<Rightarrow> 's \<Rightarrow> 's" where
  "for_loop i hi body s = (if i < hi then for_loop (Suc i) hi body (body i s) else s)"
  by pat_completeness auto
termination
  by (relation "measure (\<lambda>(i, hi, body, s). hi - i)") auto

declare for_loop.simps [simp del]

definition emit_frame_setup ::
  "v3dv_job \<Rightarrow> uint32_t \<Rightarrow> v3dv_clear_value option \<Rightarrow> v3dv_job" where
  "emit_frame_setup job layer clear_val =
     (let ft = frame_tiling job;
          tile_alloc_offset = 64 * layer * draw_tiles_x ft * draw_tiles_y ft;
          rcl1 = rcl job @
            [MULTICORE_RENDERING_TILE_LIST_SET_BASE tile_alloc_offset,
             MULTICORE_RENDERING_SUPERTILE_CFG
               \<lparr>number_of_bin_tile_lists = 1,
                total_frame_width_in_tiles = draw_tiles_x ft,
                total_frame_height_in_tiles = draw_tiles_y ft,
                supertile_width_in_tiles = supertile_width ft,
                supertile_height_in_tiles = supertile_height ft,
                total_frame_width_in_supertiles = frame_width_in_supertiles ft,
                total_frame_height_in_supertiles = frame_height_in_supertiles ft\<rparr>];
          rcl2 = for_loop 0 2
            (\<lambda>i r. r @ [TILE_COORDINATES, END_OF_LOADS,
                         STORE_TILE_BUFFER_GENERAL (zero_store\<lparr>buffer_to_store := NONE\<rparr>)]
                      @ (if clear_val \<noteq> None \<and> i = 0 then [CLEAR_TILE_BUFFERS] else [])
                      @ [END_OF_TILE_MARKER])
            rcl1
      in job\<lparr>rcl := rcl2 @ [FLUSH_VCD_CACHE]\<rparr>)"

text \<open>
  \<open>emit_supertile_coordinates\<close>: two nested loops
  \<^verbatim>\<open>for (int y = min_y; y <= max_y; y++) for (int x = min_x; x <= max_x; x++)\<close>.
  The counters are C \<open>int\<close>s compared with unsigned bounds; the model counts in natural
  numbers from the values of the 32-bit bounds, which is what the C loops do for every
  bound below \<open>2\<^sup>3\<^sup>1\<close>.
\<close>

function supertile_x_loop :: "nat \<Rightarrow> nat \<Rightarrow> nat \<Rightarrow> cl_packet list \<Rightarrow> cl_packet list" where
  "supertile_x_loop x max_x y r =
     (if x \<le> max_x then supertile_x_loop (Suc x) max_x y (r @ [SUPERTILE_COORDINATES x y])
      else r)"
  by pat_completeness auto
termination
  by (relation "measure (\<lambda>(x, max_x, y, r). Suc max_x - x)") auto

declare supertile_x_loop.simps [simp del]

function supertile_y_loop ::
  "nat \<Rightarrow> nat \<Rightarrow> nat \<Rightarrow> nat \<Rightarrow> cl_packet list \<Rightarrow> cl_packet list" where
  "supertile_y_loop y max_y min_x max_x r =
     (if y \<le> max_y
      then supertile_y_loop (Suc y) max_y min_x max_x (supertile_x_loop min_x max_x y r)
      else r)"
  by pat_completeness auto
termination
  by (relation "measure (\<lambda>(y, max_y, min_x, max_x, r). Suc max_y - y)") auto

declare supertile_y_loop.simps [simp del]

definition emit_supertile_coordinates :: "v3dv_job \<Rightarrow> framebuffer_data \<Rightarrow> v3dv_job" where
  "emit_supertile_coordinates job framebuffer =
     (let min_y = unat (min_y_supertile framebuffer);
          max_y = unat (max_y_supertile framebuffer);
          min_x = unat (min_x_supertile framebuffer);
          max_x = unat (max_x_supertile framebuffer)
      in job\<lparr>rcl := supertile_y_loop min_y max_y min_x max_x (rcl job)\<rparr>)"

section \<open>Tile-buffer loads and stores\<close>

definition emit_linear_load ::
  "cl_packet list \<Rightarrow> tlb_buffer \<Rightarrow> v3dv_bo \<Rightarrow> uint32_t \<Rightarrow> uint32_t
     \<Rightarrow> v3d_output_image_format \<Rightarrow> cl_packet list" where
  "emit_linear_load cl buffer b offset strd fmt =
     cl @ [LOAD_TILE_BUFFER_GENERAL
             (zero_load\<lparr>buffer_to_load := buffer,
                        load_address := v3dv_cl_address b offset,
                        input_image_format := fmt,
                        load_memory_format := VC5_TILING_RASTER,
                        load_height_in_ub_or_stride := strd,
                        load_decimate_mode := V3D_DECIMATE_MODE_SAMPLE_0\<rparr>)]"

text \<open>The source ignores the \<open>buffer\<close> argument of \<open>emit_linear_store\<close>; so does the model.\<close>

definition emit_linear_store ::
  "cl_packet list \<Rightarrow> tlb_buffer \<Rightarrow> v3dv_bo \<Rightarrow> uint32_t \<Rightarrow> uint32_t \<Rightarrow> bool
     \<Rightarrow> v3d_output_image_format \<Rightarrow> cl_packet list" where
  "emit_linear_store cl buffer b offset strd msaa fmt =
     cl @ [STORE_TILE_BUFFER_GENERAL
             (zero_store\<lparr>buffer_to_store := RENDER_TARGET_0,
                         store_address := v3dv_cl_address b offset,
                         clear_buffer_being_stored := False,
                         output_image_format := fmt,
                         store_memory_format := VC5_TILING_RASTER,
                         store_height_in_ub_or_stride := strd,
                         store_decimate_mode :=
                           (if msaa then V3D_DECIMATE_MODE_ALL_SAMPLES
                            else V3D_DECIMATE_MODE_SAMPLE_0)\<rparr>)]"

definition emit_image_load ::
  "externals \<Rightarrow> cl_packet list \<Rightarrow> framebuffer_data \<Rightarrow> v3dv_image \<Rightarrow> VkImageAspectFlags
     \<Rightarrow> uint32_t \<Rightarrow> uint32_t \<Rightarrow> bool \<Rightarrow> bool \<Rightarrow> error + cl_packet list" where
  "emit_image_load ext cl framebuffer img aspect layer mip_level
       is_copy_to_buffer is_copy_from_buffer =
     (let layer_offset = v3dv_layer_offset ext img mip_level layer;
          load_to_color_tlb = (is_copy_to_buffer \<or> is_copy_from_buffer \<or>
                               aspect = VK_IMAGE_ASPECT_COLOR_BIT);
          slice = slices img mip_level
      in case choose_tlb_format framebuffer aspect False is_copy_to_buffer is_copy_from_buffer of
           Inl e \<Rightarrow> Inl e
         | Inr fmt \<Rightarrow>
             (let (needs_rb_swap, needs_chan_reverse) =
                    (if is_copy_to_buffer \<and>
                        (vk_format framebuffer = VK_FORMAT_X8_D24_UNORM_PACK32 \<or>
                         (vk_format framebuffer = VK_FORMAT_D24_UNORM_S8_UINT \<and>
                          aspect AND VK_IMAGE_ASPECT_DEPTH_BIT \<noteq> 0))
                     then (True, True)
                     else if \<not> is_copy_from_buffer \<and> \<not> is_copy_to_buffer \<and>
                             aspect AND VK_IMAGE_ASPECT_COLOR_BIT \<noteq> 0
                     then (format_needs_rb_swap ext (vk_format framebuffer), False)
                     else (False, False))
              in Inr (cl @ [LOAD_TILE_BUFFER_GENERAL
                   (zero_load\<lparr>buffer_to_load :=
                                (if load_to_color_tlb then RENDER_TARGET_0
                                 else v3dv_zs_buffer_from_aspect_bits ext aspect),
                              load_address := v3dv_cl_address (image_mem_bo img) layer_offset,
                              input_image_format := fmt,
                              load_memory_format := tiling slice,
                              load_r_b_swap := needs_rb_swap,
                              load_channel_reverse := needs_chan_reverse,
                              load_height_in_ub_or_stride :=
                                (if tiling slice = VC5_TILING_UIF_NO_XOR \<or>
                                    tiling slice = VC5_TILING_UIF_XOR
                                 then padded_height_of_output_image_in_uif_blocks slice
                                 else if tiling slice = VC5_TILING_RASTER then stride slice
                                 else 0),
                              load_decimate_mode :=
                                (if samples img > VK_SAMPLE_COUNT_1_BIT
                                 then V3D_DECIMATE_MODE_ALL_SAMPLES
                                 else V3D_DECIMATE_MODE_SAMPLE_0)\<rparr>)])))"

definition emit_image_store ::
  "externals \<Rightarrow> cl_packet list \<Rightarrow> framebuffer_data \<Rightarrow> v3dv_image \<Rightarrow> VkImageAspectFlags
     \<Rightarrow> uint32_t \<Rightarrow> uint32_t \<Rightarrow> bool \<Rightarrow> bool \<Rightarrow> error + cl_packet list" where
  "emit_image_store ext cl framebuffer img aspect layer mip_level
       is_copy_to_buffer is_copy_from_buffer =
     (let layer_offset = v3dv_layer_offset ext img mip_level layer;
          store_from_color_tlb = (is_copy_to_buffer \<or> is_copy_from_buffer \<or>
                                  aspect = VK_IMAGE_ASPECT_COLOR_BIT);
          slice = slices img mip_level;
          (needs_rb_swap, needs_chan_reverse) =
            (if is_copy_from_buffer \<and>
                (vk_format framebuffer = VK_FORMAT_X8_D24_UNORM_PACK32 \<or>
                 (vk_format framebuffer = VK_FORMAT_D24_UNORM_S8_UINT \<and>
                  aspect AND VK_IMAGE_ASPECT_DEPTH_BIT \<noteq> 0))
             then (True, True)
             else if \<not> is_copy_from_buffer \<and> \<not> is_copy_to_buffer \<and>
                     aspect AND VK_IMAGE_ASPECT_COLOR_BIT \<noteq> 0
             then (format_needs_rb_swap ext (vk_format framebuffer), False)
             else (False, False))
      in case choose_tlb_format framebuffer aspect True is_copy_to_buffer is_copy_from_buffer of
           Inl e \<Rightarrow> Inl e
         | Inr fmt \<Rightarrow>
             Inr (cl @ [STORE_TILE_BUFFER_GENERAL
                   (zero_store\<lparr>buffer_to_store :=
                                 (if store_from_color_tlb then RENDER_TARGET_0
                                  else v3dv_zs_buffer_from_aspect_bits ext aspect),
                               store_address := v3dv_cl_address (image_mem_bo img) layer_offset,
                               clear_buffer_being_stored := False,
                               store_r_b_swap := needs_rb_swap,
                               store_channel_reverse := needs_chan_reverse,
                               output_image_format := fmt,
                               store_memory_format := tiling slice,
                               store_height_in_ub_or_stride :=
                                 (if tiling slice = VC5_TILING_UIF_NO_XOR \<or>
                                     tiling slice = VC5_TILING_UIF_XOR
                                  then padded_height_of_output_image_in_uif_blocks slice
                                  else if tiling slice = VC5_TILING_RASTER then stride slice
                                  else 0),
                               store_decimate_mode :=
                                 (if samples img > VK_SAMPLE_COUNT_1_BIT
                                  then V3D_DECIMATE_MODE_ALL_SAMPLES
                                  else V3D_DECIMATE_MODE_SAMPLE_0)\<rparr>)]))"

section \<open>Image to buffer and buffer to image: the per-tile lists\<close>

text \<open>
  \<open>v3dv_cl_ensure_space\<close> reserves room and leaves the contents alone.  The address
  \<open>tile_list_start\<close> is the length of the indirect list before the body is written, the
  end address its length after.  \<open>buffer_offset\<close> is computed in 64 bits from the 64-bit
  \<open>bufferOffset\<close> and stored in a \<open>uint32_t\<close>.
\<close>

definition emit_copy_layer_to_buffer_per_tile_list ::
  "externals \<Rightarrow> v3dv_job \<Rightarrow> framebuffer_data \<Rightarrow> v3dv_buffer \<Rightarrow> v3dv_image \<Rightarrow> uint32_t
     \<Rightarrow> VkBufferImageCopy \<Rightarrow> error + v3dv_job" where
  "emit_copy_layer_to_buffer_per_tile_list ext job framebuffer buffer img layer region =
     (let cl = indirect job;
          tile_list_start = length cl;
          cl1 = cl @ [TILE_COORDINATES_IMPLICIT];
          imgrsc = imageSubresource region
      in if \<not> ((image_type img \<noteq> VK_IMAGE_TYPE_3D \<and> layer < layerCount imgrsc) \<or>
                layer < extent_depth img)
         then Inl AssertionFailed
         else
           case emit_image_load ext cl1 framebuffer img (aspectMask imgrsc)
                  (baseArrayLayer imgrsc + layer) (mipLevel imgrsc) True False of
             Inl e \<Rightarrow> Inl e
           | Inr cl2 \<Rightarrow>
               (let cl3 = cl2 @ [END_OF_LOADS, BRANCH_TO_IMPLICIT_TILE_LIST];
                    w = (if bufferRowLength region = 0
                         then extent3d_width (imageExtent region)
                         else bufferRowLength region);
                    h = (if bufferImageHeight region = 0
                         then extent3d_height (imageExtent region)
                         else bufferImageHeight region);
                    cpp1 = (if aspectMask imgrsc AND VK_IMAGE_ASPECT_STENCIL_BIT \<noteq> 0
                            then 1 else cpp img);
                    buffer_stride = w * cpp1;
                    buffer_offset =
                      (ucast (bufferOffset region + ucast (h * buffer_stride * layer))
                         :: uint32_t)
                in case choose_tlb_format framebuffer (aspectMask imgrsc) True True False of
                     Inl e \<Rightarrow> Inl e
                   | Inr fmt \<Rightarrow>
                       (let msaa = (samples img > VK_SAMPLE_COUNT_1_BIT);
                            cl4 = emit_linear_store cl3 RENDER_TARGET_0 (buffer_mem_bo buffer)
                                    buffer_offset buffer_stride msaa fmt;
                            cl5 = cl4 @ [END_OF_TILE_MARKER, RETURN_FROM_SUB_LIST]
                        in Inr (job\<lparr>indirect := cl5,
                                    rcl := rcl job @
                                      [START_ADDRESS_OF_GENERIC_TILE_LIST
                                         tile_list_start (length cl5)]\<rparr>))))"

definition emit_copy_buffer_to_layer_per_tile_list ::
  "externals \<Rightarrow> v3dv_job \<Rightarrow> framebuffer_data \<Rightarrow> v3dv_image \<Rightarrow> v3dv_buffer \<Rightarrow> uint32_t
     \<Rightarrow> VkBufferImageCopy \<Rightarrow> error + v3dv_job" where
  "emit_copy_buffer_to_layer_per_tile_list ext job framebuffer img buffer layer region =
     (let cl = indirect job;
          tile_list_start = length cl;
          cl1 = cl @ [TILE_COORDINATES_IMPLICIT];
          imgrsc = imageSubresource region
      in if \<not> ((image_type img \<noteq> VK_IMAGE_TYPE_3D \<and> layer < layerCount imgrsc) \<or>
                layer < extent_depth img)
         then Inl AssertionFailed
         else
           (let w = (if bufferRowLength region = 0
                     then extent3d_width (imageExtent region)
                     else bufferRowLength region);
                h = (if bufferImageHeight region = 0
                     then extent3d_height (imageExtent region)
                     else bufferImageHeight region);
                cpp1 = (if aspectMask imgrsc AND VK_IMAGE_ASPECT_STENCIL_BIT \<noteq> 0
                        then 1 else cpp img);
                buffer_stride = w * cpp1;
                buffer_offset =
                  (ucast (bufferOffset region + ucast (h * buffer_stride * layer)) :: uint32_t)
            in case choose_tlb_format framebuffer (aspectMask imgrsc) False False True of
                 Inl e \<Rightarrow> Inl e
               | Inr fmt \<Rightarrow>
                   (let cl2 = emit_linear_load cl1 RENDER_TARGET_0 (buffer_mem_bo buffer)
                                buffer_offset buffer_stride fmt
                    in case
                         (if vk_format framebuffer = VK_FORMAT_D24_UNORM_S8_UINT then
                            (if aspectMask imgrsc AND VK_IMAGE_ASPECT_DEPTH_BIT \<noteq> 0
                             then emit_image_load ext cl2 framebuffer img
                                    VK_IMAGE_ASPECT_STENCIL_BIT
                                    (baseArrayLayer imgrsc + layer) (mipLevel imgrsc) False False
                             else if \<not> (aspectMask imgrsc AND VK_IMAGE_ASPECT_STENCIL_BIT \<noteq> 0)
                             then Inl AssertionFailed
                             else emit_image_load ext cl2 framebuffer img
                                    VK_IMAGE_ASPECT_DEPTH_BIT
                                    (baseArrayLayer imgrsc + layer) (mipLevel imgrsc) False False)
                          else Inr cl2) of
                         Inl e \<Rightarrow> Inl e
                       | Inr cl3 \<Rightarrow>
                           (let cl4 = cl3 @ [END_OF_LOADS, BRANCH_TO_IMPLICIT_TILE_LIST]
                            in case emit_image_store ext cl4 framebuffer img (aspectMask imgrsc)
                                      (baseArrayLayer imgrsc + layer) (mipLevel imgrsc)
                                      False True of
                                 Inl e \<Rightarrow> Inl e
                               | Inr cl5 \<Rightarrow>
                                   (case
                                      (if vk_format framebuffer = VK_FORMAT_D24_UNORM_S8_UINT then
                                         (if aspectMask imgrsc AND VK_IMAGE_ASPECT_DEPTH_BIT \<noteq> 0
                                          then emit_image_store ext cl5 framebuffer img
                                                 VK_IMAGE_ASPECT_STENCIL_BIT
                                                 (baseArrayLayer imgrsc + layer)
                                                 (mipLevel imgrsc) False False
                                          else if \<not> (aspectMask imgrsc
                                                       AND VK_IMAGE_ASPECT_STENCIL_BIT \<noteq> 0)
                                          then Inl AssertionFailed
                                          else emit_image_store ext cl5 framebuffer img
                                                 VK_IMAGE_ASPECT_DEPTH_BIT
                                                 (baseArrayLayer imgrsc + layer)
                                                 (mipLevel imgrsc) False False)
                                       else Inr cl5) of
                                      Inl e \<Rightarrow> Inl e
                                    | Inr cl6 \<Rightarrow>
                                        (let cl7 = cl6 @ [END_OF_TILE_MARKER,
                                                          RETURN_FROM_SUB_LIST]
                                         in Inr (job\<lparr>indirect := cl7,
                                                     rcl := rcl job @
                                                       [START_ADDRESS_OF_GENERIC_TILE_LIST
                                                          tile_list_start
                                                          (length cl7)]\<rparr>)))))))"

section \<open>Buffer to buffer copies and buffer fills\<close>

definition emit_copy_buffer_per_tile_list ::
  "v3dv_job \<Rightarrow> v3dv_bo \<Rightarrow> v3dv_bo \<Rightarrow> uint32_t \<Rightarrow> uint32_t \<Rightarrow> uint32_t
     \<Rightarrow> v3d_output_image_format \<Rightarrow> v3dv_job" where
  "emit_copy_buffer_per_tile_list job dst src dst_offset src_offset strd fmt =
     (let cl = indirect job;
          tile_list_start = length cl;
          cl1 = cl @ [TILE_COORDINATES_IMPLICIT];
          cl2 = emit_linear_load cl1 RENDER_TARGET_0 src src_offset strd fmt;
          cl3 = cl2 @ [END_OF_LOADS, BRANCH_TO_IMPLICIT_TILE_LIST];
          cl4 = emit_linear_store cl3 RENDER_TARGET_0 dst dst_offset strd False fmt;
          cl5 = cl4 @ [END_OF_TILE_MARKER, RETURN_FROM_SUB_LIST]
      in job\<lparr>indirect := cl5,
              rcl := rcl job @ [START_ADDRESS_OF_GENERIC_TILE_LIST tile_list_start (length cl5)]\<rparr>)"

definition emit_copy_buffer ::
  "v3dv_job \<Rightarrow> v3dv_bo \<Rightarrow> v3dv_bo \<Rightarrow> uint32_t \<Rightarrow> uint32_t \<Rightarrow> framebuffer_data
     \<Rightarrow> v3d_output_image_format \<Rightarrow> v3dv_job" where
  "emit_copy_buffer job dst src dst_offset src_offset framebuffer fmt =
     (let strd = width (frame_tiling job) * 4;
          job1 = emit_copy_buffer_per_tile_list job dst src dst_offset src_offset strd fmt
      in emit_supertile_coordinates job1 framebuffer)"

definition emit_copy_buffer_rcl ::
  "externals \<Rightarrow> v3dv_job \<Rightarrow> v3dv_bo \<Rightarrow> v3dv_bo \<Rightarrow> uint32_t \<Rightarrow> uint32_t \<Rightarrow> framebuffer_data
     \<Rightarrow> v3d_output_image_format \<Rightarrow> error + v3dv_job" where
  "emit_copy_buffer_rcl ext job dst src dst_offset src_offset framebuffer fmt =
     (case emit_rcl_prologue ext job (internal_type framebuffer) None of
        Inl e \<Rightarrow> Inl e
      | Inr job1 \<Rightarrow>
          (let job2 = emit_frame_setup job1 0 None;
               job3 = emit_copy_buffer job2 dst src dst_offset src_offset framebuffer fmt
           in Inr (job3\<lparr>rcl := rcl job3 @ [END_OF_RENDERING]\<rparr>)))"

text \<open>
  What the assertions of \<open>framebuffer_size_for_pixel_count\<close> give the callers' loops:
  every job covers at least one item and no more than are left.
\<close>

lemma framebuffer_size_items:
  assumes "framebuffer_size_for_pixel_count n = Inr (w, h)"
  shows "unat (w * h) = unat w * unat h" and "0 < unat w * unat h"
    and "unat w * unat h \<le> unat n" and "unat w \<le> 4096" and "unat h \<le> 4096"
proof -
  from assms have a: "w \<le> max_dim_pixels" "h \<le> max_dim_pixels" "w * h \<le> n" "0 < w" "0 < h"
    unfolding framebuffer_size_for_pixel_count_def
    by (auto simp: Let_def split: if_splits prod.splits)
  show w: "unat w \<le> 4096" and h: "unat h \<le> 4096"
    using a(1,2) by (simp_all add: max_dim_pixels_def word_le_nat_alt)
  have "unat w * unat h \<le> 4096 * 4096" using w h by (rule mult_le_mono)
  then show m: "unat (w * h) = unat w * unat h" by (simp add: unat_word_ariths)
  have "0 < unat w" "0 < unat h" using a(4,5) by (simp_all add: unat_gt_0)
  then show "0 < unat w * unat h" by simp
  show "unat w * unat h \<le> unat n" using a(3) m by (simp add: word_le_nat_alt)
qed

lemma framebuffer_size_decreases:
  assumes "framebuffer_size_for_pixel_count n = Inr (w, h)"
  shows "unat (n - w * h) < unat n"
proof -
  note f = framebuffer_size_items [OF assms]
  have le: "w * h \<le> n" using f(1,3) by (simp add: word_le_nat_alt)
  have pos: "0 < unat n" using f(2,3) by (rule less_le_trans)
  have "unat (n - w * h) = unat n - unat (w * h)" using le by (rule unat_sub)
  also have "\<dots> = unat n - unat w * unat h" by (simp only: f(1))
  also have "\<dots> < unat n" using f(2) pos by (rule diff_less)
  finally show ?thesis .
qed

text \<open>
  The loop of \<open>copy_buffer\<close>.  Its state is the command buffer, the items left, the two
  offsets and the last job started (\<open>None\<close> before the first).  A job that cannot be
  allocated ends the function with the result \<open>NULL\<close>, here \<open>None\<close>.
\<close>

function copy_buffer_loop ::
  "externals \<Rightarrow> v3dv_bo \<Rightarrow> v3dv_bo \<Rightarrow> uint32_t \<Rightarrow> v3d_output_image_format \<Rightarrow> VkFormat
     \<Rightarrow> v3dv_cmd_buffer \<Rightarrow> uint32_t \<Rightarrow> uint32_t \<Rightarrow> uint32_t \<Rightarrow> v3dv_job option
     \<Rightarrow> error + (v3dv_job option \<times> v3dv_cmd_buffer)" where
  "copy_buffer_loop ext dst src item_size fmt vk_fmt cmd_buffer num_items src_offset dst_offset job =
     (if num_items > 0 then
        (if \<not> v3dv_cmd_buffer_start_job ext cmd_buffer then Inr (None, cmd_buffer)
         else
           case framebuffer_size_for_pixel_count num_items of
             Inl e \<Rightarrow> Inl e
           | Inr (w, h) \<Rightarrow>
               (let job1 = \<lparr>frame_tiling = v3dv_job_start_frame ext w h 1 1 V3D_INTERNAL_BPP_32,
                            rcl = [], indirect = []\<rparr>
                in case setup_framebuffer_data ext vk_fmt V3D_INTERNAL_TYPE_8UI
                          (frame_tiling job1) of
                     Inl e \<Rightarrow> Inl e
                   | Inr framebuffer \<Rightarrow>
                       (case emit_copy_buffer_rcl ext job1 dst src dst_offset src_offset
                               framebuffer fmt of
                          Inl e \<Rightarrow> Inl e
                        | Inr job2 \<Rightarrow>
                            (let items_copied = w * h;
                                 bytes_copied = items_copied * item_size
                             in copy_buffer_loop ext dst src item_size fmt vk_fmt
                                  (v3dv_cmd_buffer_finish_job cmd_buffer job2)
                                  (num_items - items_copied)
                                  (src_offset + bytes_copied)
                                  (dst_offset + bytes_copied)
                                  (Some job2)))))
      else Inr (job, cmd_buffer))"
  by pat_completeness auto
termination
  by (relation "measure (\<lambda>(ext, dst, src, item_size, fmt, vk_fmt, cmd_buffer, num_items, rest).
                   unat num_items)")
     (auto simp: framebuffer_size_decreases)

declare copy_buffer_loop.simps [simp del]

definition copy_buffer ::
  "externals \<Rightarrow> v3dv_cmd_buffer \<Rightarrow> v3dv_bo \<Rightarrow> v3dv_bo \<Rightarrow> VkBufferCopy
     \<Rightarrow> error + (v3dv_job option \<times> v3dv_cmd_buffer)" where
  "copy_buffer ext cmd_buffer dst src region =
     (case
        (if copy_size region mod 4 = 0
           then Inr (4 :: uint32_t, V3D_OUTPUT_IMAGE_FORMAT_RGBA8UI, VK_FORMAT_R8G8B8A8_UINT)
         else if copy_size region mod 4 = 2
           then Inr (2, V3D_OUTPUT_IMAGE_FORMAT_RG8UI, VK_FORMAT_R8G8_UINT)
         else if copy_size region mod 4 = 1 \<or> copy_size region mod 4 = 3
           then Inr (1, V3D_OUTPUT_IMAGE_FORMAT_R8UI, VK_FORMAT_R8_UINT)
         else Inl UninitializedValue) of
        Inl e \<Rightarrow> Inl e
      | Inr (item_size, fmt, vk_fmt) \<Rightarrow>
          if \<not> (copy_size region mod ucast item_size = 0) then Inl AssertionFailed
          else
            (let num_items = (ucast (copy_size region div ucast item_size) :: uint32_t)
             in if \<not> num_items > 0 then Inl AssertionFailed
                else copy_buffer_loop ext dst src item_size fmt vk_fmt cmd_buffer num_items
                       (ucast (srcOffset region)) (ucast (dstOffset region)) None))"








section \<open>The instruction packing tests\<close>

text \<open>
  The sweep helpers of the packing tests build an instruction, set its modifiers in two
  nested loops and hand it to \<open>bit_test_single\<close>.  That function packs the instruction,
  runs it on the device and compares the registers; it is a parameter \<open>test ins fma\<close> of
  the model (with the device, the input vector and the debug level fixed in it), and its
  result says whether the comparison succeeded.  A helper's effects are the calls of
  \<open>bit_test_single\<close> it makes, in order, and the \<open>FAIL\<close> lines it prints.
  Arrays of \<open>BIR_SRC_COUNT = 4\<close> entries are lists of length 4; entries that the
  initialiser does not name are zero.
\<close>

datatype bi_class =
    BI_ADD | BI_FMA | BI_LOAD_UNIFORM | BI_LOAD_VAR_ADDRESS | BI_STORE_VAR | BI_class_other nat

datatype bir_index =
    BIR_INDEX_NONE | BIR_INDEX_REGISTER nat | BIR_INDEX_CONSTANT | BIR_INDEX_ZERO

datatype nir_alu_type = nir_type_invalid | nir_type_float nat | nir_type_uint32

record bi_instruction =
  ins_type :: bi_class
  src :: "bir_index list"
  src_types :: "nir_alu_type list"
  dest :: bir_index
  dest_type :: nir_alu_type
  outmod :: nat
  src_abs :: "bool list"
  src_neg :: "bool list"

datatype fail_line =
    FAIL_fmod bi_class nat bool nat nat
  | FAIL_fma nat nat nat

record sweep_state =
  ins :: bi_instruction
  tested :: "(bi_instruction \<times> bool) list"
  stderr :: "fail_line list"

text \<open>
  The body of the inner loop of \<open>bit_fmod_helper\<close>, for the output modifier \<open>om\<close> and the
  input modifier \<open>inmod\<close> of the two loop counters, and the helper with its two loops.
\<close>

definition bit_fmod_step ::
  "(bi_instruction \<Rightarrow> bool \<Rightarrow> bool) \<Rightarrow> bi_class \<Rightarrow> nat \<Rightarrow> bool \<Rightarrow> nat \<Rightarrow> nat
     \<Rightarrow> sweep_state \<Rightarrow> sweep_state" where
  "bit_fmod_step test c sz fma om inmod st =
     (let i1 = (ins st)\<lparr>outmod := om\<rparr>;
          i2 = i1\<lparr>src_abs := (src_abs i1)[0 := (inmod AND 1 \<noteq> 0)]\<rparr>;
          i3 = i2\<lparr>src_abs := (src_abs i2)[1 := (inmod AND 2 \<noteq> 0)]\<rparr>;
          i4 = i3\<lparr>src_neg := (src_neg i3)[0 := (inmod AND 4 \<noteq> 0)]\<rparr>;
          i5 = i4\<lparr>src_neg := (src_neg i4)[1 := (inmod AND 8 \<noteq> 0)]\<rparr>;
          st1 = st\<lparr>ins := i5\<rparr>
      in if ((fma \<and> sz = 16) \<and> src_abs i5 ! 0) \<and> src_abs i5 ! 1 then st1
         else
           (let succ = test i5 fma
            in st1\<lparr>tested := tested st1 @ [(i5, fma)],
                   stderr := stderr st1 @
                     (if \<not> succ then [FAIL_fmod c sz fma om inmod] else [])\<rparr>))"

definition bit_fmod_helper ::
  "(bi_instruction \<Rightarrow> bool \<Rightarrow> bool) \<Rightarrow> bi_class \<Rightarrow> nat \<Rightarrow> bool \<Rightarrow> sweep_state" where
  "bit_fmod_helper test c sz fma =
     (let T = nir_type_float sz;
          ins0 = \<lparr>ins_type = c,
                  src = [BIR_INDEX_REGISTER 0, BIR_INDEX_REGISTER 1, BIR_INDEX_NONE, BIR_INDEX_NONE],
                  src_types = [T, T, nir_type_invalid, nir_type_invalid],
                  dest = BIR_INDEX_REGISTER 2,
                  dest_type = T,
                  outmod = 0,
                  src_abs = [False, False, False, False],
                  src_neg = [False, False, False, False]\<rparr>
      in for_loop 0 4 (\<lambda>om. for_loop 0 16 (bit_fmod_step test c sz fma om))
           \<lparr>ins = ins0, tested = [], stderr = []\<rparr>)"

text \<open>The same for \<open>bit_fma_helper\<close>, which always tests on the FMA unit.\<close>

definition bit_fma_step ::
  "(bi_instruction \<Rightarrow> bool \<Rightarrow> bool) \<Rightarrow> nat \<Rightarrow> nat \<Rightarrow> nat \<Rightarrow> sweep_state \<Rightarrow> sweep_state" where
  "bit_fma_step test sz om inmod st =
     (let i1 = (ins st)\<lparr>outmod := om\<rparr>;
          i2 = i1\<lparr>src_neg := (src_neg i1)[0 := (inmod AND 1 \<noteq> 0)]\<rparr>;
          i3 = i2\<lparr>src_neg := (src_neg i2)[1 := (inmod AND 2 \<noteq> 0)]\<rparr>;
          i4 = i3\<lparr>src_neg := (src_neg i3)[2 := (inmod AND 4 \<noteq> 0)]\<rparr>;
          st1 = st\<lparr>ins := i4\<rparr>;
          succ = test i4 True
      in st1\<lparr>tested := tested st1 @ [(i4, True)],
             stderr := stderr st1 @ (if \<not> succ then [FAIL_fma sz om inmod] else [])\<rparr>)"

definition bit_fma_helper :: "(bi_instruction \<Rightarrow> bool \<Rightarrow> bool) \<Rightarrow> nat \<Rightarrow> sweep_state" where
  "bit_fma_helper test sz =
     (let T = nir_type_float sz;
          ins0 = \<lparr>ins_type = BI_FMA,
                  src = [BIR_INDEX_REGISTER 0, BIR_INDEX_REGISTER 1, BIR_INDEX_REGISTER 2,
                         BIR_INDEX_NONE],
                  src_types = [T, T, T, nir_type_invalid],
                  dest = BIR_INDEX_REGISTER 3,
                  dest_type = T,
                  outmod = 0,
                  src_abs = [False, False, False, False],
                  src_neg = [False, False, False, False]\<rparr>
      in for_loop 0 4 (\<lambda>om. for_loop 0 8 (bit_fma_step test sz om))
           \<lparr>ins = ins0, tested = [], stderr = []\<rparr>)"

section \<open>Specification-side notions\<close>

text \<open>
  Integer ceiling division, and the supertile coordinate records of a coverage rectangle
  listed row by row (\<open>y\<close> outer, \<open>x\<close> inner), as the specification words them.
\<close>

definition ceil_div :: "nat \<Rightarrow> nat \<Rightarrow> nat" where
  "ceil_div a b = (a + b - 1) div b"

definition supertile_rows :: "nat \<Rightarrow> nat \<Rightarrow> nat \<Rightarrow> nat \<Rightarrow> cl_packet list" where
  "supertile_rows min_x max_x min_y max_y =
     concat (map (\<lambda>y. map (\<lambda>x. SUPERTILE_COORDINATES x y) [min_x..<Suc max_x])
                 [min_y..<Suc max_y])"


text \<open>
  The payloads \<open>(uif_padded_height_in_uif_blocks, clear_color_high_16_bits)\<close> of the third
  clear-color records of a packet list, in order.
\<close>

fun clear_colors_part3 :: "cl_packet list \<Rightarrow> (uint32_t \<times> uint32_t) list" where
  "clear_colors_part3 [] = []"
| "clear_colors_part3 (TILE_RENDERING_MODE_CFG_CLEAR_COLORS_PART3 pad hi # ps) =
     (pad, hi) # clear_colors_part3 ps"
| "clear_colors_part3 (p # ps) = clear_colors_part3 ps"

text \<open>
  The general load records and the general store records of a packet list, in order, and
  the list of both kinds together (the tile-buffer operations of a tile-list body).
\<close>

fun loads_of :: "cl_packet list \<Rightarrow> load_tile_buffer_general list" where
  "loads_of [] = []"
| "loads_of (LOAD_TILE_BUFFER_GENERAL l # ps) = l # loads_of ps"
| "loads_of (p # ps) = loads_of ps"

fun stores_of :: "cl_packet list \<Rightarrow> store_tile_buffer_general list" where
  "stores_of [] = []"
| "stores_of (STORE_TILE_BUFFER_GENERAL s # ps) = s # stores_of ps"
| "stores_of (p # ps) = stores_of ps"


text \<open>
  The modifier combination of an instruction: its output modifier with the
  absolute-value and negate flags of its sources.  The two lists enumerate every
  combination of the sweeps: four output modifiers with the absolute-value and negate
  flags of two sources, and four output modifiers with the negate flags of three sources;
  the innermost flag varies fastest.
\<close>

definition modifiers :: "bi_instruction \<Rightarrow> nat \<times> bool list \<times> bool list" where
  "modifiers i = (outmod i, src_abs i, src_neg i)"

definition all_fmod_combinations :: "(nat \<times> bool list \<times> bool list) list" where
  "all_fmod_combinations =
     [(om, [a0, a1, False, False], [n0, n1, False, False]).
        om \<leftarrow> [0, 1, 2, 3], n1 \<leftarrow> [False, True], n0 \<leftarrow> [False, True],
        a1 \<leftarrow> [False, True], a0 \<leftarrow> [False, True]]"

definition all_fma_combinations :: "(nat \<times> bool list \<times> bool list) list" where
  "all_fma_combinations =
     [(om, [False, False, False, False], [n0, n1, n2, False]).
        om \<leftarrow> [0, 1, 2, 3], n2 \<leftarrow> [False, True], n1 \<leftarrow> [False, True],
        n0 \<leftarrow> [False, True]]"


text \<open>The combinations of one output modifier, in the order of the inner loops.\<close>

definition fmod_row :: "nat \<Rightarrow> (nat \<times> bool list \<times> bool list) list" where
  "fmod_row om =
     [(om, [a0, a1, False, False], [n0, n1, False, False]).
        n1 \<leftarrow> [False, True], n0 \<leftarrow> [False, True], a1 \<leftarrow> [False, True], a0 \<leftarrow> [False, True]]"

definition fma_row :: "nat \<Rightarrow> (nat \<times> bool list \<times> bool list) list" where
  "fma_row om =
     [(om, [False, False, False, False], [n0, n1, n2, False]).
        n2 \<leftarrow> [False, True], n1 \<leftarrow> [False, True], n0 \<leftarrow> [False, True]]"

text \<open>
  Buffer copies in the specification's words.  The item size and the format follow the
  remainder of the byte length modulo 4: remainder 0 gives 4-byte items, remainder 2
  gives 2-byte items, and the remainders 1 and 3 give 1-byte items.
\<close>

definition copy_item_size :: "VkDeviceSize \<Rightarrow> uint32_t" where
  "copy_item_size L = (if L mod 4 = 0 then 4 else if L mod 4 = 2 then 2 else 1)"

definition copy_item_format :: "VkDeviceSize \<Rightarrow> v3d_output_image_format" where
  "copy_item_format L =
     (if L mod 4 = 0 then V3D_OUTPUT_IMAGE_FORMAT_RGBA8UI
      else if L mod 4 = 2 then V3D_OUTPUT_IMAGE_FORMAT_RG8UI
      else V3D_OUTPUT_IMAGE_FORMAT_R8UI)"

text \<open>
  A copy is split into jobs, each over a rectangle of items.  \<open>job_sizes n cs\<close> says that
  the rectangles \<open>cs\<close> are the ones chosen for \<open>n\<close> items, each from the count left by
  those before it, and that they leave nothing.  \<open>copy_transfers\<close> lists the source and
  destination offset of each job: every job starts where the one before it stopped,
  that is, the items copied times the item size further on.
\<close>

definition chunk_items :: "uint32_t \<times> uint32_t \<Rightarrow> nat" where
  "chunk_items c = unat (fst c) * unat (snd c)"

fun job_sizes :: "uint32_t \<Rightarrow> (uint32_t \<times> uint32_t) list \<Rightarrow> bool" where
  "job_sizes n [] = (n = 0)"
| "job_sizes n (c # cs) =
     (0 < n \<and> framebuffer_size_for_pixel_count n = Inr c \<and> job_sizes (n - fst c * snd c) cs)"

fun copy_transfers ::
  "uint32_t \<Rightarrow> uint32_t \<Rightarrow> uint32_t \<Rightarrow> (uint32_t \<times> uint32_t) list
     \<Rightarrow> (uint32_t \<times> uint32_t) list" where
  "copy_transfers item_size s_off d_off [] = []"
| "copy_transfers item_size s_off d_off (c # cs) =
     (s_off, d_off) #
     copy_transfers item_size (s_off + fst c * snd c * item_size)
       (d_off + fst c * snd c * item_size) cs"

text \<open>The address and format of every load and of every store in the tile list of a job.\<close>

definition job_loads :: "v3dv_job \<Rightarrow> (cl_address \<times> v3d_output_image_format) list" where
  "job_loads j = map (\<lambda>l. (load_address l, input_image_format l)) (loads_of (indirect j))"

definition job_stores :: "v3dv_job \<Rightarrow> (cl_address \<times> v3d_output_image_format) list" where
  "job_stores j = map (\<lambda>s. (store_address s, output_image_format s)) (stores_of (indirect j))"
section \<open>Example values\<close>

text \<open>
  One concrete implementation of the external functions and one frame tiling (64 by 64
  pixel tiles, one tile per supertile), used to instantiate the theorems below.  In the
  example format table the format numbered 44 (\<open>VK_FORMAT_B8G8R8A8_UNORM\<close>) has a
  blue-first swizzle and every other format the identity swizzle.
\<close>

definition example_frame_tiling :: "uint32_t \<Rightarrow> uint32_t \<Rightarrow> uint32_t \<Rightarrow> uint32_t \<Rightarrow> v3dv_frame_tiling" where
  "example_frame_tiling w h l bpp =
     \<lparr>width = w, height = h, layers = l, internal_bpp = bpp,
      tile_width = 64, tile_height = 64,
      draw_tiles_x = (w + 63) div 64, draw_tiles_y = (h + 63) div 64,
      supertile_width = 1, supertile_height = 1,
      frame_width_in_supertiles = (w + 63) div 64,
      frame_height_in_supertiles = (h + 63) div 64\<rparr>"

definition example_externals :: externals where
  "example_externals =
     \<lparr>v3dv_get_format = (\<lambda>f. \<lparr>rt_type = V3D_OUTPUT_IMAGE_FORMAT_RGBA8UI\<rparr>),
      v3dv_get_format_swizzle =
        (\<lambda>f i. if f = VK_FORMAT_other 44
                then (if i = 0 then PIPE_SWIZZLE_Z else if i = 1 then PIPE_SWIZZLE_Y
                      else if i = 2 then PIPE_SWIZZLE_X else PIPE_SWIZZLE_W)
                else (if i = 0 then PIPE_SWIZZLE_X else if i = 1 then PIPE_SWIZZLE_Y
                      else if i = 2 then PIPE_SWIZZLE_Z else PIPE_SWIZZLE_W)),
      v3dv_zs_buffer_from_aspect_bits =
        (\<lambda>a. if a AND 6 = 6 then ZSTENCIL else if a AND 2 \<noteq> 0 then Z
              else if a AND 4 \<noteq> 0 then STENCIL else NONE),
      v3dv_layer_offset = (\<lambda>img lvl layer. 4096 * layer),
      v3d_utile_height = (\<lambda>cpp. 4),
      align = (\<lambda>v a. (v + a - 1) AND NOT (a - 1)),
      v3dv_cmd_buffer_start_job = (\<lambda>c. True),
      v3dv_job_start_frame = (\<lambda>w h l rts bpp. example_frame_tiling w h l bpp)\<rparr>"


definition example_bo :: "nat \<Rightarrow> v3dv_bo" where
  "example_bo n = \<lparr>handle = n, bo_size = 65536\<rparr>"

definition example_image :: "v3d_tiling_mode \<Rightarrow> uint32_t \<Rightarrow> v3dv_image" where
  "example_image tm padded =
     \<lparr>image_type = VK_IMAGE_TYPE_2D, extent_depth = 1,
      slices = (\<lambda>lvl. \<lparr>tiling = tm,
                          padded_height_of_output_image_in_uif_blocks = padded,
                          stride = 256\<rparr>),
      cpp = 4, samples = 1, image_mem_bo = example_bo 1\<rparr>"

definition example_job :: "uint32_t \<Rightarrow> uint32_t \<Rightarrow> v3dv_job" where
  "example_job w h = \<lparr>frame_tiling = example_frame_tiling w h 1 0, rcl = [], indirect = []\<rparr>"

definition example_clear_info :: "v3dv_image \<Rightarrow> rcl_clear_info" where
  "example_clear_info img =
     \<lparr>clear_value = \<lparr>color = (\<lambda>i. if i = 0 then 0x11223344 else 0)\<rparr>,
      clear_image = Some img, aspects = VK_IMAGE_ASPECT_COLOR_BIT,
      clear_layer = 0, level = 0\<rparr>"

definition example_buffer :: v3dv_buffer where
  "example_buffer = \<lparr>buffer_size = 1048576, buffer_mem_bo = example_bo 2\<rparr>"

definition example_region :: "VkImageAspectFlags \<Rightarrow> VkBufferImageCopy" where
  "example_region a =
     \<lparr>bufferOffset = 0, bufferRowLength = 0, bufferImageHeight = 0,
      imageSubresource = \<lparr>aspectMask = a, mipLevel = 0, baseArrayLayer = 0, layerCount = 1\<rparr>,
      imageExtent = \<lparr>extent3d_width = 64, extent3d_height = 40, extent3d_depth = 1\<rparr>\<rparr>"

definition example_framebuffer :: "VkFormat \<Rightarrow> framebuffer_data" where
  "example_framebuffer f =
     \<lparr>internal_type = V3D_INTERNAL_TYPE_8UI,
      min_x_supertile = 0, min_y_supertile = 0, max_x_supertile = 0, max_y_supertile = 0,
      vk_format = f, format = v3dv_get_format example_externals f\<rparr>"

definition example_cmd_buffer :: v3dv_cmd_buffer where
  "example_cmd_buffer = \<lparr>jobs = []\<rparr>"

definition example_copy_region :: VkBufferCopy where
  "example_copy_region = \<lparr>srcOffset = 16, dstOffset = 32, copy_size = 4097\<rparr>"
section \<open>Properties of the tiling geometry\<close>

lemma unat_shr1: "unat (drop_bit 1 (w :: uint32_t)) = unat w div 2"
  by (simp add: drop_bit_eq_div unat_div_distrib)

lemma shl1: "push_bit 1 (h :: uint32_t) = 2 * h"
  by (simp add: push_bit_eq_mult)

lemma div_pow2_Suc: "(n :: nat) div 2 ^ Suc k = n div 2 ^ k div 2"
proof -
  have "(2 :: nat) ^ Suc k = 2 ^ k * 2" by simp
  then show ?thesis by (simp only: div_mult2_eq)
qed

lemma loop_cond_nat:
  assumes "unat h \<le> 4096"
  shows "(w > max_dim_pixels \<or> (w mod 2 = 0 \<and> w > 2 * h))
         = near_square_continues (unat w, unat h)"
proof -
  have a: "(w > max_dim_pixels) = (unat w > 4096)"
    by (simp add: max_dim_pixels_def word_less_nat_alt)
  have b: "(w mod 2 = 0) = even (unat w)"
    by (simp add: word_eq_iff_unsigned [where ?'a = nat] unat_mod_distrib
        even_iff_mod_2_eq_zero)
  have "unat (2 * h) = 2 * unat h"
    using assms by (simp add: unat_word_ariths)
  then have c: "(w > 2 * h) = (unat w > 2 * unat h)"
    by (simp add: word_less_nat_alt)
  show ?thesis unfolding near_square_continues_def a b c by simp
qed

lemma size_loop_stage:
  "unat h = 2 ^ k \<Longrightarrow> unat w = n div 2 ^ k \<Longrightarrow> n \<le> 2 ^ 24 \<Longrightarrow> k \<le> 12 \<Longrightarrow>
   \<exists>k'. k \<le> k' \<and> k' \<le> 12 \<and>
         (unat (fst (size_loop w h)), unat (snd (size_loop w h))) = near_square_stage n k' \<and>
         \<not> near_square_continues (near_square_stage n k') \<and>
         (\<forall>j. k \<le> j \<and> j < k' \<longrightarrow> near_square_continues (near_square_stage n j))"
proof (induction w h arbitrary: k rule: size_loop.induct)
  case (1 w h)
  have hb: "unat h \<le> 4096"
  proof -
    have "(2::nat) ^ k \<le> 2 ^ 12" using "1.prems"(4) by (intro power_increasing) auto
    then show ?thesis using "1.prems"(1) by simp
  qed
  note cond = loop_cond_nat [OF hb, of w]
  have st: "(unat w, unat h) = near_square_stage n k"
    using "1.prems" by (simp add: near_square_stage_def)
  show ?case
  proof (cases "near_square_continues (unat w, unat h)")
    case False
    have nc: "\<not> (w > max_dim_pixels \<or> (w mod 2 = 0 \<and> w > 2 * h))"
      unfolding cond by (rule False)
    have "size_loop w h = (w, h)"
      by (subst size_loop.simps) (simp only: nc if_False)
    then show ?thesis using False st "1.prems"(4) by (intro exI [of _ k]) auto
  next
    case True
    have klt: "k < 12"
    proof (rule ccontr)
      assume "\<not> k < 12"
      then have k12: "k = 12" using "1.prems"(4) by simp
      have "n div 2 ^ 12 \<le> 2 ^ 24 div 2 ^ 12" using "1.prems"(3) by (rule div_le_mono)
      then have "unat w \<le> 4096" using "1.prems"(2) unfolding k12 by simp
      moreover have "unat h = 4096" using "1.prems"(1) k12 by simp
      ultimately show False using True by (simp add: near_square_continues_def)
    qed
    have h': "unat (push_bit 1 h) = 2 ^ Suc k"
    proof -
      have "unat (2 * h) = 2 * unat h" using hb by (simp add: unat_word_ariths)
      then show ?thesis unfolding shl1 using "1.prems"(1) by simp
    qed
    have w': "unat (drop_bit 1 w) = n div 2 ^ Suc k"
    proof -
      have "unat (drop_bit 1 w) = unat w div 2" by (rule unat_shr1)
      also have "\<dots> = n div 2 ^ k div 2" using "1.prems"(2) by simp
      also have "\<dots> = n div 2 ^ Suc k" by (rule div_pow2_Suc [symmetric])
      finally show ?thesis .
    qed
    have c: "w > max_dim_pixels \<or> (w mod 2 = 0 \<and> w > 2 * h)"
      unfolding cond by (rule True)
    from klt have sk: "Suc k \<le> 12" by simp
    from "1.IH" [OF c h' w' "1.prems"(3) sk]
    obtain k' where k': "Suc k \<le> k'" "k' \<le> 12"
      "(unat (fst (size_loop (drop_bit 1 w) (push_bit 1 h))),
        unat (snd (size_loop (drop_bit 1 w) (push_bit 1 h)))) = near_square_stage n k'"
      "\<not> near_square_continues (near_square_stage n k')"
      "\<forall>j. Suc k \<le> j \<and> j < k' \<longrightarrow> near_square_continues (near_square_stage n j)"
      by blast
    have eq: "size_loop w h = size_loop (drop_bit 1 w) (push_bit 1 h)"
      by (subst size_loop.simps) (simp only: c if_True)
    have all: "\<forall>j. k \<le> j \<and> j < k' \<longrightarrow> near_square_continues (near_square_stage n j)"
    proof (intro allI impI)
      fix j assume j: "k \<le> j \<and> j < k'"
      show "near_square_continues (near_square_stage n j)"
      proof (cases "j = k")
        case True
        then show ?thesis using \<open>near_square_continues (unat w, unat h)\<close> st by simp
      next
        case False
        then have "Suc k \<le> j \<and> j < k'" using j by simp
        then show ?thesis using k'(5) by blast
      qed
    qed
    have "k \<le> k'" using k'(1) by simp
    then show ?thesis using k'(2,3,4) all unfolding eq by (intro exI [of _ k']) simp
  qed
qed

lemma stage_product_antimono:
  "j \<le> k \<Longrightarrow> fst (near_square_stage n k) * snd (near_square_stage n k)
             \<le> fst (near_square_stage n j) * snd (near_square_stage n j)"
proof (induction k)
  case 0
  then show ?case by simp
next
  case (Suc k)
  show ?case
  proof (cases "j = Suc k")
    case True
    then show ?thesis by simp
  next
    case False
    then have jk: "j \<le> k" using Suc.prems by simp
    have "n div 2 ^ Suc k = n div 2 ^ k div 2" by (rule div_pow2_Suc)
    then have "n div 2 ^ Suc k * 2 \<le> n div 2 ^ k" by simp
    then have "n div 2 ^ Suc k * 2 * 2 ^ k \<le> n div 2 ^ k * 2 ^ k" by (rule mult_le_mono1)
    then have "fst (near_square_stage n (Suc k)) * snd (near_square_stage n (Suc k))
               \<le> fst (near_square_stage n k) * snd (near_square_stage n k)"
      by (simp add: near_square_stage_def mult.assoc)
    also have "\<dots> \<le> fst (near_square_stage n j) * snd (near_square_stage n j)"
      using Suc.IH [OF jk] .
    finally show ?thesis .
  qed
qed

lemma size_loop_result:
  assumes pos: "0 < n" and le: "n \<le> 2 ^ 24" and n: "unat num_pixels = n"
  shows "\<exists>k\<le>12. (unat (fst (size_loop num_pixels 1)), unat (snd (size_loop num_pixels 1)))
                   = near_square_stage n k \<and>
               \<not> near_square_continues (near_square_stage n k) \<and>
               (\<forall>j<k. near_square_continues (near_square_stage n j)) \<and>
               0 < n div 2 ^ k"
proof -
  have "unat (1 :: uint32_t) = 2 ^ 0" by simp
  moreover have "unat num_pixels = n div 2 ^ 0" using n by simp
  ultimately obtain k where k: "k \<le> 12"
      "(unat (fst (size_loop num_pixels 1)), unat (snd (size_loop num_pixels 1)))
         = near_square_stage n k"
      "\<not> near_square_continues (near_square_stage n k)"
      "\<forall>j. 0 \<le> j \<and> j < k \<longrightarrow> near_square_continues (near_square_stage n j)"
    using size_loop_stage [of 1 0 num_pixels n] le by blast
  have "0 < n div 2 ^ k"
  proof (cases k)
    case 0
    then show ?thesis using pos by simp
  next
    case (Suc i)
    then have "near_square_continues (near_square_stage n i)" using k(4) by simp
    then have "2 \<le> n div 2 ^ i"
      by (auto simp: near_square_continues_def near_square_stage_def)
    moreover have "n div 2 ^ k = n div 2 ^ i div 2"
      unfolding Suc by (rule div_pow2_Suc)
    ultimately show ?thesis by simp
  qed
  then show ?thesis using k by (intro exI [of _ k]) simp
qed

lemma framebuffer_size_small:
  assumes pos: "0 < N" and le: "N \<le> max_pixels"
  shows "\<exists>w h k. framebuffer_size_for_pixel_count N = Inr (w, h) \<and>
           unat w * unat h \<le> unat N \<and> unat w \<le> 4096 \<and> unat h \<le> 4096 \<and>
           0 < unat w \<and> 0 < unat h \<and>
           (unat w, unat h) = near_square_stage (unat N) k \<and>
           \<not> near_square_continues (near_square_stage (unat N) k) \<and>
           (\<forall>j<k. near_square_continues (near_square_stage (unat N) j)) \<and>
           (\<forall>j. \<not> near_square_continues (near_square_stage (unat N) j) \<longrightarrow>
                fst (near_square_stage (unat N) j) * snd (near_square_stage (unat N) j)
                  \<le> unat w * unat h)"
proof -
  define n where "n = unat N"
  have npos: "0 < n" using pos by (simp add: n_def unat_gt_0)
  have nle: "n \<le> 2 ^ 24"
    using le by (simp add: n_def max_pixels_def max_dim_pixels_def word_le_nat_alt)
  obtain w h where wh: "size_loop N 1 = (w, h)" by (cases "size_loop N 1")
  from size_loop_result [OF npos nle n_def [symmetric]] wh
  obtain k where k: "k \<le> 12" "(unat w, unat h) = near_square_stage n k"
      "\<not> near_square_continues (near_square_stage n k)"
      "\<forall>j<k. near_square_continues (near_square_stage n j)"
      "0 < n div 2 ^ k"
    by auto
  have uw: "unat w = n div 2 ^ k" and uh: "unat h = 2 ^ k"
    using k(2) by (simp_all add: near_square_stage_def)
  have "(2::nat) ^ k \<le> 2 ^ 12" using k(1) by (intro power_increasing) auto
  then have h4096: "unat h \<le> 4096" using uh by simp
  have w4096: "unat w \<le> 4096"
    using k(3) k(2) [symmetric] by (simp add: near_square_continues_def)
  have wpos: "0 < unat w" using k(5) uw by simp
  have hpos: "0 < unat h" using uh by simp
  have prod: "unat w * unat h \<le> n" unfolding uw uh by (rule div_times_less_eq_dividend)
  have n32: "n < 2 ^ 32" using nle by simp
  have umul: "unat (w * h) = unat w * unat h"
    using prod n32 by (simp add: unat_word_ariths)
  have a1: "w \<le> max_dim_pixels \<and> h \<le> max_dim_pixels"
    using w4096 h4096 by (simp add: max_dim_pixels_def word_le_nat_alt)
  have a2: "w * h \<le> N" using prod umul by (simp add: word_le_nat_alt n_def)
  have a3: "w > 0 \<and> h > 0" using wpos hpos by (simp add: unat_gt_0 word_neq_0_conv)
  have nlt: "\<not> max_pixels < N" using le by (simp add: not_less)
  have res: "framebuffer_size_for_pixel_count N = Inr (w, h)"
    unfolding framebuffer_size_for_pixel_count_def using pos nlt wh a1 a2 a3
    by simp
  have maxi: "\<forall>j. \<not> near_square_continues (near_square_stage n j) \<longrightarrow>
                fst (near_square_stage n j) * snd (near_square_stage n j) \<le> unat w * unat h"
  proof (intro allI impI)
    fix j assume nk: "\<not> near_square_continues (near_square_stage n j)"
    have "k \<le> j" using nk k(4) by (meson not_le)
    from stage_product_antimono [OF this, of n]
    show "fst (near_square_stage n j) * snd (near_square_stage n j) \<le> unat w * unat h"
      using k(2) [symmetric] by simp
  qed
  show ?thesis
    using res prod w4096 h4096 wpos hpos k(2,3,4) maxi unfolding n_def by blast
qed

lemma framebuffer_size_large:
  assumes "max_pixels < N"
  shows "framebuffer_size_for_pixel_count N = Inr (4096, 4096)"
proof -
  have "unat max_pixels = 16777216" by (simp add: max_pixels_def max_dim_pixels_def)
  then have gt: "16777216 < unat N" using assms by (simp add: word_less_nat_alt)
  then have "0 < unat N" by simp
  then have pos: "0 < N" by (simp only: unat_gt_0 word_neq_0_conv)
  have "(4096 :: uint32_t) * 4096 \<le> N" using gt by (simp add: word_le_nat_alt)
  then show ?thesis
    unfolding framebuffer_size_for_pixel_count_def using assms pos
    by (simp add: max_dim_pixels_def)
qed

text \<open>
  Claim C1.  For every pixel count \<open>N\<close> with \<open>0 < N \<le> 4096\<^sup>2\<close> the function returns a
  pair \<open>(w, h)\<close> with \<open>w * h \<le> N\<close>, both dimensions at most 4096 and positive.  The pair is
  the first stage \<open>k\<close> of the near-square rule at which the rule stops (every earlier
  stage goes on halving), and its area is the largest among all stages at which the rule
  could stop.  For \<open>N > 4096\<^sup>2\<close> the result is exactly \<open>(4096, 4096)\<close>.
\<close>

theorem framebuffer_size_for_pixel_count_near_square:
  "(0 < N \<and> N \<le> max_pixels \<longrightarrow>
     (\<exists>w h k. framebuffer_size_for_pixel_count N = Inr (w, h) \<and>
           unat w * unat h \<le> unat N \<and> unat w \<le> 4096 \<and> unat h \<le> 4096 \<and>
           0 < unat w \<and> 0 < unat h \<and>
           (unat w, unat h) = near_square_stage (unat N) k \<and>
           \<not> near_square_continues (near_square_stage (unat N) k) \<and>
           (\<forall>j<k. near_square_continues (near_square_stage (unat N) j)) \<and>
           (\<forall>j. \<not> near_square_continues (near_square_stage (unat N) j) \<longrightarrow>
                fst (near_square_stage (unat N) j) * snd (near_square_stage (unat N) j)
                  \<le> unat w * unat h))) \<and>
   (max_pixels < N \<longrightarrow> framebuffer_size_for_pixel_count N = Inr (4096, 4096))"
  using framebuffer_size_small [of N] framebuffer_size_large [of N] by blast

theorem framebuffer_size_for_pixel_count_near_square_witness:
  "(0 :: uint32_t) < 4097 \<and> (4097 :: uint32_t) \<le> max_pixels \<and>
   (\<exists>w h. framebuffer_size_for_pixel_count 4097 = Inr (w, h) \<and>
          unat w * unat h \<le> 4097 \<and> unat w \<le> 4096 \<and> unat h \<le> 4096 \<and>
          0 < unat w \<and> 0 < unat h) \<and>
   max_pixels < 16777217 \<and>
   framebuffer_size_for_pixel_count 16777217 = Inr (4096, 4096)"
proof -
  have h1: "(0 :: uint32_t) < 4097 \<and> (4097 :: uint32_t) \<le> max_pixels"
    by (simp add: max_pixels_def max_dim_pixels_def)
  have h2: "max_pixels < 16777217"
    by (simp add: max_pixels_def max_dim_pixels_def)
  have u: "unat (4097 :: uint32_t) = 4097" by simp
  from framebuffer_size_for_pixel_count_near_square [of 4097] h1
  have "\<exists>w h. framebuffer_size_for_pixel_count 4097 = Inr (w, h) \<and>
          unat w * unat h \<le> 4097 \<and> unat w \<le> 4096 \<and> unat h \<le> 4096 \<and>
          0 < unat w \<and> 0 < unat h"
    unfolding u by blast
  moreover from framebuffer_size_for_pixel_count_near_square [of 16777217] h2
  have "framebuffer_size_for_pixel_count 16777217 = Inr (4096, 4096)" by blast
  ultimately show ?thesis using h1 h2 by blast
qed

section \<open>Properties of the supertile coverage\<close>

lemma ceil_div_minus_one:
  assumes "0 < a" "0 < b"
  shows "ceil_div a b - 1 = (a - 1) div b"
proof -
  have "a + b - 1 = (a - 1) + b" using assms by simp
  then have "ceil_div a b = ((a - 1) + b) div b" by (simp add: ceil_div_def)
  also have "\<dots> = (a - 1) div b + 1"
    using assms(2) div_add_self2 [of b "a - 1"] by simp
  finally show ?thesis by simp
qed

lemma supertile_x_loop_eq:
  "supertile_x_loop x max_x y r = r @ map (\<lambda>x. SUPERTILE_COORDINATES x y) [x..<Suc max_x]"
proof (induction x max_x y r rule: supertile_x_loop.induct)
  case (1 x max_x y r)
  show ?case
  proof (cases "x \<le> max_x")
    case True
    then have u: "[x..<Suc max_x] = x # [Suc x..<Suc max_x]" by (simp add: upt_conv_Cons)
    have "supertile_x_loop x max_x y r
          = supertile_x_loop (Suc x) max_x y (r @ [SUPERTILE_COORDINATES x y])"
      by (subst supertile_x_loop.simps) (simp only: True if_True)
    also have "\<dots> = (r @ [SUPERTILE_COORDINATES x y])
                      @ map (\<lambda>x. SUPERTILE_COORDINATES x y) [Suc x..<Suc max_x]"
      using "1.IH" [OF True] .
    finally show ?thesis unfolding u by simp
  next
    case False
    then have "supertile_x_loop x max_x y r = r"
      by (subst supertile_x_loop.simps) (simp only: if_False)
    then show ?thesis using False by simp
  qed
qed

lemma supertile_y_loop_eq:
  "supertile_y_loop y max_y min_x max_x r = r @ supertile_rows min_x max_x y max_y"
proof (induction y max_y min_x max_x r rule: supertile_y_loop.induct)
  case (1 y max_y min_x max_x r)
  show ?case
  proof (cases "y \<le> max_y")
    case True
    then have u: "[y..<Suc max_y] = y # [Suc y..<Suc max_y]" by (simp add: upt_conv_Cons)
    have "supertile_y_loop y max_y min_x max_x r
          = supertile_y_loop (Suc y) max_y min_x max_x (supertile_x_loop min_x max_x y r)"
      by (subst supertile_y_loop.simps) (simp only: True if_True)
    also have "\<dots> = supertile_x_loop min_x max_x y r @ supertile_rows min_x max_x (Suc y) max_y"
      using "1.IH" [OF True] .
    finally show ?thesis unfolding supertile_rows_def u supertile_x_loop_eq by simp
  next
    case False
    then have "supertile_y_loop y max_y min_x max_x r = r"
      by (subst supertile_y_loop.simps) (simp only: if_False)
    then show ?thesis using False by (simp add: supertile_rows_def)
  qed
qed

lemma length_supertile_rows:
  "length (supertile_rows min_x max_x min_y max_y)
   = (Suc max_x - min_x) * (Suc max_y - min_y)"
proof -
  have "length (supertile_rows min_x max_x min_y max_y)
        = sum_list (map (\<lambda>y. Suc max_x - min_x) [min_y..<Suc max_y])"
    by (simp add: supertile_rows_def length_concat comp_def del: upt_Suc)
  also have "\<dots> = length [min_y..<Suc max_y] * (Suc max_x - min_x)"
    by (simp only: sum_list_triv of_nat_id)
  also have "\<dots> = (Suc max_y - min_y) * (Suc max_x - min_x)"
    by (simp only: length_upt)
  finally show ?thesis by (simp only: mult.commute)
qed

lemma emit_supertile_coordinates_rcl:
  "rcl (emit_supertile_coordinates job fb)
   = rcl job @ supertile_rows (unat (min_x_supertile fb)) (unat (max_x_supertile fb))
                              (unat (min_y_supertile fb)) (unat (max_y_supertile fb))"
  by (simp add: emit_supertile_coordinates_def Let_def supertile_y_loop_eq)

lemma unat_max_supertile:
  assumes "0 < (w :: uint32_t)" "s \<noteq> 0"
  shows "unat ((w - 1) div s) = ceil_div (unat w) (unat s) - 1"
proof -
  have w: "0 < unat w" using assms(1) by (simp add: unat_gt_0)
  have s: "0 < unat s" using assms(2) by (simp add: unat_gt_0)
  have "unat (w - 1) = unat w - 1" using assms(1) by (simp add: unat_minus_one)
  then have "unat ((w - 1) div s) = (unat w - 1) div unat s" by (simp add: unat_div_distrib)
  then show ?thesis using ceil_div_minus_one [OF w s] by simp
qed


text \<open>
  Claim C2.  For a frame tiling with positive width and height and non-zero supertile
  sizes in pixels, \<open>setup_framebuffer_data\<close> sets the minimum supertile to \<open>(0, 0)\<close> and
  the maximum on each axis to \<open>ceil (dimension / supertile size in pixels) - 1\<close>, and
  \<open>emit_supertile_coordinates\<close> appends to the render control list exactly the records
  of the coverage rectangle in row-major order: \<open>(max_x - min_x + 1) * (max_y - min_y + 1)\<close>
  of them, the first at \<open>(min_x, min_y)\<close>.
\<close>

theorem supertile_coverage_and_emission:
  assumes "0 < width t" and "0 < height t"
    and "tile_width t * supertile_width t \<noteq> 0"
    and "tile_height t * supertile_height t \<noteq> 0"
  shows "\<exists>fb. setup_framebuffer_data ext vk_fmt ty t = Inr fb \<and>
           min_x_supertile fb = 0 \<and> min_y_supertile fb = 0 \<and>
           unat (max_x_supertile fb)
             = ceil_div (unat (width t)) (unat (tile_width t * supertile_width t)) - 1 \<and>
           unat (max_y_supertile fb)
             = ceil_div (unat (height t)) (unat (tile_height t * supertile_height t)) - 1 \<and>
           rcl (emit_supertile_coordinates job fb)
             = rcl job @ supertile_rows (unat (min_x_supertile fb)) (unat (max_x_supertile fb))
                                        (unat (min_y_supertile fb)) (unat (max_y_supertile fb)) \<and>
           length (supertile_rows (unat (min_x_supertile fb)) (unat (max_x_supertile fb))
                                  (unat (min_y_supertile fb)) (unat (max_y_supertile fb)))
             = (unat (max_x_supertile fb) - unat (min_x_supertile fb) + 1)
               * (unat (max_y_supertile fb) - unat (min_y_supertile fb) + 1) \<and>
           hd (supertile_rows (unat (min_x_supertile fb)) (unat (max_x_supertile fb))
                              (unat (min_y_supertile fb)) (unat (max_y_supertile fb)))
             = SUPERTILE_COORDINATES (unat (min_x_supertile fb)) (unat (min_y_supertile fb))"
proof -
  define fb where "fb =
    \<lparr>internal_type = ty, min_x_supertile = 0, min_y_supertile = 0,
     max_x_supertile = (width t - 1) div (tile_width t * supertile_width t),
     max_y_supertile = (height t - 1) div (tile_height t * supertile_height t),
     vk_format = vk_fmt, format = v3dv_get_format ext vk_fmt\<rparr>"
  have s: "setup_framebuffer_data ext vk_fmt ty t = Inr fb"
    using assms(3,4) by (simp add: setup_framebuffer_data_def Let_def fb_def)
  have mn: "min_x_supertile fb = 0" "min_y_supertile fb = 0" by (simp_all add: fb_def)
  have mx: "unat (max_x_supertile fb)
             = ceil_div (unat (width t)) (unat (tile_width t * supertile_width t)) - 1"
    using unat_max_supertile [OF assms(1,3)] by (simp add: fb_def)
  have my: "unat (max_y_supertile fb)
             = ceil_div (unat (height t)) (unat (tile_height t * supertile_height t)) - 1"
    using unat_max_supertile [OF assms(2,4)] by (simp add: fb_def)
  have len: "length (supertile_rows (unat (min_x_supertile fb)) (unat (max_x_supertile fb))
                                  (unat (min_y_supertile fb)) (unat (max_y_supertile fb)))
             = (unat (max_x_supertile fb) - unat (min_x_supertile fb) + 1)
               * (unat (max_y_supertile fb) - unat (min_y_supertile fb) + 1)"
    unfolding length_supertile_rows mn by simp
  have hd: "hd (supertile_rows (unat (min_x_supertile fb)) (unat (max_x_supertile fb))
                              (unat (min_y_supertile fb)) (unat (max_y_supertile fb)))
             = SUPERTILE_COORDINATES (unat (min_x_supertile fb)) (unat (min_y_supertile fb))"
    unfolding mn by (simp add: supertile_rows_def upt_conv_Cons del: upt_Suc)
  show ?thesis
    using s mn mx my emit_supertile_coordinates_rcl [of job fb] len hd by blast
qed

theorem supertile_coverage_and_emission_witness:
  "0 < width (example_frame_tiling 100 70 1 0) \<and>
   0 < height (example_frame_tiling 100 70 1 0) \<and>
   tile_width (example_frame_tiling 100 70 1 0) * supertile_width (example_frame_tiling 100 70 1 0) \<noteq> 0 \<and>
   tile_height (example_frame_tiling 100 70 1 0) * supertile_height (example_frame_tiling 100 70 1 0) \<noteq> 0 \<and>
   (\<exists>fb. setup_framebuffer_data example_externals VK_FORMAT_R8G8B8A8_UINT V3D_INTERNAL_TYPE_8UI
            (example_frame_tiling 100 70 1 0) = Inr fb \<and>
         unat (max_x_supertile fb) = 1 \<and> unat (max_y_supertile fb) = 1 \<and>
         rcl (emit_supertile_coordinates
                \<lparr>frame_tiling = example_frame_tiling 100 70 1 0, rcl = [], indirect = []\<rparr> fb)
           = [SUPERTILE_COORDINATES 0 0, SUPERTILE_COORDINATES 1 0,
              SUPERTILE_COORDINATES 0 1, SUPERTILE_COORDINATES 1 1])"
proof -
  let ?t = "example_frame_tiling 100 70 1 0"
  let ?job = "\<lparr>frame_tiling = ?t, rcl = [], indirect = []\<rparr>"
  have h: "0 < width ?t" "0 < height ?t"
    "tile_width ?t * supertile_width ?t \<noteq> 0" "tile_height ?t * supertile_height ?t \<noteq> 0"
    by (simp_all add: example_frame_tiling_def)
  from supertile_coverage_and_emission [OF h, of example_externals VK_FORMAT_R8G8B8A8_UINT
      V3D_INTERNAL_TYPE_8UI ?job]
  obtain fb where fb:
    "setup_framebuffer_data example_externals VK_FORMAT_R8G8B8A8_UINT V3D_INTERNAL_TYPE_8UI ?t
       = Inr fb"
    "min_x_supertile fb = 0" "min_y_supertile fb = 0"
    "unat (max_x_supertile fb)
       = ceil_div (unat (width ?t)) (unat (tile_width ?t * supertile_width ?t)) - 1"
    "unat (max_y_supertile fb)
       = ceil_div (unat (height ?t)) (unat (tile_height ?t * supertile_height ?t)) - 1"
    "rcl (emit_supertile_coordinates ?job fb)
       = rcl ?job @ supertile_rows (unat (min_x_supertile fb)) (unat (max_x_supertile fb))
                                  (unat (min_y_supertile fb)) (unat (max_y_supertile fb))"
    by blast
  have mx: "unat (max_x_supertile fb) = 1" and my: "unat (max_y_supertile fb) = 1"
    using fb(4,5) by (simp_all add: example_frame_tiling_def ceil_div_def)
  have "rcl (emit_supertile_coordinates ?job fb)
        = [SUPERTILE_COORDINATES 0 0, SUPERTILE_COORDINATES 1 0,
           SUPERTILE_COORDINATES 0 1, SUPERTILE_COORDINATES 1 1]"
    using fb(6) by (simp add: fb(2,3) mx my supertile_rows_def)
  then show ?thesis using h fb(1) mx my by blast
qed

section \<open>Properties of the prologue's clear-color records\<close>

lemma clear_colors_part3_append:
  "clear_colors_part3 (xs @ ys) = clear_colors_part3 xs @ clear_colors_part3 ys"
  by (induction xs rule: clear_colors_part3.induct) simp_all

lemma excess_word:
  assumes "unat (padded :: uint32_t) = unat implicit + d"
  shows "(padded - implicit \<ge> 15) = (15 \<le> d)"
proof -
  have "implicit \<le> padded" using assms by (simp add: word_le_nat_alt)
  then have "unat (padded - implicit) = unat padded - unat implicit" by (rule unat_sub)
  then have "unat (padded - implicit) = d" using assms by simp
  then show ?thesis by (simp add: word_le_nat_alt)
qed

lemma emit_rcl_prologue_uif_clear:
  assumes color: "aspects ci AND VK_IMAGE_ASPECT_COLOR_BIT \<noteq> 0"
    and img: "clear_image ci = Some img"
    and uif: "tiling (slices img (level ci)) = VC5_TILING_UIF_NO_XOR \<or>
              tiling (slices img (level ci)) = VC5_TILING_UIF_XOR"
    and nz: "v3d_utile_height ext (cpp img) * 2 \<noteq> 0"
    and pad: "pad = (if padded_height_of_output_image_in_uif_blocks (slices img (level ci))
                          - align ext (height (frame_tiling job)) (v3d_utile_height ext (cpp img) * 2)
                              div (v3d_utile_height ext (cpp img) * 2) \<ge> 15
                     then padded_height_of_output_image_in_uif_blocks (slices img (level ci))
                     else 0)"
  shows "\<exists>job'. emit_rcl_prologue ext job ty (Some ci) = Inr job' \<and>
           clear_colors_part3 (drop (length (rcl job)) (rcl job'))
             = (if internal_bpp (frame_tiling job) \<ge> V3D_INTERNAL_BPP_128 \<or> pad \<noteq> 0
                then [(pad, drop_bit 16 (color (clear_value ci) 3))] else [])"
  using color img uif nz unfolding pad emit_rcl_prologue_def
  by (auto simp: Let_def clear_colors_part3_append)

text \<open>
  Claim C3, as amended.  When the prologue is emitted for a color-aspect clear of a
  UIF-tiled image slice whose padded height exceeds the frame's implicit padded height by
  \<open>d\<close> blocks, then for \<open>d \<ge> 15\<close> exactly one third clear-color record is emitted,
  whatever the internal bpp, and its \<open>uif_padded_height_in_uif_blocks\<close> field carries the
  slice's padded height itself; for \<open>d < 15\<close> and an internal bpp below 128 no third
  clear-color record is emitted.
\<close>

theorem emit_rcl_prologue_uif_padding:
  assumes color: "aspects ci AND VK_IMAGE_ASPECT_COLOR_BIT \<noteq> 0"
    and img: "clear_image ci = Some img"
    and uif: "tiling (slices img (level ci)) = VC5_TILING_UIF_NO_XOR \<or>
              tiling (slices img (level ci)) = VC5_TILING_UIF_XOR"
    and nz: "v3d_utile_height ext (cpp img) * 2 \<noteq> 0"
    and excess:
      "unat (padded_height_of_output_image_in_uif_blocks (slices img (level ci)))
       = unat (align ext (height (frame_tiling job)) (v3d_utile_height ext (cpp img) * 2)
                 div (v3d_utile_height ext (cpp img) * 2)) + d"
  shows "\<exists>job'. emit_rcl_prologue ext job ty (Some ci) = Inr job' \<and>
           (15 \<le> d \<longrightarrow>
              clear_colors_part3 (drop (length (rcl job)) (rcl job'))
                = [(padded_height_of_output_image_in_uif_blocks (slices img (level ci)),
                    drop_bit 16 (color (clear_value ci) 3))]) \<and>
           (d < 15 \<and> internal_bpp (frame_tiling job) < V3D_INTERNAL_BPP_128 \<longrightarrow>
              clear_colors_part3 (drop (length (rcl job)) (rcl job')) = [])"
proof -
  let ?padded = "padded_height_of_output_image_in_uif_blocks (slices img (level ci))"
  let ?implicit = "align ext (height (frame_tiling job)) (v3d_utile_height ext (cpp img) * 2)
                     div (v3d_utile_height ext (cpp img) * 2)"
  define pad where "pad = (if ?padded - ?implicit \<ge> 15 then ?padded else 0)"
  from emit_rcl_prologue_uif_clear [OF color img uif nz pad_def, of ty]
  obtain job' where j: "emit_rcl_prologue ext job ty (Some ci) = Inr job'"
    "clear_colors_part3 (drop (length (rcl job)) (rcl job'))
       = (if internal_bpp (frame_tiling job) \<ge> V3D_INTERNAL_BPP_128 \<or> pad \<noteq> 0
          then [(pad, drop_bit 16 (color (clear_value ci) 3))] else [])"
    by blast
  note ew = excess_word [OF excess]
  have big: "15 \<le> d \<Longrightarrow> pad = ?padded \<and> pad \<noteq> 0"
  proof -
    assume d: "15 \<le> d"
    then have p: "pad = ?padded" using ew by (simp add: pad_def)
    have "0 < unat ?padded" using excess d by simp
    then have "?padded \<noteq> 0" by (simp add: unat_gt_0)
    then show ?thesis using p by simp
  qed
  have small: "d < 15 \<Longrightarrow> pad = 0" using ew by (simp add: pad_def)
  have a: "15 \<le> d \<longrightarrow>
           clear_colors_part3 (drop (length (rcl job)) (rcl job'))
             = [(?padded, drop_bit 16 (color (clear_value ci) 3))]"
    using j(2) big by auto
  have b: "d < 15 \<and> internal_bpp (frame_tiling job) < V3D_INTERNAL_BPP_128 \<longrightarrow>
           clear_colors_part3 (drop (length (rcl job)) (rcl job')) = []"
    using j(2) small by (auto simp: not_le)
  show ?thesis using j(1) a b by blast
qed

theorem emit_rcl_prologue_uif_padding_counterexample:
  "padded_height_of_output_image_in_uif_blocks
     (slices (example_image VC5_TILING_UIF_NO_XOR 25) 0)
   - align example_externals (height (frame_tiling (example_job 64 40)))
       (v3d_utile_height example_externals (cpp (example_image VC5_TILING_UIF_NO_XOR 25)) * 2)
     div (v3d_utile_height example_externals (cpp (example_image VC5_TILING_UIF_NO_XOR 25)) * 2)
   = 20 \<and>
   emit_rcl_prologue example_externals (example_job 64 40) V3D_INTERNAL_TYPE_8UI
     (Some (example_clear_info (example_image VC5_TILING_UIF_NO_XOR 25)))
   = Inr \<lparr>frame_tiling = example_frame_tiling 64 40 1 0,
          rcl = [TILE_RENDERING_MODE_CFG_COMMON
                   \<lparr>early_z_disable = True, image_width_pixels = 64,
                    image_height_pixels = 40, number_of_render_targets = 1,
                    multisample_mode_4x = False, maximum_bpp_of_all_render_targets = 0\<rparr>,
                 TILE_RENDERING_MODE_CFG_CLEAR_COLORS_PART1 0x11223344 0,
                 TILE_RENDERING_MODE_CFG_CLEAR_COLORS_PART3 25 0,
                 TILE_RENDERING_MODE_CFG_COLOR 0 V3D_INTERNAL_TYPE_8UI,
                 TILE_RENDERING_MODE_CFG_ZS_CLEAR_VALUES 0x11223344 0,
                 TILE_LIST_INITIAL_BLOCK_SIZE],
          indirect = []\<rparr>"
  by (simp add: emit_rcl_prologue_def example_externals_def example_job_def
      example_frame_tiling_def example_image_def example_clear_info_def
      VK_IMAGE_ASPECT_COLOR_BIT_def V3D_INTERNAL_BPP_64_def V3D_INTERNAL_BPP_128_def
      clear_value_z_def clear_value_s_def Let_def)

theorem emit_rcl_prologue_uif_padding_witness:
  "aspects (example_clear_info (example_image VC5_TILING_UIF_NO_XOR 25))
     AND VK_IMAGE_ASPECT_COLOR_BIT \<noteq> 0 \<and>
   v3d_utile_height example_externals (cpp (example_image VC5_TILING_UIF_NO_XOR 25)) * 2 \<noteq> 0 \<and>
   unat (25 :: uint32_t)
     = unat (align example_externals (height (frame_tiling (example_job 64 40))) 8 div 8) + 20 \<and>
   unat (8 :: uint32_t)
     = unat (align example_externals (height (frame_tiling (example_job 64 40))) 8 div 8) + 3 \<and>
   internal_bpp (frame_tiling (example_job 64 40)) < V3D_INTERNAL_BPP_128 \<and>
   (\<exists>job'. emit_rcl_prologue example_externals (example_job 64 40) V3D_INTERNAL_TYPE_8UI
              (Some (example_clear_info (example_image VC5_TILING_UIF_NO_XOR 25))) = Inr job' \<and>
           clear_colors_part3 (rcl job') = [(25, 0)]) \<and>
   (\<exists>job'. emit_rcl_prologue example_externals (example_job 64 40) V3D_INTERNAL_TYPE_8UI
              (Some (example_clear_info (example_image VC5_TILING_UIF_XOR 8))) = Inr job' \<and>
           clear_colors_part3 (rcl job') = [])"
proof -
  let ?job = "example_job 64 40"
  let ?i1 = "example_image VC5_TILING_UIF_NO_XOR 25"
  let ?i2 = "example_image VC5_TILING_UIF_XOR 8"
  have ev: "v3d_utile_height example_externals 4 * 2 = 8"
    "align example_externals (height (frame_tiling ?job)) 8 div 8 = 5"
    by (simp_all add: example_externals_def example_job_def example_frame_tiling_def)
  have c1: "aspects (example_clear_info ?i1) AND VK_IMAGE_ASPECT_COLOR_BIT \<noteq> 0"
    and c2: "aspects (example_clear_info ?i2) AND VK_IMAGE_ASPECT_COLOR_BIT \<noteq> 0"
    by (simp_all add: example_clear_info_def VK_IMAGE_ASPECT_COLOR_BIT_def)
  have m1: "clear_image (example_clear_info ?i1) = Some ?i1"
    and m2: "clear_image (example_clear_info ?i2) = Some ?i2"
    by (simp_all add: example_clear_info_def)
  have u1: "tiling (slices ?i1 (level (example_clear_info ?i1))) = VC5_TILING_UIF_NO_XOR \<or>
            tiling (slices ?i1 (level (example_clear_info ?i1))) = VC5_TILING_UIF_XOR"
    and u2: "tiling (slices ?i2 (level (example_clear_info ?i2))) = VC5_TILING_UIF_NO_XOR \<or>
             tiling (slices ?i2 (level (example_clear_info ?i2))) = VC5_TILING_UIF_XOR"
    by (simp_all add: example_image_def)
  have n1: "v3d_utile_height example_externals (cpp ?i1) * 2 \<noteq> 0"
    and n2: "v3d_utile_height example_externals (cpp ?i2) * 2 \<noteq> 0"
    by (simp_all add: example_externals_def)
  have e1: "unat (padded_height_of_output_image_in_uif_blocks
                    (slices ?i1 (level (example_clear_info ?i1))))
            = unat (align example_externals (height (frame_tiling ?job))
                      (v3d_utile_height example_externals (cpp ?i1) * 2)
                    div (v3d_utile_height example_externals (cpp ?i1) * 2)) + 20"
    and e2: "unat (padded_height_of_output_image_in_uif_blocks
                    (slices ?i2 (level (example_clear_info ?i2))))
            = unat (align example_externals (height (frame_tiling ?job))
                      (v3d_utile_height example_externals (cpp ?i2) * 2)
                    div (v3d_utile_height example_externals (cpp ?i2) * 2)) + 3"
    by (simp_all add: example_image_def ev)
  have bpp: "internal_bpp (frame_tiling ?job) < V3D_INTERNAL_BPP_128"
    by (simp add: example_job_def example_frame_tiling_def V3D_INTERNAL_BPP_128_def)
  have r: "rcl ?job = []" by (simp add: example_job_def)
  from emit_rcl_prologue_uif_padding [OF c1 m1 u1 n1 e1, of V3D_INTERNAL_TYPE_8UI]
  have w1: "\<exists>job'. emit_rcl_prologue example_externals ?job V3D_INTERNAL_TYPE_8UI
              (Some (example_clear_info ?i1)) = Inr job' \<and>
            clear_colors_part3 (rcl job') = [(25, 0)]"
    by (simp add: r example_image_def example_clear_info_def)
  from emit_rcl_prologue_uif_padding [OF c2 m2 u2 n2 e2, of V3D_INTERNAL_TYPE_8UI] bpp
  have w2: "\<exists>job'. emit_rcl_prologue example_externals ?job V3D_INTERNAL_TYPE_8UI
              (Some (example_clear_info ?i2)) = Inr job' \<and>
            clear_colors_part3 (rcl job') = []"
    by (simp add: r)
  have e1': "unat (25 :: uint32_t)
     = unat (align example_externals (height (frame_tiling ?job)) 8 div 8) + 20"
    and e2': "unat (8 :: uint32_t)
     = unat (align example_externals (height (frame_tiling ?job)) 8 div 8) + 3"
    by (simp_all add: ev)
  show ?thesis using c1 n1 e1' e2' bpp w1 w2 by blast
qed
section \<open>Properties of the load and store records\<close>

lemma loads_of_append: "loads_of (xs @ ys) = loads_of xs @ loads_of ys"
  by (induction xs rule: loads_of.induct) simp_all

lemma stores_of_append: "stores_of (xs @ ys) = stores_of xs @ stores_of ys"
  by (induction xs rule: stores_of.induct) simp_all


lemma choose_tlb_format_d24s8_stencil:
  assumes "vk_format fb = VK_FORMAT_D24_UNORM_S8_UINT"
    and "aspect AND VK_IMAGE_ASPECT_DEPTH_BIT = 0"
    and "aspect AND VK_IMAGE_ASPECT_STENCIL_BIT \<noteq> 0"
  shows "choose_tlb_format fb aspect True True False = Inr V3D_OUTPUT_IMAGE_FORMAT_R8UI"
    and "choose_tlb_format fb aspect False True False = Inr V3D_OUTPUT_IMAGE_FORMAT_RGBA8UI"
    and "choose_tlb_format fb aspect False False True = Inr V3D_OUTPUT_IMAGE_FORMAT_R8UI"
    and "choose_tlb_format fb aspect True False True = Inr V3D_OUTPUT_IMAGE_FORMAT_RGBA8UI"
  using assms by (simp_all add: choose_tlb_format_def)

lemma choose_tlb_format_d24s8_depth:
  assumes "vk_format fb = VK_FORMAT_D24_UNORM_S8_UINT"
    and "aspect AND VK_IMAGE_ASPECT_DEPTH_BIT \<noteq> 0"
    and "to_buffer \<or> from_buffer"
  shows "choose_tlb_format fb aspect for_store to_buffer from_buffer
         = Inr V3D_OUTPUT_IMAGE_FORMAT_RGBA8UI"
  using assms by (auto simp: choose_tlb_format_def)

lemma choose_tlb_format_color:
  assumes "vk_format fb \<noteq> VK_FORMAT_D16_UNORM" and "vk_format fb \<noteq> VK_FORMAT_D32_SFLOAT"
    and "vk_format fb \<noteq> VK_FORMAT_X8_D24_UNORM_PACK32"
    and "vk_format fb \<noteq> VK_FORMAT_D24_UNORM_S8_UINT"
  shows "choose_tlb_format fb aspect for_store to_buffer from_buffer = Inr (rt_type (format fb))"
  using assms by (cases "vk_format fb") (simp_all add: choose_tlb_format_def)

lemma aspect_bits_disjoint:
  "VK_IMAGE_ASPECT_DEPTH_BIT AND VK_IMAGE_ASPECT_COLOR_BIT = 0"
  "VK_IMAGE_ASPECT_STENCIL_BIT AND VK_IMAGE_ASPECT_COLOR_BIT = 0"
  "VK_IMAGE_ASPECT_STENCIL_BIT AND VK_IMAGE_ASPECT_DEPTH_BIT = 0"
  "VK_IMAGE_ASPECT_DEPTH_BIT AND VK_IMAGE_ASPECT_STENCIL_BIT = 0"
  "VK_IMAGE_ASPECT_DEPTH_BIT \<noteq> VK_IMAGE_ASPECT_COLOR_BIT"
  "VK_IMAGE_ASPECT_STENCIL_BIT \<noteq> VK_IMAGE_ASPECT_COLOR_BIT"
  "VK_IMAGE_ASPECT_DEPTH_BIT AND VK_IMAGE_ASPECT_DEPTH_BIT \<noteq> 0"
  "VK_IMAGE_ASPECT_STENCIL_BIT AND VK_IMAGE_ASPECT_STENCIL_BIT \<noteq> 0"
  "VK_IMAGE_ASPECT_DEPTH_BIT \<noteq> 0"
  "VK_IMAGE_ASPECT_STENCIL_BIT \<noteq> 0"
  "VK_IMAGE_ASPECT_COLOR_BIT \<noteq> 0"
  by (simp_all add: VK_IMAGE_ASPECT_COLOR_BIT_def VK_IMAGE_ASPECT_DEPTH_BIT_def
      VK_IMAGE_ASPECT_STENCIL_BIT_def)

lemma copy_layer_to_buffer_d24s8_formats:
  assumes fmt: "vk_format fb = VK_FORMAT_D24_UNORM_S8_UINT"
    and layer: "(image_type img \<noteq> VK_IMAGE_TYPE_3D \<and> layer < layerCount (imageSubresource region))
                \<or> layer < extent_depth img"
    and aspect: "aspectMask (imageSubresource region) AND VK_IMAGE_ASPECT_DEPTH_BIT \<noteq> 0 \<or>
                 aspectMask (imageSubresource region) AND VK_IMAGE_ASPECT_STENCIL_BIT \<noteq> 0"
  shows "(\<exists>job'. emit_copy_layer_to_buffer_per_tile_list ext job fb buffer img layer region
                 = Inr job' \<and>
          map input_image_format (loads_of (drop (length (indirect job)) (indirect job')))
            = [V3D_OUTPUT_IMAGE_FORMAT_RGBA8UI] \<and>
          map output_image_format (stores_of (drop (length (indirect job)) (indirect job')))
            = [if aspectMask (imageSubresource region) AND VK_IMAGE_ASPECT_DEPTH_BIT \<noteq> 0
               then V3D_OUTPUT_IMAGE_FORMAT_RGBA8UI else V3D_OUTPUT_IMAGE_FORMAT_R8UI])"
proof (cases "aspectMask (imageSubresource region) AND VK_IMAGE_ASPECT_DEPTH_BIT \<noteq> 0")
  case True
  then show ?thesis
    using fmt layer
    unfolding emit_copy_layer_to_buffer_per_tile_list_def
    by (simp add: Let_def emit_image_load_def emit_linear_store_def choose_tlb_format_def
        zero_load_def zero_store_def loads_of_append stores_of_append)
next
  case False
  then have st: "aspectMask (imageSubresource region) AND VK_IMAGE_ASPECT_STENCIL_BIT \<noteq> 0"
    using aspect by simp
  show ?thesis
    using fmt layer False st
    unfolding emit_copy_layer_to_buffer_per_tile_list_def
    by (simp add: Let_def emit_image_load_def emit_linear_store_def choose_tlb_format_def
        zero_load_def zero_store_def loads_of_append stores_of_append)
qed

lemma copy_buffer_to_layer_d24s8_formats:
  assumes fmt: "vk_format fb = VK_FORMAT_D24_UNORM_S8_UINT"
    and layer: "(image_type img \<noteq> VK_IMAGE_TYPE_3D \<and> layer < layerCount (imageSubresource region))
                \<or> layer < extent_depth img"
    and aspect: "aspectMask (imageSubresource region) AND VK_IMAGE_ASPECT_DEPTH_BIT \<noteq> 0 \<or>
                 aspectMask (imageSubresource region) AND VK_IMAGE_ASPECT_STENCIL_BIT \<noteq> 0"
  shows "(\<exists>job'. emit_copy_buffer_to_layer_per_tile_list ext job fb img buffer layer region
                 = Inr job' \<and>
          hd (map input_image_format
                (loads_of (drop (length (indirect job)) (indirect job'))))
            = (if aspectMask (imageSubresource region) AND VK_IMAGE_ASPECT_DEPTH_BIT \<noteq> 0
               then V3D_OUTPUT_IMAGE_FORMAT_RGBA8UI else V3D_OUTPUT_IMAGE_FORMAT_R8UI) \<and>
          hd (map output_image_format
                (stores_of (drop (length (indirect job)) (indirect job'))))
            = V3D_OUTPUT_IMAGE_FORMAT_RGBA8UI)"
proof (cases "aspectMask (imageSubresource region) AND VK_IMAGE_ASPECT_DEPTH_BIT \<noteq> 0")
  case True
  then show ?thesis
    using fmt layer
    unfolding emit_copy_buffer_to_layer_per_tile_list_def
    by (simp add: Let_def emit_image_load_def emit_image_store_def emit_linear_load_def
        choose_tlb_format_def zero_load_def zero_store_def loads_of_append stores_of_append aspect_bits_disjoint)
next
  case False
  then have st: "aspectMask (imageSubresource region) AND VK_IMAGE_ASPECT_STENCIL_BIT \<noteq> 0"
    using aspect by simp
  show ?thesis
    using fmt layer False st
    unfolding emit_copy_buffer_to_layer_per_tile_list_def
    by (simp add: Let_def emit_image_load_def emit_image_store_def emit_linear_load_def
        choose_tlb_format_def zero_load_def zero_store_def loads_of_append stores_of_append aspect_bits_disjoint)
qed

text \<open>
  Claim C4.  For a D24S8 framebuffer format: with the stencil aspect, a copy to a buffer
  chooses R8UI for the store and RGBA8UI for the load, and a copy from a buffer chooses
  R8UI for the load and RGBA8UI for the store; with the depth aspect every buffer
  transfer chooses RGBA8UI.  For a color format (none of the four depth/stencil formats)
  the chosen format is the render-target type of the format, whatever the operation.  The
  per-tile lists of both copy directions carry these formats: in the load and the store
  record of a copy to a buffer, and in the first load and the first store record of a
  copy from a buffer.
\<close>

theorem choose_tlb_format_buffer_transfers:
  "(vk_format fb = VK_FORMAT_D24_UNORM_S8_UINT \<and>
    aspect AND VK_IMAGE_ASPECT_DEPTH_BIT = 0 \<and> aspect AND VK_IMAGE_ASPECT_STENCIL_BIT \<noteq> 0 \<longrightarrow>
      choose_tlb_format fb aspect True True False = Inr V3D_OUTPUT_IMAGE_FORMAT_R8UI \<and>
      choose_tlb_format fb aspect False True False = Inr V3D_OUTPUT_IMAGE_FORMAT_RGBA8UI \<and>
      choose_tlb_format fb aspect False False True = Inr V3D_OUTPUT_IMAGE_FORMAT_R8UI \<and>
      choose_tlb_format fb aspect True False True = Inr V3D_OUTPUT_IMAGE_FORMAT_RGBA8UI) \<and>
   (vk_format fb = VK_FORMAT_D24_UNORM_S8_UINT \<and>
    aspect AND VK_IMAGE_ASPECT_DEPTH_BIT \<noteq> 0 \<and> (to_buffer \<or> from_buffer) \<longrightarrow>
      choose_tlb_format fb aspect for_store to_buffer from_buffer
        = Inr V3D_OUTPUT_IMAGE_FORMAT_RGBA8UI) \<and>
   (vk_format fb \<noteq> VK_FORMAT_D16_UNORM \<and> vk_format fb \<noteq> VK_FORMAT_D32_SFLOAT \<and>
    vk_format fb \<noteq> VK_FORMAT_X8_D24_UNORM_PACK32 \<and>
    vk_format fb \<noteq> VK_FORMAT_D24_UNORM_S8_UINT \<longrightarrow>
      choose_tlb_format fb aspect for_store to_buffer from_buffer = Inr (rt_type (format fb))) \<and>
   (vk_format fb = VK_FORMAT_D24_UNORM_S8_UINT \<and>
    ((image_type img \<noteq> VK_IMAGE_TYPE_3D \<and> layer < layerCount (imageSubresource region))
       \<or> layer < extent_depth img) \<and>
    (aspectMask (imageSubresource region) AND VK_IMAGE_ASPECT_DEPTH_BIT \<noteq> 0 \<or>
     aspectMask (imageSubresource region) AND VK_IMAGE_ASPECT_STENCIL_BIT \<noteq> 0) \<longrightarrow>
      (\<exists>job'. emit_copy_layer_to_buffer_per_tile_list ext job fb buffer img layer region
                 = Inr job' \<and>
          map input_image_format (loads_of (drop (length (indirect job)) (indirect job')))
            = [V3D_OUTPUT_IMAGE_FORMAT_RGBA8UI] \<and>
          map output_image_format (stores_of (drop (length (indirect job)) (indirect job')))
            = [if aspectMask (imageSubresource region) AND VK_IMAGE_ASPECT_DEPTH_BIT \<noteq> 0
               then V3D_OUTPUT_IMAGE_FORMAT_RGBA8UI else V3D_OUTPUT_IMAGE_FORMAT_R8UI]) \<and>
      (\<exists>job'. emit_copy_buffer_to_layer_per_tile_list ext job fb img buffer layer region
                 = Inr job' \<and>
          hd (map input_image_format
                (loads_of (drop (length (indirect job)) (indirect job'))))
            = (if aspectMask (imageSubresource region) AND VK_IMAGE_ASPECT_DEPTH_BIT \<noteq> 0
               then V3D_OUTPUT_IMAGE_FORMAT_RGBA8UI else V3D_OUTPUT_IMAGE_FORMAT_R8UI) \<and>
          hd (map output_image_format
                (stores_of (drop (length (indirect job)) (indirect job'))))
            = V3D_OUTPUT_IMAGE_FORMAT_RGBA8UI))"
proof (intro conjI)
  show "vk_format fb = VK_FORMAT_D24_UNORM_S8_UINT \<and>
    aspect AND VK_IMAGE_ASPECT_DEPTH_BIT = 0 \<and> aspect AND VK_IMAGE_ASPECT_STENCIL_BIT \<noteq> 0 \<longrightarrow>
      choose_tlb_format fb aspect True True False = Inr V3D_OUTPUT_IMAGE_FORMAT_R8UI \<and>
      choose_tlb_format fb aspect False True False = Inr V3D_OUTPUT_IMAGE_FORMAT_RGBA8UI \<and>
      choose_tlb_format fb aspect False False True = Inr V3D_OUTPUT_IMAGE_FORMAT_R8UI \<and>
      choose_tlb_format fb aspect True False True = Inr V3D_OUTPUT_IMAGE_FORMAT_RGBA8UI"
    by (intro impI, elim conjE, intro conjI)
       (rule choose_tlb_format_d24s8_stencil; assumption)+
  show "vk_format fb = VK_FORMAT_D24_UNORM_S8_UINT \<and>
    aspect AND VK_IMAGE_ASPECT_DEPTH_BIT \<noteq> 0 \<and> (to_buffer \<or> from_buffer) \<longrightarrow>
      choose_tlb_format fb aspect for_store to_buffer from_buffer
        = Inr V3D_OUTPUT_IMAGE_FORMAT_RGBA8UI"
    by (intro impI, elim conjE, rule choose_tlb_format_d24s8_depth; assumption)
  show "vk_format fb \<noteq> VK_FORMAT_D16_UNORM \<and> vk_format fb \<noteq> VK_FORMAT_D32_SFLOAT \<and>
    vk_format fb \<noteq> VK_FORMAT_X8_D24_UNORM_PACK32 \<and>
    vk_format fb \<noteq> VK_FORMAT_D24_UNORM_S8_UINT \<longrightarrow>
      choose_tlb_format fb aspect for_store to_buffer from_buffer = Inr (rt_type (format fb))"
    by (intro impI, elim conjE, rule choose_tlb_format_color; assumption)
  show "vk_format fb = VK_FORMAT_D24_UNORM_S8_UINT \<and>
    ((image_type img \<noteq> VK_IMAGE_TYPE_3D \<and> layer < layerCount (imageSubresource region))
       \<or> layer < extent_depth img) \<and>
    (aspectMask (imageSubresource region) AND VK_IMAGE_ASPECT_DEPTH_BIT \<noteq> 0 \<or>
     aspectMask (imageSubresource region) AND VK_IMAGE_ASPECT_STENCIL_BIT \<noteq> 0) \<longrightarrow>
      (\<exists>job'. emit_copy_layer_to_buffer_per_tile_list ext job fb buffer img layer region
                 = Inr job' \<and>
          map input_image_format (loads_of (drop (length (indirect job)) (indirect job')))
            = [V3D_OUTPUT_IMAGE_FORMAT_RGBA8UI] \<and>
          map output_image_format (stores_of (drop (length (indirect job)) (indirect job')))
            = [if aspectMask (imageSubresource region) AND VK_IMAGE_ASPECT_DEPTH_BIT \<noteq> 0
               then V3D_OUTPUT_IMAGE_FORMAT_RGBA8UI else V3D_OUTPUT_IMAGE_FORMAT_R8UI]) \<and>
      (\<exists>job'. emit_copy_buffer_to_layer_per_tile_list ext job fb img buffer layer region
                 = Inr job' \<and>
          hd (map input_image_format
                (loads_of (drop (length (indirect job)) (indirect job'))))
            = (if aspectMask (imageSubresource region) AND VK_IMAGE_ASPECT_DEPTH_BIT \<noteq> 0
               then V3D_OUTPUT_IMAGE_FORMAT_RGBA8UI else V3D_OUTPUT_IMAGE_FORMAT_R8UI) \<and>
          hd (map output_image_format
                (stores_of (drop (length (indirect job)) (indirect job'))))
            = V3D_OUTPUT_IMAGE_FORMAT_RGBA8UI)"
  proof (intro impI, elim conjE, intro conjI)
    assume f: "vk_format fb = VK_FORMAT_D24_UNORM_S8_UINT"
      and l: "(image_type img \<noteq> VK_IMAGE_TYPE_3D \<and> layer < layerCount (imageSubresource region))
                \<or> layer < extent_depth img"
      and s: "aspectMask (imageSubresource region) AND VK_IMAGE_ASPECT_DEPTH_BIT \<noteq> 0 \<or>
                 aspectMask (imageSubresource region) AND VK_IMAGE_ASPECT_STENCIL_BIT \<noteq> 0"
    show "(\<exists>job'. emit_copy_layer_to_buffer_per_tile_list ext job fb buffer img layer region
                 = Inr job' \<and>
          map input_image_format (loads_of (drop (length (indirect job)) (indirect job')))
            = [V3D_OUTPUT_IMAGE_FORMAT_RGBA8UI] \<and>
          map output_image_format (stores_of (drop (length (indirect job)) (indirect job')))
            = [if aspectMask (imageSubresource region) AND VK_IMAGE_ASPECT_DEPTH_BIT \<noteq> 0
               then V3D_OUTPUT_IMAGE_FORMAT_RGBA8UI else V3D_OUTPUT_IMAGE_FORMAT_R8UI])"
      using f l s by (rule copy_layer_to_buffer_d24s8_formats)
    show "(\<exists>job'. emit_copy_buffer_to_layer_per_tile_list ext job fb img buffer layer region
                 = Inr job' \<and>
          hd (map input_image_format
                (loads_of (drop (length (indirect job)) (indirect job'))))
            = (if aspectMask (imageSubresource region) AND VK_IMAGE_ASPECT_DEPTH_BIT \<noteq> 0
               then V3D_OUTPUT_IMAGE_FORMAT_RGBA8UI else V3D_OUTPUT_IMAGE_FORMAT_R8UI) \<and>
          hd (map output_image_format
                (stores_of (drop (length (indirect job)) (indirect job'))))
            = V3D_OUTPUT_IMAGE_FORMAT_RGBA8UI)"
      using f l s by (rule copy_buffer_to_layer_d24s8_formats)
  qed
qed

theorem choose_tlb_format_buffer_transfers_witness:
  "vk_format (example_framebuffer VK_FORMAT_D24_UNORM_S8_UINT) = VK_FORMAT_D24_UNORM_S8_UINT \<and>
   VK_IMAGE_ASPECT_STENCIL_BIT AND VK_IMAGE_ASPECT_DEPTH_BIT = 0 \<and>
   VK_IMAGE_ASPECT_STENCIL_BIT AND VK_IMAGE_ASPECT_STENCIL_BIT \<noteq> 0 \<and>
   choose_tlb_format (example_framebuffer VK_FORMAT_D24_UNORM_S8_UINT)
     VK_IMAGE_ASPECT_STENCIL_BIT True True False = Inr V3D_OUTPUT_IMAGE_FORMAT_R8UI \<and>
   choose_tlb_format (example_framebuffer VK_FORMAT_D24_UNORM_S8_UINT)
     VK_IMAGE_ASPECT_STENCIL_BIT False True False = Inr V3D_OUTPUT_IMAGE_FORMAT_RGBA8UI \<and>
   VK_IMAGE_ASPECT_DEPTH_BIT AND VK_IMAGE_ASPECT_DEPTH_BIT \<noteq> 0 \<and>
   choose_tlb_format (example_framebuffer VK_FORMAT_D24_UNORM_S8_UINT)
     VK_IMAGE_ASPECT_DEPTH_BIT True True False = Inr V3D_OUTPUT_IMAGE_FORMAT_RGBA8UI \<and>
   vk_format (example_framebuffer VK_FORMAT_R8G8_UINT) \<noteq> VK_FORMAT_D24_UNORM_S8_UINT \<and>
   choose_tlb_format (example_framebuffer VK_FORMAT_R8G8_UINT)
     VK_IMAGE_ASPECT_COLOR_BIT True True False
     = Inr (rt_type (format (example_framebuffer VK_FORMAT_R8G8_UINT))) \<and>
   (0 :: uint32_t) < layerCount (imageSubresource (example_region VK_IMAGE_ASPECT_STENCIL_BIT)) \<and>
   (\<exists>job'. emit_copy_layer_to_buffer_per_tile_list example_externals (example_job 64 40)
              (example_framebuffer VK_FORMAT_D24_UNORM_S8_UINT) example_buffer
              (example_image VC5_TILING_UIF_NO_XOR 5) 0
              (example_region VK_IMAGE_ASPECT_STENCIL_BIT) = Inr job' \<and>
          map input_image_format (loads_of (indirect job')) = [V3D_OUTPUT_IMAGE_FORMAT_RGBA8UI] \<and>
          map output_image_format (stores_of (indirect job')) = [V3D_OUTPUT_IMAGE_FORMAT_R8UI]) \<and>
   (\<exists>job'. emit_copy_buffer_to_layer_per_tile_list example_externals (example_job 64 40)
              (example_framebuffer VK_FORMAT_D24_UNORM_S8_UINT)
              (example_image VC5_TILING_UIF_NO_XOR 5) example_buffer 0
              (example_region VK_IMAGE_ASPECT_STENCIL_BIT) = Inr job' \<and>
          hd (map input_image_format (loads_of (indirect job'))) = V3D_OUTPUT_IMAGE_FORMAT_R8UI \<and>
          hd (map output_image_format (stores_of (indirect job')))
            = V3D_OUTPUT_IMAGE_FORMAT_RGBA8UI)"
proof -
  let ?fb = "example_framebuffer VK_FORMAT_D24_UNORM_S8_UINT"
  let ?fc = "example_framebuffer VK_FORMAT_R8G8_UINT"
  let ?img = "example_image VC5_TILING_UIF_NO_XOR 5"
  let ?reg = "example_region VK_IMAGE_ASPECT_STENCIL_BIT"
  have f: "vk_format ?fb = VK_FORMAT_D24_UNORM_S8_UINT" by (simp add: example_framebuffer_def)
  have c: "vk_format ?fc \<noteq> VK_FORMAT_D16_UNORM \<and> vk_format ?fc \<noteq> VK_FORMAT_D32_SFLOAT \<and>
    vk_format ?fc \<noteq> VK_FORMAT_X8_D24_UNORM_PACK32 \<and>
    vk_format ?fc \<noteq> VK_FORMAT_D24_UNORM_S8_UINT" by (simp add: example_framebuffer_def)
  have am: "aspectMask (imageSubresource ?reg) = VK_IMAGE_ASPECT_STENCIL_BIT"
    by (simp add: example_region_def)
  have lc: "(0 :: uint32_t) < layerCount (imageSubresource ?reg)"
    by (simp add: example_region_def)
  have it: "image_type ?img \<noteq> VK_IMAGE_TYPE_3D" by (simp add: example_image_def)
  have ind: "indirect (example_job 64 40) = []" by (simp add: example_job_def)
  have h1: "vk_format ?fb = VK_FORMAT_D24_UNORM_S8_UINT \<and>
    VK_IMAGE_ASPECT_STENCIL_BIT AND VK_IMAGE_ASPECT_DEPTH_BIT = 0 \<and>
    VK_IMAGE_ASPECT_STENCIL_BIT AND VK_IMAGE_ASPECT_STENCIL_BIT \<noteq> 0"
    using f by (simp add: aspect_bits_disjoint)
  have h2: "vk_format ?fb = VK_FORMAT_D24_UNORM_S8_UINT \<and>
    VK_IMAGE_ASPECT_DEPTH_BIT AND VK_IMAGE_ASPECT_DEPTH_BIT \<noteq> 0 \<and> (True \<or> False)"
    using f by (simp add: aspect_bits_disjoint)
  have h4: "vk_format ?fb = VK_FORMAT_D24_UNORM_S8_UINT \<and>
    ((image_type ?img \<noteq> VK_IMAGE_TYPE_3D \<and> 0 < layerCount (imageSubresource ?reg))
       \<or> 0 < extent_depth ?img) \<and>
    (aspectMask (imageSubresource ?reg) AND VK_IMAGE_ASPECT_DEPTH_BIT \<noteq> 0 \<or>
     aspectMask (imageSubresource ?reg) AND VK_IMAGE_ASPECT_STENCIL_BIT \<noteq> 0)"
    using f it lc by (simp add: am aspect_bits_disjoint)
  note t1 = choose_tlb_format_buffer_transfers
    [where fb = ?fb and aspect = VK_IMAGE_ASPECT_STENCIL_BIT, THEN conjunct1, THEN mp, OF h1]
  note t2 = choose_tlb_format_buffer_transfers
    [where fb = ?fb and aspect = VK_IMAGE_ASPECT_DEPTH_BIT and to_buffer = True
       and from_buffer = False and for_store = True,
     THEN conjunct2, THEN conjunct1, THEN mp, OF h2]
  note t3 = choose_tlb_format_buffer_transfers
    [where fb = ?fc and aspect = VK_IMAGE_ASPECT_COLOR_BIT and to_buffer = True
       and from_buffer = False and for_store = True,
     THEN conjunct2, THEN conjunct2, THEN conjunct1, THEN mp, OF c]
  note t4 = choose_tlb_format_buffer_transfers
    [where fb = ?fb and img = ?img and layer = 0 and region = ?reg
       and ext = example_externals and job = "example_job 64 40" and buffer = example_buffer,
     THEN conjunct2, THEN conjunct2, THEN conjunct2, THEN mp, OF h4]
  have t4a: "\<exists>job'. emit_copy_layer_to_buffer_per_tile_list example_externals (example_job 64 40)
              ?fb example_buffer ?img 0 ?reg = Inr job' \<and>
          map input_image_format (loads_of (indirect job')) = [V3D_OUTPUT_IMAGE_FORMAT_RGBA8UI] \<and>
          map output_image_format (stores_of (indirect job')) = [V3D_OUTPUT_IMAGE_FORMAT_R8UI]"
    using t4 [THEN conjunct1] by (simp add: ind am aspect_bits_disjoint)
  have t4b: "\<exists>job'. emit_copy_buffer_to_layer_per_tile_list example_externals (example_job 64 40)
              ?fb ?img example_buffer 0 ?reg = Inr job' \<and>
          hd (map input_image_format (loads_of (indirect job'))) = V3D_OUTPUT_IMAGE_FORMAT_R8UI \<and>
          hd (map output_image_format (stores_of (indirect job')))
            = V3D_OUTPUT_IMAGE_FORMAT_RGBA8UI"
    using t4 [THEN conjunct2] by (simp add: ind am aspect_bits_disjoint)
  show ?thesis
    using f h1 h2 c lc t1 t2 t3 t4a t4b by (intro conjI) simp_all
qed
section \<open>Properties of the channel-order fixups\<close>

lemma copy_layer_to_buffer_d24_flags:
  assumes fmt: "vk_format fb = VK_FORMAT_X8_D24_UNORM_PACK32 \<or>
              vk_format fb = VK_FORMAT_D24_UNORM_S8_UINT"
    and depth: "aspectMask (imageSubresource region) AND VK_IMAGE_ASPECT_DEPTH_BIT \<noteq> 0"
    and layer: "(image_type img \<noteq> VK_IMAGE_TYPE_3D \<and> layer < layerCount (imageSubresource region))
                \<or> layer < extent_depth img"
  shows "(\<exists>job'. emit_copy_layer_to_buffer_per_tile_list ext job fb buffer img layer region
                 = Inr job' \<and>
          map (\<lambda>l. (load_r_b_swap l, load_channel_reverse l))
              (loads_of (drop (length (indirect job)) (indirect job')))
            = [(True, True)] \<and>
          map (\<lambda>s. (store_r_b_swap s, store_channel_reverse s))
              (stores_of (drop (length (indirect job)) (indirect job')))
            = [(False, False)])"
  using fmt
proof
  assume "vk_format fb = VK_FORMAT_X8_D24_UNORM_PACK32"
  then show ?thesis
    using depth layer unfolding emit_copy_layer_to_buffer_per_tile_list_def
    by (simp add: Let_def emit_image_load_def emit_linear_store_def choose_tlb_format_def
        zero_load_def zero_store_def loads_of_append stores_of_append)
next
  assume "vk_format fb = VK_FORMAT_D24_UNORM_S8_UINT"
  then show ?thesis
    using depth layer unfolding emit_copy_layer_to_buffer_per_tile_list_def
    by (simp add: Let_def emit_image_load_def emit_linear_store_def choose_tlb_format_def
        zero_load_def zero_store_def loads_of_append stores_of_append)
qed

lemma copy_buffer_to_layer_d24_flags:
  assumes fmt: "vk_format fb = VK_FORMAT_X8_D24_UNORM_PACK32 \<or>
              vk_format fb = VK_FORMAT_D24_UNORM_S8_UINT"
    and depth: "aspectMask (imageSubresource region) AND VK_IMAGE_ASPECT_DEPTH_BIT \<noteq> 0"
    and layer: "(image_type img \<noteq> VK_IMAGE_TYPE_3D \<and> layer < layerCount (imageSubresource region))
                \<or> layer < extent_depth img"
  shows "(\<exists>job'. emit_copy_buffer_to_layer_per_tile_list ext job fb img buffer layer region
                 = Inr job' \<and>
          map (\<lambda>l. (load_r_b_swap l, load_channel_reverse l))
              (loads_of (drop (length (indirect job)) (indirect job')))
            = (False, False) #
              (if vk_format fb = VK_FORMAT_D24_UNORM_S8_UINT then [(False, False)] else []) \<and>
          map (\<lambda>s. (store_r_b_swap s, store_channel_reverse s))
              (stores_of (drop (length (indirect job)) (indirect job')))
            = (True, True) #
              (if vk_format fb = VK_FORMAT_D24_UNORM_S8_UINT then [(False, False)] else []))"
  using fmt
proof
  assume "vk_format fb = VK_FORMAT_X8_D24_UNORM_PACK32"
  then show ?thesis
    using depth layer unfolding emit_copy_buffer_to_layer_per_tile_list_def
    by (simp add: Let_def emit_image_load_def emit_image_store_def emit_linear_load_def
        choose_tlb_format_def zero_load_def zero_store_def loads_of_append stores_of_append
        aspect_bits_disjoint)
next
  assume "vk_format fb = VK_FORMAT_D24_UNORM_S8_UINT"
  then show ?thesis
    using depth layer unfolding emit_copy_buffer_to_layer_per_tile_list_def
    by (simp add: Let_def emit_image_load_def emit_image_store_def emit_linear_load_def
        choose_tlb_format_def zero_load_def zero_store_def loads_of_append stores_of_append
        aspect_bits_disjoint)
qed

lemma emit_image_load_color_flags:
  assumes "aspect AND VK_IMAGE_ASPECT_COLOR_BIT \<noteq> 0"
  shows "(\<exists>l. emit_image_load ext cl fb img aspect layer mip_level False False
                = Inr (cl @ [LOAD_TILE_BUFFER_GENERAL l]) \<and>
           load_r_b_swap l = (v3dv_get_format_swizzle ext (vk_format fb) 0 = PIPE_SWIZZLE_Z) \<and>
           \<not> load_channel_reverse l)"
  using assms
  by (simp add: emit_image_load_def choose_tlb_format_def format_needs_rb_swap_def Let_def)

lemma emit_image_store_color_flags:
  assumes "aspect AND VK_IMAGE_ASPECT_COLOR_BIT \<noteq> 0"
  shows "(\<exists>s. emit_image_store ext cl fb img aspect layer mip_level False False
                = Inr (cl @ [STORE_TILE_BUFFER_GENERAL s]) \<and>
           store_r_b_swap s = (v3dv_get_format_swizzle ext (vk_format fb) 0 = PIPE_SWIZZLE_Z) \<and>
           \<not> store_channel_reverse s)"
  using assms
  by (simp add: emit_image_store_def choose_tlb_format_def format_needs_rb_swap_def Let_def)

text \<open>
  Claim C5, as amended.  For every copy of the depth aspect of a 24-bit depth format
  (X8_D24 or D24S8) to or from a linear buffer, the channel-reverse and red-blue-swap
  flags are both set on the image-side record of the copy and only there: on the image
  load when copying to a buffer, on the image store when copying from a buffer.  The
  buffer-side record of the same copy (the linear store, respectively the linear load)
  sets neither flag, and neither do the load and store of the preserved aspect of a
  D24S8 upload.  For a color load or store that is not part of a buffer copy, red-blue
  swap is set if and only if the first channel of the format's swizzle is
  \<open>PIPE_SWIZZLE_Z\<close> (blue), and channel-reverse is never set.
\<close>

theorem depth24_channel_fixup_flags:
  "((vk_format fb = VK_FORMAT_X8_D24_UNORM_PACK32 \<or>
              vk_format fb = VK_FORMAT_D24_UNORM_S8_UINT) \<and>
    aspectMask (imageSubresource region) AND VK_IMAGE_ASPECT_DEPTH_BIT \<noteq> 0 \<and>
    ((image_type img \<noteq> VK_IMAGE_TYPE_3D \<and> layer < layerCount (imageSubresource region))
                \<or> layer < extent_depth img) \<longrightarrow>
      (\<exists>job'. emit_copy_layer_to_buffer_per_tile_list ext job fb buffer img layer region
                 = Inr job' \<and>
          map (\<lambda>l. (load_r_b_swap l, load_channel_reverse l))
              (loads_of (drop (length (indirect job)) (indirect job')))
            = [(True, True)] \<and>
          map (\<lambda>s. (store_r_b_swap s, store_channel_reverse s))
              (stores_of (drop (length (indirect job)) (indirect job')))
            = [(False, False)]) \<and>
      (\<exists>job'. emit_copy_buffer_to_layer_per_tile_list ext job fb img buffer layer region
                 = Inr job' \<and>
          map (\<lambda>l. (load_r_b_swap l, load_channel_reverse l))
              (loads_of (drop (length (indirect job)) (indirect job')))
            = (False, False) #
              (if vk_format fb = VK_FORMAT_D24_UNORM_S8_UINT then [(False, False)] else []) \<and>
          map (\<lambda>s. (store_r_b_swap s, store_channel_reverse s))
              (stores_of (drop (length (indirect job)) (indirect job')))
            = (True, True) #
              (if vk_format fb = VK_FORMAT_D24_UNORM_S8_UINT then [(False, False)] else []))) \<and>
   (aspect AND VK_IMAGE_ASPECT_COLOR_BIT \<noteq> 0 \<longrightarrow>
      (\<exists>l. emit_image_load ext cl fb img aspect layer mip_level False False
                = Inr (cl @ [LOAD_TILE_BUFFER_GENERAL l]) \<and>
           load_r_b_swap l = (v3dv_get_format_swizzle ext (vk_format fb) 0 = PIPE_SWIZZLE_Z) \<and>
           \<not> load_channel_reverse l) \<and>
      (\<exists>s. emit_image_store ext cl fb img aspect layer mip_level False False
                = Inr (cl @ [STORE_TILE_BUFFER_GENERAL s]) \<and>
           store_r_b_swap s = (v3dv_get_format_swizzle ext (vk_format fb) 0 = PIPE_SWIZZLE_Z) \<and>
           \<not> store_channel_reverse s))"
proof (intro conjI)
  show "(vk_format fb = VK_FORMAT_X8_D24_UNORM_PACK32 \<or>
              vk_format fb = VK_FORMAT_D24_UNORM_S8_UINT) \<and>
    aspectMask (imageSubresource region) AND VK_IMAGE_ASPECT_DEPTH_BIT \<noteq> 0 \<and>
    ((image_type img \<noteq> VK_IMAGE_TYPE_3D \<and> layer < layerCount (imageSubresource region))
                \<or> layer < extent_depth img) \<longrightarrow>
      (\<exists>job'. emit_copy_layer_to_buffer_per_tile_list ext job fb buffer img layer region
                 = Inr job' \<and>
          map (\<lambda>l. (load_r_b_swap l, load_channel_reverse l))
              (loads_of (drop (length (indirect job)) (indirect job')))
            = [(True, True)] \<and>
          map (\<lambda>s. (store_r_b_swap s, store_channel_reverse s))
              (stores_of (drop (length (indirect job)) (indirect job')))
            = [(False, False)]) \<and>
      (\<exists>job'. emit_copy_buffer_to_layer_per_tile_list ext job fb img buffer layer region
                 = Inr job' \<and>
          map (\<lambda>l. (load_r_b_swap l, load_channel_reverse l))
              (loads_of (drop (length (indirect job)) (indirect job')))
            = (False, False) #
              (if vk_format fb = VK_FORMAT_D24_UNORM_S8_UINT then [(False, False)] else []) \<and>
          map (\<lambda>s. (store_r_b_swap s, store_channel_reverse s))
              (stores_of (drop (length (indirect job)) (indirect job')))
            = (True, True) #
              (if vk_format fb = VK_FORMAT_D24_UNORM_S8_UINT then [(False, False)] else []))"
  proof (intro impI, elim conjE, intro conjI)
    assume f: "vk_format fb = VK_FORMAT_X8_D24_UNORM_PACK32 \<or>
              vk_format fb = VK_FORMAT_D24_UNORM_S8_UINT"
      and d: "aspectMask (imageSubresource region) AND VK_IMAGE_ASPECT_DEPTH_BIT \<noteq> 0"
      and l: "(image_type img \<noteq> VK_IMAGE_TYPE_3D \<and> layer < layerCount (imageSubresource region))
                \<or> layer < extent_depth img"
    show "(\<exists>job'. emit_copy_layer_to_buffer_per_tile_list ext job fb buffer img layer region
                 = Inr job' \<and>
          map (\<lambda>l. (load_r_b_swap l, load_channel_reverse l))
              (loads_of (drop (length (indirect job)) (indirect job')))
            = [(True, True)] \<and>
          map (\<lambda>s. (store_r_b_swap s, store_channel_reverse s))
              (stores_of (drop (length (indirect job)) (indirect job')))
            = [(False, False)])"
      using f d l by (rule copy_layer_to_buffer_d24_flags)
    show "(\<exists>job'. emit_copy_buffer_to_layer_per_tile_list ext job fb img buffer layer region
                 = Inr job' \<and>
          map (\<lambda>l. (load_r_b_swap l, load_channel_reverse l))
              (loads_of (drop (length (indirect job)) (indirect job')))
            = (False, False) #
              (if vk_format fb = VK_FORMAT_D24_UNORM_S8_UINT then [(False, False)] else []) \<and>
          map (\<lambda>s. (store_r_b_swap s, store_channel_reverse s))
              (stores_of (drop (length (indirect job)) (indirect job')))
            = (True, True) #
              (if vk_format fb = VK_FORMAT_D24_UNORM_S8_UINT then [(False, False)] else []))"
      using f d l by (rule copy_buffer_to_layer_d24_flags)
  qed
  show "aspect AND VK_IMAGE_ASPECT_COLOR_BIT \<noteq> 0 \<longrightarrow>
      (\<exists>l. emit_image_load ext cl fb img aspect layer mip_level False False
                = Inr (cl @ [LOAD_TILE_BUFFER_GENERAL l]) \<and>
           load_r_b_swap l = (v3dv_get_format_swizzle ext (vk_format fb) 0 = PIPE_SWIZZLE_Z) \<and>
           \<not> load_channel_reverse l) \<and>
      (\<exists>s. emit_image_store ext cl fb img aspect layer mip_level False False
                = Inr (cl @ [STORE_TILE_BUFFER_GENERAL s]) \<and>
           store_r_b_swap s = (v3dv_get_format_swizzle ext (vk_format fb) 0 = PIPE_SWIZZLE_Z) \<and>
           \<not> store_channel_reverse s)"
  proof (intro impI conjI)
    assume c: "aspect AND VK_IMAGE_ASPECT_COLOR_BIT \<noteq> 0"
    show "(\<exists>l. emit_image_load ext cl fb img aspect layer mip_level False False
                = Inr (cl @ [LOAD_TILE_BUFFER_GENERAL l]) \<and>
           load_r_b_swap l = (v3dv_get_format_swizzle ext (vk_format fb) 0 = PIPE_SWIZZLE_Z) \<and>
           \<not> load_channel_reverse l)"
      using c by (rule emit_image_load_color_flags)
    show "(\<exists>s. emit_image_store ext cl fb img aspect layer mip_level False False
                = Inr (cl @ [STORE_TILE_BUFFER_GENERAL s]) \<and>
           store_r_b_swap s = (v3dv_get_format_swizzle ext (vk_format fb) 0 = PIPE_SWIZZLE_Z) \<and>
           \<not> store_channel_reverse s)"
      using c by (rule emit_image_store_color_flags)
  qed
qed

theorem depth24_channel_fixup_flags_counterexample:
  "emit_copy_layer_to_buffer_per_tile_list example_externals (example_job 64 40)
     (example_framebuffer VK_FORMAT_D24_UNORM_S8_UINT) example_buffer
     (example_image VC5_TILING_UIF_NO_XOR 5) 0 (example_region VK_IMAGE_ASPECT_DEPTH_BIT)
   = Inr \<lparr>frame_tiling = example_frame_tiling 64 40 1 0,
          rcl = [START_ADDRESS_OF_GENERIC_TILE_LIST 0 7],
          indirect =
            [TILE_COORDINATES_IMPLICIT,
             LOAD_TILE_BUFFER_GENERAL
               \<lparr>buffer_to_load = RENDER_TARGET_0,
                load_address = \<lparr>addr_bo = Some (example_bo 1), addr_offset = 0\<rparr>,
                input_image_format = V3D_OUTPUT_IMAGE_FORMAT_RGBA8UI,
                load_memory_format = VC5_TILING_UIF_NO_XOR,
                load_height_in_ub_or_stride = 5,
                load_decimate_mode = V3D_DECIMATE_MODE_SAMPLE_0,
                load_r_b_swap = True, load_channel_reverse = True\<rparr>,
             END_OF_LOADS,
             BRANCH_TO_IMPLICIT_TILE_LIST,
             STORE_TILE_BUFFER_GENERAL
               \<lparr>buffer_to_store = RENDER_TARGET_0,
                store_address = \<lparr>addr_bo = Some (example_bo 2), addr_offset = 0\<rparr>,
                clear_buffer_being_stored = False,
                output_image_format = V3D_OUTPUT_IMAGE_FORMAT_RGBA8UI,
                store_memory_format = VC5_TILING_RASTER,
                store_height_in_ub_or_stride = 256,
                store_decimate_mode = V3D_DECIMATE_MODE_SAMPLE_0,
                store_r_b_swap = False, store_channel_reverse = False\<rparr>,
             END_OF_TILE_MARKER,
             RETURN_FROM_SUB_LIST]\<rparr>"
  by (simp add: emit_copy_layer_to_buffer_per_tile_list_def emit_image_load_def
      emit_linear_store_def choose_tlb_format_def zero_load_def zero_store_def
      zero_address_def v3dv_cl_address_def Let_def
      example_externals_def example_job_def example_framebuffer_def example_buffer_def
      example_image_def example_region_def
      VK_IMAGE_ASPECT_COLOR_BIT_def VK_IMAGE_ASPECT_DEPTH_BIT_def
      VK_IMAGE_ASPECT_STENCIL_BIT_def VK_SAMPLE_COUNT_1_BIT_def)

theorem depth24_channel_fixup_flags_witness:
  "(vk_format (example_framebuffer VK_FORMAT_D24_UNORM_S8_UINT) = VK_FORMAT_X8_D24_UNORM_PACK32 \<or>
    vk_format (example_framebuffer VK_FORMAT_D24_UNORM_S8_UINT) = VK_FORMAT_D24_UNORM_S8_UINT) \<and>
   aspectMask (imageSubresource (example_region VK_IMAGE_ASPECT_DEPTH_BIT))
     AND VK_IMAGE_ASPECT_DEPTH_BIT \<noteq> 0 \<and>
   (0 :: uint32_t) < layerCount (imageSubresource (example_region VK_IMAGE_ASPECT_DEPTH_BIT)) \<and>
   (\<exists>job'. emit_copy_layer_to_buffer_per_tile_list example_externals (example_job 64 40)
              (example_framebuffer VK_FORMAT_D24_UNORM_S8_UINT) example_buffer
              (example_image VC5_TILING_UIF_NO_XOR 5) 0
              (example_region VK_IMAGE_ASPECT_DEPTH_BIT) = Inr job' \<and>
          map (\<lambda>l. (load_r_b_swap l, load_channel_reverse l)) (loads_of (indirect job'))
            = [(True, True)] \<and>
          map (\<lambda>s. (store_r_b_swap s, store_channel_reverse s)) (stores_of (indirect job'))
            = [(False, False)]) \<and>
   (\<exists>job'. emit_copy_buffer_to_layer_per_tile_list example_externals (example_job 64 40)
              (example_framebuffer VK_FORMAT_D24_UNORM_S8_UINT)
              (example_image VC5_TILING_UIF_NO_XOR 5) example_buffer 0
              (example_region VK_IMAGE_ASPECT_DEPTH_BIT) = Inr job' \<and>
          map (\<lambda>l. (load_r_b_swap l, load_channel_reverse l)) (loads_of (indirect job'))
            = [(False, False), (False, False)] \<and>
          map (\<lambda>s. (store_r_b_swap s, store_channel_reverse s)) (stores_of (indirect job'))
            = [(True, True), (False, False)]) \<and>
   VK_IMAGE_ASPECT_COLOR_BIT AND VK_IMAGE_ASPECT_COLOR_BIT \<noteq> 0 \<and>
   (\<exists>l. emit_image_load example_externals [] (example_framebuffer (VK_FORMAT_other 44))
           (example_image VC5_TILING_UIF_NO_XOR 5) VK_IMAGE_ASPECT_COLOR_BIT 0 0 False False
           = Inr [LOAD_TILE_BUFFER_GENERAL l] \<and>
        load_r_b_swap l \<and> \<not> load_channel_reverse l) \<and>
   (\<exists>s. emit_image_store example_externals [] (example_framebuffer VK_FORMAT_R8G8B8A8_UINT)
           (example_image VC5_TILING_UIF_NO_XOR 5) VK_IMAGE_ASPECT_COLOR_BIT 0 0 False False
           = Inr [STORE_TILE_BUFFER_GENERAL s] \<and>
        \<not> store_r_b_swap s \<and> \<not> store_channel_reverse s)"
proof -
  let ?fb = "example_framebuffer VK_FORMAT_D24_UNORM_S8_UINT"
  let ?img = "example_image VC5_TILING_UIF_NO_XOR 5"
  let ?reg = "example_region VK_IMAGE_ASPECT_DEPTH_BIT"
  have f: "vk_format ?fb = VK_FORMAT_D24_UNORM_S8_UINT" by (simp add: example_framebuffer_def)
  have am: "aspectMask (imageSubresource ?reg) = VK_IMAGE_ASPECT_DEPTH_BIT"
    by (simp add: example_region_def)
  have lc: "(0 :: uint32_t) < layerCount (imageSubresource ?reg)"
    by (simp add: example_region_def)
  have it: "image_type ?img \<noteq> VK_IMAGE_TYPE_3D" by (simp add: example_image_def)
  have ind: "indirect (example_job 64 40) = []" by (simp add: example_job_def)
  have h1: "(vk_format ?fb = VK_FORMAT_X8_D24_UNORM_PACK32 \<or>
             vk_format ?fb = VK_FORMAT_D24_UNORM_S8_UINT) \<and>
    aspectMask (imageSubresource ?reg) AND VK_IMAGE_ASPECT_DEPTH_BIT \<noteq> 0 \<and>
    ((image_type ?img \<noteq> VK_IMAGE_TYPE_3D \<and> 0 < layerCount (imageSubresource ?reg))
       \<or> 0 < extent_depth ?img)"
    using f it lc by (simp add: am aspect_bits_disjoint)
  have h2: "VK_IMAGE_ASPECT_COLOR_BIT AND VK_IMAGE_ASPECT_COLOR_BIT \<noteq> 0"
    by (simp add: aspect_bits_disjoint)
  note t1 = depth24_channel_fixup_flags
    [where fb = ?fb and img = ?img and layer = 0 and region = ?reg
       and ext = example_externals and job = "example_job 64 40" and buffer = example_buffer,
     THEN conjunct1, THEN mp, OF h1]
  note t2 = depth24_channel_fixup_flags
    [where fb = "example_framebuffer (VK_FORMAT_other 44)" and img = ?img and layer = 0
       and mip_level = 0 and aspect = VK_IMAGE_ASPECT_COLOR_BIT and cl = "[]"
       and ext = example_externals,
     THEN conjunct2, THEN mp, OF h2, THEN conjunct1]
  note t3 = depth24_channel_fixup_flags
    [where fb = "example_framebuffer VK_FORMAT_R8G8B8A8_UINT" and img = ?img and layer = 0
       and mip_level = 0 and aspect = VK_IMAGE_ASPECT_COLOR_BIT and cl = "[]"
       and ext = example_externals,
     THEN conjunct2, THEN mp, OF h2, THEN conjunct2]
  have a: "\<exists>job'. emit_copy_layer_to_buffer_per_tile_list example_externals (example_job 64 40)
              ?fb example_buffer ?img 0 ?reg = Inr job' \<and>
          map (\<lambda>l. (load_r_b_swap l, load_channel_reverse l)) (loads_of (indirect job'))
            = [(True, True)] \<and>
          map (\<lambda>s. (store_r_b_swap s, store_channel_reverse s)) (stores_of (indirect job'))
            = [(False, False)]"
    using t1 [THEN conjunct1] by (simp add: ind)
  have b: "\<exists>job'. emit_copy_buffer_to_layer_per_tile_list example_externals (example_job 64 40)
              ?fb ?img example_buffer 0 ?reg = Inr job' \<and>
          map (\<lambda>l. (load_r_b_swap l, load_channel_reverse l)) (loads_of (indirect job'))
            = [(False, False), (False, False)] \<and>
          map (\<lambda>s. (store_r_b_swap s, store_channel_reverse s)) (stores_of (indirect job'))
            = [(True, True), (False, False)]"
    using t1 [THEN conjunct2] by (simp add: ind f)
  have c: "\<exists>l. emit_image_load example_externals [] (example_framebuffer (VK_FORMAT_other 44))
           ?img VK_IMAGE_ASPECT_COLOR_BIT 0 0 False False
           = Inr [LOAD_TILE_BUFFER_GENERAL l] \<and>
        load_r_b_swap l \<and> \<not> load_channel_reverse l"
    using t2 by (simp add: example_externals_def example_framebuffer_def)
  have d: "\<exists>s. emit_image_store example_externals [] (example_framebuffer VK_FORMAT_R8G8B8A8_UINT)
           ?img VK_IMAGE_ASPECT_COLOR_BIT 0 0 False False
           = Inr [STORE_TILE_BUFFER_GENERAL s] \<and>
        \<not> store_r_b_swap s \<and> \<not> store_channel_reverse s"
    using t3 by (simp add: example_externals_def example_framebuffer_def)
  show ?thesis
    using h1 h2 lc a b c d by (intro conjI) simp_all
qed
section \<open>Properties of the single-aspect upload\<close>




section \<open>Buffer copies: item size, jobs and offsets\<close>

lemma framebuffer_size_total:
  assumes "0 < n"
  shows "\<exists>w h. framebuffer_size_for_pixel_count n = Inr (w, h)"
proof (cases "n \<le> max_pixels")
  case True
  from framebuffer_size_small [OF assms True] show ?thesis by blast
next
  case False
  then have "max_pixels < n" by simp
  then have "framebuffer_size_for_pixel_count n = Inr (4096, 4096)"
    by (rule framebuffer_size_large)
  then show ?thesis by blast
qed

lemma job_sizes_sum:
  "job_sizes n cs \<Longrightarrow> sum_list (map chunk_items cs) = unat n"
proof (induction cs arbitrary: n)
  case Nil
  then show ?case by simp
next
  case (Cons c cs)
  obtain w h where c: "c = (w, h)" by (cases c)
  from Cons.prems have f: "framebuffer_size_for_pixel_count n = Inr (w, h)"
    and r: "job_sizes (n - w * h) cs"
    by (simp_all add: c)
  note i = framebuffer_size_items [OF f]
  have le: "w * h \<le> n" using i(1,3) by (simp add: word_le_nat_alt)
  have "unat (n - w * h) = unat n - unat (w * h)" using le by (rule unat_sub)
  then have u: "unat (n - w * h) = unat n - unat w * unat h" by (simp only: i(1))
  have s: "sum_list (map chunk_items cs) = unat n - unat w * unat h"
    using Cons.IH [OF r] u by simp
  have "chunk_items c = unat w * unat h" by (simp add: c chunk_items_def)
  then show ?case using s i(3) by simp
qed

text \<open>One job of a buffer copy: it is always emitted, and its tile list has one load, from
  the source at the source offset, and one store, to the destination at the destination
  offset, both in the format of the copy.\<close>

lemma emit_copy_buffer_rcl_job:
  "\<exists>j. emit_copy_buffer_rcl ext \<lparr>frame_tiling = ft, rcl = [], indirect = []\<rparr>
          dst_bo src_bo d_off s_off fb fmt = Inr j
       \<and> frame_tiling j = ft
       \<and> job_loads j = [(v3dv_cl_address src_bo s_off, fmt)]
       \<and> job_stores j = [(v3dv_cl_address dst_bo d_off, fmt)]"
  by (simp add: emit_copy_buffer_rcl_def emit_rcl_prologue_def emit_frame_setup_def
      emit_copy_buffer_def emit_copy_buffer_per_tile_list_def emit_supertile_coordinates_def
      emit_linear_load_def emit_linear_store_def Let_def job_loads_def job_stores_def
      zero_load_def zero_store_def)

text \<open>
  The loop of \<open>copy_buffer\<close>, when every job can be started and every frame has
  supertiles of non-zero size: it ends, having added one job for each rectangle.
\<close>

lemma copy_buffer_loop_jobs:
  assumes start: "\<forall>c. v3dv_cmd_buffer_start_job ext c"
    and frame: "\<forall>w h. tile_width (v3dv_job_start_frame ext w h 1 1 V3D_INTERNAL_BPP_32)
                         * supertile_width (v3dv_job_start_frame ext w h 1 1 V3D_INTERNAL_BPP_32)
                       \<noteq> 0
                     \<and> tile_height (v3dv_job_start_frame ext w h 1 1 V3D_INTERNAL_BPP_32)
                         * supertile_height (v3dv_job_start_frame ext w h 1 1 V3D_INTERNAL_BPP_32)
                       \<noteq> 0"
  shows "\<exists>cs js.
           copy_buffer_loop ext dst_bo src_bo isz fmt vk cmd n s_off d_off job
             = Inr (if js = [] then job else Some (last js), cmd\<lparr>jobs := jobs cmd @ js\<rparr>)
         \<and> job_sizes n cs
         \<and> map frame_tiling js
             = map (\<lambda>c. v3dv_job_start_frame ext (fst c) (snd c) 1 1 V3D_INTERNAL_BPP_32) cs
         \<and> map job_loads js
             = map (\<lambda>t. [(v3dv_cl_address src_bo (fst t), fmt)]) (copy_transfers isz s_off d_off cs)
         \<and> map job_stores js
             = map (\<lambda>t. [(v3dv_cl_address dst_bo (snd t), fmt)]) (copy_transfers isz s_off d_off cs)"
proof (induction "unat n" arbitrary: n cmd s_off d_off job rule: less_induct)
  case less
  show ?case
  proof (cases "0 < n")
    case False
    then have z: "n = 0" by (simp add: word_less_nat_alt unat_eq_0)
    have "copy_buffer_loop ext dst_bo src_bo isz fmt vk cmd n s_off d_off job = Inr (job, cmd)"
      by (subst copy_buffer_loop.simps) (simp add: z)
    then show ?thesis
      by (intro exI [of _ "[]"]) (simp add: z)
  next
    case True
    let ?F = "\<lambda>w h. v3dv_job_start_frame ext w h 1 1 V3D_INTERNAL_BPP_32"
    from framebuffer_size_total [OF True] obtain w h
      where fs: "framebuffer_size_for_pixel_count n = Inr (w, h)" by blast
    from frame obtain fb
      where su: "setup_framebuffer_data ext vk V3D_INTERNAL_TYPE_8UI (?F w h) = Inr fb"
      by (simp add: setup_framebuffer_data_def Let_def)
    from emit_copy_buffer_rcl_job [of ext "?F w h" dst_bo src_bo d_off s_off fb fmt]
    obtain j where em: "emit_copy_buffer_rcl ext
          \<lparr>frame_tiling = ?F w h, rcl = [], indirect = []\<rparr> dst_bo src_bo d_off s_off fb fmt
          = Inr j"
      and jf: "frame_tiling j = ?F w h"
      and jl: "job_loads j = [(v3dv_cl_address src_bo s_off, fmt)]"
      and js: "job_stores j = [(v3dv_cl_address dst_bo d_off, fmt)]"
      by (elim exE conjE) (rule that)
    have step: "copy_buffer_loop ext dst_bo src_bo isz fmt vk cmd n s_off d_off job
        = copy_buffer_loop ext dst_bo src_bo isz fmt vk (v3dv_cmd_buffer_finish_job cmd j)
            (n - w * h) (s_off + w * h * isz) (d_off + w * h * isz) (Some j)"
      by (subst copy_buffer_loop.simps) (simp add: True start fs su em Let_def)
    have "unat (n - w * h) < unat n" using fs by (rule framebuffer_size_decreases)
    from less.hyps [OF this, of "v3dv_cmd_buffer_finish_job cmd j"
        "s_off + w * h * isz" "d_off + w * h * isz" "Some j"]
    obtain cs js' where
      r: "copy_buffer_loop ext dst_bo src_bo isz fmt vk (v3dv_cmd_buffer_finish_job cmd j)
            (n - w * h) (s_off + w * h * isz) (d_off + w * h * isz) (Some j)
          = Inr (if js' = [] then Some j else Some (last js'),
                 (v3dv_cmd_buffer_finish_job cmd j)
                   \<lparr>jobs := jobs (v3dv_cmd_buffer_finish_job cmd j) @ js'\<rparr>)"
      and sz: "job_sizes (n - w * h) cs"
      and ft: "map frame_tiling js' = map (\<lambda>c. ?F (fst c) (snd c)) cs"
      and ld: "map job_loads js' = map (\<lambda>t. [(v3dv_cl_address src_bo (fst t), fmt)])
                 (copy_transfers isz (s_off + w * h * isz) (d_off + w * h * isz) cs)"
      and st: "map job_stores js' = map (\<lambda>t. [(v3dv_cl_address dst_bo (snd t), fmt)])
                 (copy_transfers isz (s_off + w * h * isz) (d_off + w * h * isz) cs)"
      by (elim exE conjE) (rule that)
    have res: "copy_buffer_loop ext dst_bo src_bo isz fmt vk cmd n s_off d_off job
        = Inr (if j # js' = [] then job else Some (last (j # js')),
               cmd\<lparr>jobs := jobs cmd @ j # js'\<rparr>)"
      unfolding step r by (simp add: v3dv_cmd_buffer_finish_job_def)
    have sz': "job_sizes n ((w, h) # cs)" using True fs sz by simp
    have ft': "map frame_tiling (j # js') = map (\<lambda>c. ?F (fst c) (snd c)) ((w, h) # cs)"
      using jf ft by simp
    have ld': "map job_loads (j # js') = map (\<lambda>t. [(v3dv_cl_address src_bo (fst t), fmt)])
                 (copy_transfers isz s_off d_off ((w, h) # cs))"
      using jl ld by simp
    have st': "map job_stores (j # js') = map (\<lambda>t. [(v3dv_cl_address dst_bo (snd t), fmt)])
                 (copy_transfers isz s_off d_off ((w, h) # cs))"
      using js st by simp
    show ?thesis
      by (intro exI [of _ "(w, h) # cs"] exI [of _ "j # js'"] conjI res sz' ft' ld' st')
  qed
qed

text \<open>The narrowing of a 64-bit size to 32 bits, and the widening of an item size.\<close>

lemma unat_ucast_64_32: "unat (ucast (x :: VkDeviceSize) :: uint32_t) = unat x mod 2 ^ 32"
  by (simp add: unsigned_ucast_eq take_bit_eq_mod)

lemma unat_ucast_32_64: "unat (ucast (k :: uint32_t) :: VkDeviceSize) = unat k"
proof -
  have "unat k < 2 ^ 32" using unsigned_less [of k, where ?'a = nat] by simp
  then have "unat k < 2 ^ 64" by simp
  then show ?thesis by (simp add: unsigned_ucast_eq take_bit_eq_mod)
qed

lemma size_mod_4_cases:
  "(L :: VkDeviceSize) mod 4 = 0 \<or> L mod 4 = 1 \<or> L mod 4 = 2 \<or> L mod 4 = 3"
proof -
  have b: "unat (L mod 4) = unat L mod 4" by (simp add: unat_mod_distrib)
  have "L mod 4 = of_nat (unat (L mod 4))" by simp
  then have a: "L mod 4 = of_nat (unat L mod 4)" by (simp only: b)
  have "unat L mod 4 = 0 \<or> unat L mod 4 = 1 \<or> unat L mod 4 = 2 \<or> unat L mod 4 = 3" by arith
  then show ?thesis unfolding a by auto
qed

lemma size_mod_4_2: "(L :: VkDeviceSize) mod 4 = 2 \<Longrightarrow> L mod 2 = 0"
proof -
  assume a: "L mod 4 = 2"
  have "unat (L mod 4) = unat L mod 4" by (simp add: unat_mod_distrib)
  then have "unat L mod 4 = 2" using a by simp
  then have "unat L mod 2 = 0" by arith
  then have "unat (L mod 2) = 0" by (simp add: unat_mod_distrib)
  then show ?thesis by (simp only: unat_eq_0)
qed

text \<open>The chosen item size divides the byte length.\<close>

lemma copy_item_size_divides: "L mod ucast (copy_item_size L) = 0"
proof -
  have c: "ucast (4 :: uint32_t) = (4 :: VkDeviceSize)" "ucast (2 :: uint32_t) = (2 :: VkDeviceSize)"
    "ucast (1 :: uint32_t) = (1 :: VkDeviceSize)"
    by simp_all
  show ?thesis
    using size_mod_4_2 [of L] by (simp add: copy_item_size_def c)
qed

lemma copy_item_size_pos: "0 < unat (copy_item_size L)"
  by (simp add: copy_item_size_def)

lemma copy_item_size_divides_nat: "unat L mod unat (copy_item_size L) = 0"
proof -
  have "unat (L mod ucast (copy_item_size L)) = 0"
    by (simp only: copy_item_size_divides unat_eq_0)
  then show ?thesis by (simp add: unat_mod_distrib unat_ucast_32_64)
qed

text \<open>The number of items, when it fits the 32 bits of \<open>num_items\<close>.\<close>

lemma copy_num_items:
  assumes fits: "unat L div unat (copy_item_size L) < 2 ^ 32"
  shows "unat (ucast (L div ucast (copy_item_size L)) :: uint32_t)
           = unat L div unat (copy_item_size L)"
proof -
  have "unat (ucast (L div ucast (copy_item_size L)) :: uint32_t)
          = (unat L div unat (copy_item_size L)) mod 2 ^ 32"
    by (simp only: unat_ucast_64_32 unat_div_distrib unat_ucast_32_64)
  also have "\<dots> = unat L div unat (copy_item_size L)" using fits by simp
  finally show ?thesis .
qed

lemma copy_num_items_pos:
  assumes pos: "0 < L" and fits: "unat L div unat (copy_item_size L) < 2 ^ 32"
  shows "0 < (ucast (L div ucast (copy_item_size L)) :: uint32_t)"
proof -
  have p: "0 < unat L" using pos by (simp add: word_less_nat_alt)
  have "unat (copy_item_size L) dvd unat L"
    using copy_item_size_divides_nat [of L] by (simp add: dvd_eq_mod_eq_0)
  then have "unat (copy_item_size L) \<le> unat L" using p by (rule dvd_imp_le)
  then have "0 < unat L div unat (copy_item_size L)"
    using copy_item_size_pos [of L] by (simp add: div_greater_zero_iff)
  then have "0 < unat (ucast (L div ucast (copy_item_size L)) :: uint32_t)"
    by (simp only: copy_num_items [OF fits])
  then show ?thesis by (simp add: word_less_nat_alt)
qed

text \<open>\<open>copy_buffer\<close> up to its loop, for a length whose item count fits 32 bits.\<close>

lemma copy_buffer_to_loop:
  assumes pos: "0 < copy_size region"
    and fits: "unat (copy_size region) div unat (copy_item_size (copy_size region)) < 2 ^ 32"
  shows "\<exists>vk. copy_buffer ext cmd dst_bo src_bo region
           = copy_buffer_loop ext dst_bo src_bo (copy_item_size (copy_size region))
               (copy_item_format (copy_size region)) vk cmd
               (ucast (copy_size region div ucast (copy_item_size (copy_size region))))
               (ucast (srcOffset region)) (ucast (dstOffset region)) None"
proof -
  note n = copy_num_items_pos [OF pos fits]
  note d = copy_item_size_divides [of "copy_size region"]
  from size_mod_4_cases [of "copy_size region"] show ?thesis
  proof (elim disjE)
    assume r: "copy_size region mod 4 = 0"
    then have i: "copy_item_size (copy_size region) = 4"
      "copy_item_format (copy_size region) = V3D_OUTPUT_IMAGE_FORMAT_RGBA8UI"
      by (simp_all add: copy_item_size_def copy_item_format_def)
    show ?thesis
      using n d unfolding i by (intro exI [of _ VK_FORMAT_R8G8B8A8_UINT])
        (simp add: copy_buffer_def r Let_def)
  next
    assume r: "copy_size region mod 4 = 1"
    then have i: "copy_item_size (copy_size region) = 1"
      "copy_item_format (copy_size region) = V3D_OUTPUT_IMAGE_FORMAT_R8UI"
      by (simp_all add: copy_item_size_def copy_item_format_def)
    show ?thesis
      using n d unfolding i by (intro exI [of _ VK_FORMAT_R8_UINT])
        (simp add: copy_buffer_def r Let_def)
  next
    assume r: "copy_size region mod 4 = 2"
    then have i: "copy_item_size (copy_size region) = 2"
      "copy_item_format (copy_size region) = V3D_OUTPUT_IMAGE_FORMAT_RG8UI"
      by (simp_all add: copy_item_size_def copy_item_format_def)
    show ?thesis
      using n d unfolding i by (intro exI [of _ VK_FORMAT_R8G8_UINT])
        (simp add: copy_buffer_def r Let_def)
  next
    assume r: "copy_size region mod 4 = 3"
    then have i: "copy_item_size (copy_size region) = 1"
      "copy_item_format (copy_size region) = V3D_OUTPUT_IMAGE_FORMAT_R8UI"
      by (simp_all add: copy_item_size_def copy_item_format_def)
    show ?thesis
      using n d unfolding i by (intro exI [of _ VK_FORMAT_R8_UINT])
        (simp add: copy_buffer_def r Let_def)
  qed
qed

text \<open>
  Claim C7, as amended.  For every buffer copy region of byte length \<open>L > 0\<close>, the item
  size chosen from \<open>L mod 4\<close> (4 bytes and RGBA8UI for remainder 0, 2 bytes and RG8UI for
  remainder 2, 1 byte and R8UI for remainders 1 and 3) divides \<open>L\<close>.  When the item count
  \<open>L / item_size\<close> fits the 32 bits of \<open>num_items\<close>, every job can be started and every
  frame has supertiles of non-zero size, \<open>copy_buffer\<close> returns its last job after adding
  one job for each rectangle of the split of \<open>num_items\<close>; the rectangles together hold
  exactly \<open>L / item_size\<close> items, and each job loads from the source and stores to the
  destination, in the chosen format, at offsets that start at the region's offsets (in
  32 bits) and advance by the items copied times the item size.
\<close>

theorem copy_buffer_items_and_offsets:
  assumes pos: "0 < copy_size region"
    and fits: "unat (copy_size region) div unat (copy_item_size (copy_size region)) < 2 ^ 32"
    and start: "\<forall>c. v3dv_cmd_buffer_start_job ext c"
    and frame: "\<forall>w h. tile_width (v3dv_job_start_frame ext w h 1 1 V3D_INTERNAL_BPP_32)
                         * supertile_width (v3dv_job_start_frame ext w h 1 1 V3D_INTERNAL_BPP_32)
                       \<noteq> 0
                     \<and> tile_height (v3dv_job_start_frame ext w h 1 1 V3D_INTERNAL_BPP_32)
                         * supertile_height (v3dv_job_start_frame ext w h 1 1 V3D_INTERNAL_BPP_32)
                       \<noteq> 0"
  shows "unat (copy_size region) mod unat (copy_item_size (copy_size region)) = 0
       \<and> (\<exists>cs js.
             copy_buffer ext cmd_buffer dst_bo src_bo region
               = Inr (Some (last js), cmd_buffer\<lparr>jobs := jobs cmd_buffer @ js\<rparr>)
           \<and> js \<noteq> []
           \<and> length js = length cs
           \<and> job_sizes (ucast (copy_size region div ucast (copy_item_size (copy_size region)))) cs
           \<and> sum_list (map chunk_items cs) * unat (copy_item_size (copy_size region))
               = unat (copy_size region)
           \<and> map frame_tiling js
               = map (\<lambda>c. v3dv_job_start_frame ext (fst c) (snd c) 1 1 V3D_INTERNAL_BPP_32) cs
           \<and> map job_loads js
               = map (\<lambda>t. [(v3dv_cl_address src_bo (fst t), copy_item_format (copy_size region))])
                   (copy_transfers (copy_item_size (copy_size region))
                      (ucast (srcOffset region)) (ucast (dstOffset region)) cs)
           \<and> map job_stores js
               = map (\<lambda>t. [(v3dv_cl_address dst_bo (snd t), copy_item_format (copy_size region))])
                   (copy_transfers (copy_item_size (copy_size region))
                      (ucast (srcOffset region)) (ucast (dstOffset region)) cs))"
proof -
  let ?L = "copy_size region"
  let ?isz = "copy_item_size ?L"
  let ?n = "ucast (?L div ucast ?isz) :: uint32_t"
  let ?F = "\<lambda>c. v3dv_job_start_frame ext (fst c) (snd c) 1 1 V3D_INTERNAL_BPP_32"
  let ?ts = "copy_transfers ?isz (ucast (srcOffset region)) (ucast (dstOffset region))"
  have dv: "unat ?L mod unat ?isz = 0" by (rule copy_item_size_divides_nat)
  from copy_buffer_to_loop [OF pos fits, of ext cmd_buffer dst_bo src_bo] obtain vk
    where u: "copy_buffer ext cmd_buffer dst_bo src_bo region
        = copy_buffer_loop ext dst_bo src_bo ?isz (copy_item_format ?L) vk cmd_buffer ?n
            (ucast (srcOffset region)) (ucast (dstOffset region)) None"
    by blast
  from copy_buffer_loop_jobs [OF start frame, of dst_bo src_bo ?isz "copy_item_format ?L" vk
      cmd_buffer ?n "ucast (srcOffset region)" "ucast (dstOffset region)" None]
  obtain cs js where
    r: "copy_buffer_loop ext dst_bo src_bo ?isz (copy_item_format ?L) vk cmd_buffer ?n
            (ucast (srcOffset region)) (ucast (dstOffset region)) None
        = Inr (if js = [] then None else Some (last js), cmd_buffer\<lparr>jobs := jobs cmd_buffer @ js\<rparr>)"
    and sz: "job_sizes ?n cs"
    and ft: "map frame_tiling js = map ?F cs"
    and ld: "map job_loads js
        = map (\<lambda>t. [(v3dv_cl_address src_bo (fst t), copy_item_format ?L)]) (?ts cs)"
    and st: "map job_stores js
        = map (\<lambda>t. [(v3dv_cl_address dst_bo (snd t), copy_item_format ?L)]) (?ts cs)"
    by (elim exE conjE) (rule that)
  have len: "length js = length cs"
    using arg_cong [OF ft, of length] by simp
  have npos: "0 < ?n" using pos fits by (rule copy_num_items_pos)
  have "cs \<noteq> []" using sz npos by (cases cs) simp_all
  then have ne: "js \<noteq> []" using len by (cases js) simp_all
  have res: "copy_buffer ext cmd_buffer dst_bo src_bo region
      = Inr (Some (last js), cmd_buffer\<lparr>jobs := jobs cmd_buffer @ js\<rparr>)"
    unfolding u r using ne by simp
  have "sum_list (map chunk_items cs) = unat ?L div unat ?isz"
    using job_sizes_sum [OF sz] by (simp only: copy_num_items [OF fits])
  then have total: "sum_list (map chunk_items cs) * unat ?isz = unat ?L"
    using dv by (simp add: dvd_eq_mod_eq_0 [symmetric])
  show ?thesis
    by (intro conjI dv exI [of _ cs] exI [of _ js] res ne len sz total ft ld st)
qed

theorem copy_buffer_items_and_offsets_counterexample:
  "(0 :: VkDeviceSize) < 17179869188
   \<and> unat (17179869188 :: VkDeviceSize) div unat (copy_item_size 17179869188) = 4294967297
   \<and> (\<exists>j. copy_buffer example_externals example_cmd_buffer (example_bo 2) (example_bo 3)
              \<lparr>srcOffset = 0, dstOffset = 0, copy_size = 17179869188\<rparr>
            = Inr (Some j, \<lparr>jobs = [j]\<rparr>)
          \<and> frame_tiling j = example_frame_tiling 1 1 1 0)"
proof -
  let ?F = "example_frame_tiling 1 1 1 0"
  have sl: "size_loop 1 1 = (1, 1)"
    by (subst size_loop.simps) (simp add: max_dim_pixels_def)
  have fs: "framebuffer_size_for_pixel_count 1 = Inr (1, 1)"
    by (simp add: framebuffer_size_for_pixel_count_def sl max_pixels_def max_dim_pixels_def)
  have fr: "v3dv_job_start_frame example_externals 1 1 1 1 V3D_INTERNAL_BPP_32 = ?F"
    by (simp add: example_externals_def V3D_INTERNAL_BPP_32_def)
  obtain fb where su: "setup_framebuffer_data example_externals VK_FORMAT_R8G8B8A8_UINT
      V3D_INTERNAL_TYPE_8UI ?F = Inr fb"
    by (simp add: setup_framebuffer_data_def example_frame_tiling_def Let_def)
  from emit_copy_buffer_rcl_job [of example_externals ?F "example_bo 2" "example_bo 3" 0 0 fb
      V3D_OUTPUT_IMAGE_FORMAT_RGBA8UI]
  obtain j where em: "emit_copy_buffer_rcl example_externals
        \<lparr>frame_tiling = ?F, rcl = [], indirect = []\<rparr> (example_bo 2) (example_bo 3) 0 0 fb
        V3D_OUTPUT_IMAGE_FORMAT_RGBA8UI = Inr j"
    and jf: "frame_tiling j = ?F"
    by (elim exE conjE) (rule that)
  have st: "v3dv_cmd_buffer_start_job example_externals c" for c
    by (simp add: example_externals_def)
  have l0: "copy_buffer_loop example_externals (example_bo 2) (example_bo 3) 4
        V3D_OUTPUT_IMAGE_FORMAT_RGBA8UI VK_FORMAT_R8G8B8A8_UINT
        (v3dv_cmd_buffer_finish_job example_cmd_buffer j) 0 4 4 (Some j)
      = Inr (Some j, \<lparr>jobs = [j]\<rparr>)"
    by (subst copy_buffer_loop.simps)
      (simp add: v3dv_cmd_buffer_finish_job_def example_cmd_buffer_def)
  have l1: "copy_buffer_loop example_externals (example_bo 2) (example_bo 3) 4
        V3D_OUTPUT_IMAGE_FORMAT_RGBA8UI VK_FORMAT_R8G8B8A8_UINT example_cmd_buffer 1 0 0 None
      = Inr (Some j, \<lparr>jobs = [j]\<rparr>)"
    by (subst copy_buffer_loop.simps) (simp add: st fs fr su em l0 Let_def)
  have n: "(4294967297 :: uint32_t) = 1" by simp
  have c: "ucast (4 :: uint32_t) = (4 :: VkDeviceSize)" by simp
  have cb: "copy_buffer example_externals example_cmd_buffer (example_bo 2) (example_bo 3)
        \<lparr>srcOffset = 0, dstOffset = 0, copy_size = 17179869188\<rparr>
      = Inr (Some j, \<lparr>jobs = [j]\<rparr>)"
    by (simp add: copy_buffer_def Let_def c n l1)
  have a: "(0 :: VkDeviceSize) < 17179869188" by simp
  have b: "unat (17179869188 :: VkDeviceSize) div unat (copy_item_size 17179869188) = 4294967297"
    by (simp add: copy_item_size_def)
  show ?thesis
    using a b cb jf by blast
qed

theorem copy_buffer_items_and_offsets_witness:
  "0 < copy_size example_copy_region
   \<and> unat (copy_size example_copy_region)
       div unat (copy_item_size (copy_size example_copy_region)) < 2 ^ 32
   \<and> (\<forall>c. v3dv_cmd_buffer_start_job example_externals c)
   \<and> (\<forall>w h. tile_width (v3dv_job_start_frame example_externals w h 1 1 V3D_INTERNAL_BPP_32)
               * supertile_width
                   (v3dv_job_start_frame example_externals w h 1 1 V3D_INTERNAL_BPP_32)
             \<noteq> 0
           \<and> tile_height (v3dv_job_start_frame example_externals w h 1 1 V3D_INTERNAL_BPP_32)
               * supertile_height
                   (v3dv_job_start_frame example_externals w h 1 1 V3D_INTERNAL_BPP_32)
             \<noteq> 0)
   \<and> copy_item_size (copy_size example_copy_region) = 1
   \<and> (\<exists>cs js.
         copy_buffer example_externals example_cmd_buffer (example_bo 2) (example_bo 3)
           example_copy_region
           = Inr (Some (last js), example_cmd_buffer\<lparr>jobs := jobs example_cmd_buffer @ js\<rparr>)
       \<and> js \<noteq> []
       \<and> length js = length cs
       \<and> sum_list (map chunk_items cs) * unat (copy_item_size (copy_size example_copy_region))
           = unat (copy_size example_copy_region)
       \<and> map job_loads js
           = map (\<lambda>t. [(v3dv_cl_address (example_bo 3) (fst t),
                         copy_item_format (copy_size example_copy_region))])
               (copy_transfers (copy_item_size (copy_size example_copy_region))
                  (ucast (srcOffset example_copy_region))
                  (ucast (dstOffset example_copy_region)) cs))"
proof -
  have h1: "0 < copy_size example_copy_region"
    by (simp add: example_copy_region_def)
  have i: "copy_item_size (copy_size example_copy_region) = 1"
    by (simp add: example_copy_region_def copy_item_size_def)
  have h2: "unat (copy_size example_copy_region)
      div unat (copy_item_size (copy_size example_copy_region)) < 2 ^ 32"
    unfolding i by (simp add: example_copy_region_def)
  have h3: "\<forall>c. v3dv_cmd_buffer_start_job example_externals c"
    by (simp add: example_externals_def)
  have h4: "\<forall>w h. tile_width (v3dv_job_start_frame example_externals w h 1 1 V3D_INTERNAL_BPP_32)
               * supertile_width
                   (v3dv_job_start_frame example_externals w h 1 1 V3D_INTERNAL_BPP_32)
             \<noteq> 0
           \<and> tile_height (v3dv_job_start_frame example_externals w h 1 1 V3D_INTERNAL_BPP_32)
               * supertile_height
                   (v3dv_job_start_frame example_externals w h 1 1 V3D_INTERNAL_BPP_32)
             \<noteq> 0"
    by (simp add: example_externals_def example_frame_tiling_def)
  from copy_buffer_items_and_offsets [OF h1 h2 h3 h4, of example_cmd_buffer "example_bo 2"
      "example_bo 3"]
  have "\<exists>cs js.
         copy_buffer example_externals example_cmd_buffer (example_bo 2) (example_bo 3)
           example_copy_region
           = Inr (Some (last js), example_cmd_buffer\<lparr>jobs := jobs example_cmd_buffer @ js\<rparr>)
       \<and> js \<noteq> []
       \<and> length js = length cs
       \<and> sum_list (map chunk_items cs) * unat (copy_item_size (copy_size example_copy_region))
           = unat (copy_size example_copy_region)
       \<and> map job_loads js
           = map (\<lambda>t. [(v3dv_cl_address (example_bo 3) (fst t),
                         copy_item_format (copy_size example_copy_region))])
               (copy_transfers (copy_item_size (copy_size example_copy_region))
                  (ucast (srcOffset example_copy_region))
                  (ucast (dstOffset example_copy_region)) cs)"
    by (elim conjE exE) (intro exI conjI; assumption)
  then show ?thesis
    using h1 h2 h3 h4 i by (intro conjI)
qed
section \<open>Properties of the modifier sweeps\<close>

lemma for_loop_fold: "for_loop i hi body s = fold body [i..<hi] s"
proof (induction i hi body s rule: for_loop.induct)
  case (1 i hi body s)
  show ?case
  proof (cases "i < hi")
    case True
    then have u: "[i..<hi] = i # [Suc i..<hi]" by (rule upt_conv_Cons)
    have "for_loop i hi body s = for_loop (Suc i) hi body (body i s)"
      by (subst for_loop.simps) (simp only: True if_True)
    then show ?thesis using "1.IH" [OF True] unfolding u by simp
  next
    case False
    then have "for_loop i hi body s = s"
      by (subst for_loop.simps) (simp only: if_False)
    then show ?thesis using False by simp
  qed
qed

lemma upt_4: "[0..<4] = [0, 1, 2, 3]"
  by (simp add: upt_conv_Cons)

lemma upt_8: "[0..<8] = [0, 1, 2, 3, 4, 5, 6, 7]"
  by (simp add: upt_conv_Cons)

lemma upt_16: "[0..<16] = [0, 1, 2, 3, 4, 5, 6, 7, 8, 9, 10, 11, 12, 13, 14, 15]"
  by (simp add: upt_conv_Cons)

text \<open>
  One pass of an inner loop, from any state whose instruction has four-entry flag lists
  with the unused entries clear: what it appends to the calls, and the flags it leaves.
\<close>

lemma fmod_inner_all:
  assumes k: "(fma \<and> sz = 16) = False"
    and a: "src_abs (ins st) = [p, q, False, False]"
    and n: "src_neg (ins st) = [r, s, False, False]"
  shows "map (modifiers \<circ> fst) (tested (for_loop 0 16 (bit_fmod_step test c sz fma om) st))
           = map (modifiers \<circ> fst) (tested st) @ fmod_row om"
    and "src_abs (ins (for_loop 0 16 (bit_fmod_step test c sz fma om) st))
           = [True, True, False, False]"
    and "src_neg (ins (for_loop 0 16 (bit_fmod_step test c sz fma om) st))
           = [True, True, False, False]"
  by (simp_all add: for_loop_fold upt_16 bit_fmod_step_def Let_def modifiers_def fmod_row_def
      k a n)

lemma fmod_inner_skip:
  assumes k: "(fma \<and> sz = 16) = True"
    and a: "src_abs (ins st) = [p, q, False, False]"
    and n: "src_neg (ins st) = [r, s, False, False]"
  shows "map (modifiers \<circ> fst) (tested (for_loop 0 16 (bit_fmod_step test c sz fma om) st))
           = map (modifiers \<circ> fst) (tested st)
             @ filter (\<lambda>(m, ab, ng). \<not> (ab ! 0 \<and> ab ! 1)) (fmod_row om)"
    and "src_abs (ins (for_loop 0 16 (bit_fmod_step test c sz fma om) st))
           = [True, True, False, False]"
    and "src_neg (ins (for_loop 0 16 (bit_fmod_step test c sz fma om) st))
           = [True, True, False, False]"
  by (simp_all add: for_loop_fold upt_16 bit_fmod_step_def Let_def modifiers_def fmod_row_def
      k a n)

lemma fma_inner_all:
  assumes a: "src_abs (ins st) = [False, False, False, False]"
    and n: "src_neg (ins st) = [r, s, t, False]"
  shows "map (modifiers \<circ> fst) (tested (for_loop 0 8 (bit_fma_step test sz om) st))
           = map (modifiers \<circ> fst) (tested st) @ fma_row om"
    and "src_abs (ins (for_loop 0 8 (bit_fma_step test sz om) st))
           = [False, False, False, False]"
    and "src_neg (ins (for_loop 0 8 (bit_fma_step test sz om) st))
           = [True, True, True, False]"
  by (simp_all add: for_loop_fold upt_8 bit_fma_step_def Let_def modifiers_def fma_row_def a n)

text \<open>The four passes of the outer loops.\<close>

lemma outer_loop_4:
  "for_loop 0 4 f st = f 3 (f 2 (f 1 (f 0 st)))"
  by (simp add: for_loop_fold upt_4)

lemma all_fmod_combinations_rows:
  "all_fmod_combinations = fmod_row 0 @ fmod_row 1 @ fmod_row 2 @ fmod_row 3"
  by (simp add: all_fmod_combinations_def fmod_row_def)

lemma all_fma_combinations_rows:
  "all_fma_combinations = fma_row 0 @ fma_row 1 @ fma_row 2 @ fma_row 3"
  by (simp add: all_fma_combinations_def fma_row_def)

lemma fmod_outer_all:
  assumes k: "(fma \<and> sz = 16) = False"
    and a: "src_abs (ins st) = [p, q, False, False]"
    and n: "src_neg (ins st) = [r, s, False, False]"
  shows "map (modifiers \<circ> fst)
           (tested (for_loop 0 4 (\<lambda>om. for_loop 0 16 (bit_fmod_step test c sz fma om)) st))
         = map (modifiers \<circ> fst) (tested st) @ all_fmod_combinations"
proof -
  note s0 = fmod_inner_all [where om = 0 and test = test and c = c, OF k a n]
  note s1 = fmod_inner_all [where om = 1 and test = test and c = c, OF k s0(2) s0(3)]
  note s2 = fmod_inner_all [where om = 2 and test = test and c = c, OF k s1(2) s1(3)]
  note s3 = fmod_inner_all [where om = 3 and test = test and c = c, OF k s2(2) s2(3)]
  show ?thesis
    unfolding outer_loop_4 all_fmod_combinations_rows
    by (simp only: s0(1) s1(1) s2(1) s3(1) append_assoc)
qed

lemma fmod_outer_skip:
  assumes k: "(fma \<and> sz = 16) = True"
    and a: "src_abs (ins st) = [p, q, False, False]"
    and n: "src_neg (ins st) = [r, s, False, False]"
  shows "map (modifiers \<circ> fst)
           (tested (for_loop 0 4 (\<lambda>om. for_loop 0 16 (bit_fmod_step test c sz fma om)) st))
         = map (modifiers \<circ> fst) (tested st)
           @ filter (\<lambda>(m, ab, ng). \<not> (ab ! 0 \<and> ab ! 1)) all_fmod_combinations"
proof -
  note s0 = fmod_inner_skip [where om = 0 and test = test and c = c, OF k a n]
  note s1 = fmod_inner_skip [where om = 1 and test = test and c = c, OF k s0(2) s0(3)]
  note s2 = fmod_inner_skip [where om = 2 and test = test and c = c, OF k s1(2) s1(3)]
  note s3 = fmod_inner_skip [where om = 3 and test = test and c = c, OF k s2(2) s2(3)]
  show ?thesis
    unfolding outer_loop_4 all_fmod_combinations_rows
    by (simp only: s0(1) s1(1) s2(1) s3(1) append_assoc filter_append)
qed

lemma fma_outer_all:
  assumes a: "src_abs (ins st) = [False, False, False, False]"
    and n: "src_neg (ins st) = [r, s, t, False]"
  shows "map (modifiers \<circ> fst)
           (tested (for_loop 0 4 (\<lambda>om. for_loop 0 8 (bit_fma_step test sz om)) st))
         = map (modifiers \<circ> fst) (tested st) @ all_fma_combinations"
proof -
  note s0 = fma_inner_all [where om = 0 and test = test and sz = sz, OF a n]
  note s1 = fma_inner_all [where om = 1 and test = test and sz = sz, OF s0(2) s0(3)]
  note s2 = fma_inner_all [where om = 2 and test = test and sz = sz, OF s1(2) s1(3)]
  note s3 = fma_inner_all [where om = 3 and test = test and sz = sz, OF s2(2) s2(3)]
  show ?thesis
    unfolding outer_loop_4 all_fma_combinations_rows
    by (simp only: s0(1) s1(1) s2(1) s3(1) append_assoc)
qed

lemma fmod_tested:
  "map (modifiers \<circ> fst) (tested (bit_fmod_helper test c sz fma))
     = (if fma \<and> sz = 16
        then filter (\<lambda>(m, ab, ng). \<not> (ab ! 0 \<and> ab ! 1)) all_fmod_combinations
        else all_fmod_combinations)"
proof (cases "fma \<and> sz = 16")
  case True
  then have k: "(fma \<and> sz = 16) = True" by simp
  show ?thesis
    unfolding bit_fmod_helper_def Let_def
    by (subst fmod_outer_skip
        [where p = False and q = False and r = False and s = False, OF k])
      (simp_all add: k)
next
  case False
  then have k: "(fma \<and> sz = 16) = False" by simp
  show ?thesis
    unfolding bit_fmod_helper_def Let_def
    by (subst fmod_outer_all
        [where p = False and q = False and r = False and s = False, OF k])
      (simp_all add: k)
qed

lemma fma_tested:
  "map (modifiers \<circ> fst) (tested (bit_fma_helper test sz)) = all_fma_combinations"
  unfolding bit_fma_helper_def Let_def
  by (subst fma_outer_all [where r = False and s = False and t = False]) simp_all

lemma all_fmod_combinations_count:
  "length all_fmod_combinations = 64"
  "distinct all_fmod_combinations"
  "length (filter (\<lambda>(m, ab, ng). \<not> (ab ! 0 \<and> ab ! 1)) all_fmod_combinations) = 48"
  by (simp_all add: all_fmod_combinations_def)

lemma all_fma_combinations_count:
  "length all_fma_combinations = 32"
  "distinct all_fma_combinations"
  by (simp_all add: all_fma_combinations_def)

text \<open>
  Claim C9, as amended.  The sweep of a two-source operation calls the test once for each
  of the 64 combinations of four output modifiers with the absolute-value and negate flags
  of the two sources, in order and without repetition, except that on the FMA unit at
  16-bit precision the 16 combinations with absolute value on both sources are skipped,
  which leaves 48.  The sweep of the three-source fused multiply-add calls the test once
  for each of the 32 combinations of four output modifiers with the 8 settings of the
  negate flags of the three sources, and skips none.
\<close>

theorem modifier_sweeps_enumerate:
  "map (modifiers \<circ> fst) (tested (bit_fmod_helper test c sz fma))
     = (if fma \<and> sz = 16
        then filter (\<lambda>(m, ab, ng). \<not> (ab ! 0 \<and> ab ! 1)) all_fmod_combinations
        else all_fmod_combinations)
   \<and> length all_fmod_combinations = 64
   \<and> distinct all_fmod_combinations
   \<and> length (filter (\<lambda>(m, ab, ng). \<not> (ab ! 0 \<and> ab ! 1)) all_fmod_combinations) = 48
   \<and> map (modifiers \<circ> fst) (tested (bit_fma_helper test sz)) = all_fma_combinations
   \<and> length all_fma_combinations = 32
   \<and> distinct all_fma_combinations"
  by (intro conjI fmod_tested fma_tested all_fmod_combinations_count
      all_fma_combinations_count)

theorem modifier_sweeps_enumerate_counterexample:
  "length (tested (bit_fma_helper (\<lambda>i f. True) 32)) = 32
   \<and> length (tested (bit_fma_helper (\<lambda>i f. True) 32)) \<noteq> 8"
proof -
  have "length (map (modifiers \<circ> fst) (tested (bit_fma_helper (\<lambda>i f. True) 32)))
          = length all_fma_combinations"
    by (simp only: fma_tested)
  then show ?thesis
    by (simp add: all_fma_combinations_count)
qed

theorem modifier_sweeps_enumerate_witness:
  "length (tested (bit_fmod_helper (\<lambda>i f. True) BI_ADD 16 True)) = 48
   \<and> length (tested (bit_fmod_helper (\<lambda>i f. True) BI_ADD 32 True)) = 64
   \<and> length (tested (bit_fma_helper (\<lambda>i f. True) 16)) = 32"
proof -
  note h = modifier_sweeps_enumerate [of "\<lambda>i f. True" BI_ADD 16 True]
  note f = modifier_sweeps_enumerate [of "\<lambda>i f. True" BI_ADD 32 True]
  from h have a: "map (modifiers \<circ> fst) (tested (bit_fmod_helper (\<lambda>i f. True) BI_ADD 16 True))
      = filter (\<lambda>(m, ab, ng). \<not> (ab ! 0 \<and> ab ! 1)) all_fmod_combinations"
    by simp
  from f have b: "map (modifiers \<circ> fst) (tested (bit_fmod_helper (\<lambda>i f. True) BI_ADD 32 True))
      = all_fmod_combinations"
    by simp
  from h have c: "map (modifiers \<circ> fst) (tested (bit_fma_helper (\<lambda>i f. True) 16))
      = all_fma_combinations"
    by (elim conjE)
  have "length (map (modifiers \<circ> fst) (tested (bit_fmod_helper (\<lambda>i f. True) BI_ADD 16 True)))
      = 48"
    unfolding a using h by (elim conjE)
  moreover have "length (map (modifiers \<circ> fst)
      (tested (bit_fmod_helper (\<lambda>i f. True) BI_ADD 32 True))) = 64"
    unfolding b using h by (elim conjE)
  moreover have "length (map (modifiers \<circ> fst) (tested (bit_fma_helper (\<lambda>i f. True) 16))) = 32"
    unfolding c using h by (elim conjE)
  ultimately show ?thesis
    by (simp only: length_map simp_thms)
qed
section \<open>Properties of the buffer fill entry point\<close>












end
